theory Spec2Isabelle
  imports Complex_Main "HOL-Library.Extended_Nat" "HOL-Library.AList"
begin

section \<open>JavaScript strings and values\<close>

text \<open>
  A string is the list of its UTF-16 code units, one \<open>char\<close> for each; the model
  holds the code units up to U+00FF (ASCII and Latin-1), and on these \<open>length\<close>,
  \<open>toLowerCase\<close>, the character classes of the regular expressions and the
  comparisons are those of the source. The few characters above that range occur only in
  fixed message texts, which the program concatenates and never measures or compares (a
  dash and four pictographs); each is written there as the bytes of its UTF-8 encoding.

  A JavaScript number is represented by the real number it denotes. The grade level of
  a text is computed in doubles, rounding after every operation (section on JavaScript
  numbers below). The similarity of two names is \<open>1 - d / m\<close> for integers \<open>d\<close>
  and \<open>m\<close>, compared with 0.6 and 0.85; it is kept as the exact value, because the
  comparison of the doubles and the comparison of the exact values agree (at
  \<open>d / m = 2 / 5\<close> and \<open>d / m = 3 / 20\<close> the double result is the constant
  itself, and elsewhere the values lie further apart than the rounding error for every
  length a name can have).
  A property that may be absent (\<open>undefined\<close>) is an \<open>option\<close>; an exception is the
  \<open>Inl\<close> of a sum.
\<close>

datatype js_error = Error string | TypeError string

text \<open>
  \<open>String.prototype.toLowerCase\<close> on these code units: the capital letters are A to Z
  (U+0041 to U+005A) and U+00C0 to U+00DE without the multiplication sign U+00D7, and
  the small letter of each lies 32 places further on. No other code unit up to U+00FF
  changes, and none changes the length.
\<close>

definition toLowerCase_char :: "char \<Rightarrow> char" where
  "toLowerCase_char c =
     (let n = (of_char c :: nat)
      in if (65 \<le> n \<and> n \<le> 90) \<or> (192 \<le> n \<and> n \<le> 222 \<and> n \<noteq> 215)
         then char_of (n + 32) else c)"

definition toLowerCase :: "string \<Rightarrow> string" where
  "toLowerCase s = map toLowerCase_char s"

fun startsWith :: "string \<Rightarrow> string \<Rightarrow> bool" where
  "startsWith s [] = True"
| "startsWith [] (p # ps) = False"
| "startsWith (c # cs) (p # ps) = (if c = p then startsWith cs ps else False)"

text \<open>\<open>s.includes(p)\<close>: \<open>p\<close> occurs in \<open>s\<close> as a contiguous substring.\<close>

fun js_includes :: "string \<Rightarrow> string \<Rightarrow> bool" where
  "js_includes [] p = (p = [])"
| "js_includes (c # cs) p = (if startsWith (c # cs) p then True else js_includes cs p)"

text \<open>\<open>xs.join(sep)\<close> on an array of strings.\<close>

fun join :: "string \<Rightarrow> string list \<Rightarrow> string" where
  "join sep [] = []"
| "join sep [x] = x"
| "join sep (x # y # ys) = x @ sep @ join sep (y # ys)"

text \<open>\<open>x || d\<close> on an optional string: the empty string is falsy as well.\<close>

definition truthy :: "string option \<Rightarrow> bool" where
  "truthy x = (case x of None \<Rightarrow> False | Some s \<Rightarrow> s \<noteq> [])"

definition or_else :: "string option \<Rightarrow> string \<Rightarrow> string" where
  "or_else x d = (case x of None \<Rightarrow> d | Some s \<Rightarrow> if s = [] then d else s)"

definition CLARIFICATION_NEEDED :: string where
  "CLARIFICATION_NEEDED = ''CLARIFICATION_NEEDED''"

section \<open>Fuzzy name matching (services/drugService.js)\<close>

text \<open>
  \<open>levenshteinDistance(str1, str2)\<close>. The source fills a matrix row by row:
  row 0 is \<open>0..len2\<close>, column 0 of row \<open>i\<close> is \<open>i\<close>, and every other cell is the
  minimum of the cell above plus one, the cell to the left plus one and the diagonal cell
  plus the substitution cost. \<open>fill_row\<close> is the inner loop over \<open>j\<close> for one row, reading
  the row above; \<open>fill_matrix\<close> is the outer loop over \<open>i\<close>, appending each row.
\<close>

fun fill_row :: "char \<Rightarrow> string \<Rightarrow> nat list \<Rightarrow> nat \<Rightarrow> nat list" where
  "fill_row c (d # ds) (diag # up # prev) left =
     (let cost = (if c = d then 0 else 1);
          cell = min (min (up + 1) (left + 1)) (diag + cost)
      in cell # fill_row c ds (up # prev) cell)"
| "fill_row c _ _ _ = []"

fun fill_matrix :: "string \<Rightarrow> string \<Rightarrow> nat \<Rightarrow> nat list list \<Rightarrow> nat list list" where
  "fill_matrix [] str2 i matrix = matrix"
| "fill_matrix (c # cs) str2 i matrix =
     fill_matrix cs str2 (Suc i) (matrix @ [i # fill_row c str2 (last matrix) i])"

definition levenshteinDistance :: "string \<Rightarrow> string \<Rightarrow> nat" where
  "levenshteinDistance str1 str2 =
     last (last (fill_matrix str1 str2 1 [[0 ..< Suc (length str2)]]))"

section \<open>The terminology and interaction services\<close>

text \<open>
  The RxNorm endpoints are outside the program. Each is a function from the request to
  either an exception (network failure, timeout) or the part of the response body the
  code reads; a run of the program asks each question of one such environment.
\<close>

record concept =
  concept_rxcui :: string
  concept_name :: string

text \<open>An approximate-search hit: a bare string, or an object with optional properties.\<close>

datatype candidate =
  CandidateString string
| CandidateObject (cand_name: "string option") (cand_rxcui: "string option")

record interaction_pair =
  interactionConcept :: "string option list option"
  pair_severity :: "string option"
  pair_description :: "string option"

type_synonym interaction_type = "interaction_pair list option"
type_synonym interaction_group = "interaction_type list option"

record services =
  drugs_json :: "string \<Rightarrow> js_error + concept list option list option"
  approximateTerm_json :: "string \<Rightarrow> js_error + candidate list option"
  rxcui_json :: "string \<Rightarrow> js_error + string list option"
  interaction_json :: "string \<Rightarrow> js_error + interaction_group list option"
  interaction_list_json :: "string \<Rightarrow> js_error + interaction_group list option"

section \<open>Drug name validation (services/drugService.js)\<close>

record lookup_result =
  found :: bool
  concepts :: "concept list option"

text \<open>
  \<open>lookupDrug(drugName)\<close>: an exception of the request is caught and reported as not
  found; otherwise the concept properties of all concept groups are collected.
\<close>

definition lookupDrug :: "services \<Rightarrow> string \<Rightarrow> lookup_result" where
  "lookupDrug svc drugName =
     (case drugs_json svc drugName of
        Inl err \<Rightarrow> \<lparr>found = False, concepts = None\<rparr>
      | Inr None \<Rightarrow> \<lparr>found = False, concepts = None\<rparr>
      | Inr (Some conceptGroup) \<Rightarrow>
          \<lparr>found = True,
           concepts = Some (concat (map (\<lambda>cg. case cg of None \<Rightarrow> [] | Some cps \<Rightarrow> cps)
                                     conceptGroup))\<rparr>)"

record validation =
  valid :: bool
  originalName :: "string option"
  correctedName :: "string option"
  confidence :: real
  rxcui :: "string option"
  wasCorrected :: bool
  suggestions :: "string list option"

record best_match =
  bm_name :: string
  bm_rxcui :: "string option"
  bm_confidence :: real

text \<open>
  \<open>candidate.name || candidate\<close>, followed by the guard
  \<open>!candidateName || typeof candidateName !== 'string'\<close>: the result is the name the
  loop goes on with, or \<open>None\<close> when the loop skips the candidate.
\<close>

fun candidateName :: "candidate \<Rightarrow> string option" where
  "candidateName (CandidateString s) = (if s = [] then None else Some s)"
| "candidateName (CandidateObject n r) = (if truthy n then n else None)"

text \<open>\<open>candidate.rxcui || null\<close>.\<close>

fun candidateRxcui :: "candidate \<Rightarrow> string option" where
  "candidateRxcui (CandidateString s) = None"
| "candidateRxcui (CandidateObject n r) = (if truthy r then r else None)"

definition distance :: "string \<Rightarrow> string \<Rightarrow> nat" where
  "distance drugName cname = levenshteinDistance (toLowerCase drugName) (toLowerCase cname)"

definition similarity :: "string \<Rightarrow> string \<Rightarrow> real" where
  "similarity drugName cname =
     1 - real (distance drugName cname) / real (max (length drugName) (length cname))"

text \<open>
  The loop over the candidates, with the two variables it updates: \<open>bestScore\<close>
  (initially \<open>Infinity\<close>) and \<open>bestMatch\<close> (initially \<open>null\<close>).
\<close>

fun scan_candidates ::
  "string \<Rightarrow> candidate list \<Rightarrow> enat \<Rightarrow> best_match option \<Rightarrow> best_match option" where
  "scan_candidates drugName [] bestScore bestMatch = bestMatch"
| "scan_candidates drugName (c # cs) bestScore bestMatch =
     (case candidateName c of
        None \<Rightarrow> scan_candidates drugName cs bestScore bestMatch
      | Some cname \<Rightarrow>
          if enat (distance drugName cname) < bestScore \<and> similarity drugName cname > 0.6
          then scan_candidates drugName cs (enat (distance drugName cname))
                 (Some \<lparr>bm_name = cname, bm_rxcui = candidateRxcui c,
                         bm_confidence = similarity drugName cname\<rparr>)
          else scan_candidates drugName cs bestScore bestMatch)"

text \<open>
  \<open>candidates.slice(0, 3).map(c => typeof c === 'string' ? c : c.name).filter(Boolean)\<close>.
\<close>

fun suggestion_of :: "candidate \<Rightarrow> string option" where
  "suggestion_of (CandidateString s) = Some s"
| "suggestion_of (CandidateObject n r) = n"

definition suggestions_of :: "candidate list \<Rightarrow> string list" where
  "suggestions_of candidates =
     map the (filter truthy (map suggestion_of (take 3 candidates)))"

definition invalid_result :: "string option \<Rightarrow> string list option \<Rightarrow> validation" where
  "invalid_result drugName sugg =
     \<lparr>valid = False, originalName = drugName, correctedName = None, confidence = 0,
      rxcui = None, wasCorrected = False, suggestions = sugg\<rparr>"

text \<open>
  \<open>validateAndNormalizeDrugName(drugName)\<close>. An exception of the approximate search is
  caught and gives the invalid result without suggestions.
\<close>

definition validateAndNormalizeDrugName :: "services \<Rightarrow> string option \<Rightarrow> validation" where
  "validateAndNormalizeDrugName svc drugName =
     (if \<not> truthy drugName \<or> drugName = Some CLARIFICATION_NEEDED
      then invalid_result drugName None
      else
        let dn = the drugName;
            exactMatch = lookupDrug svc dn
        in case (if found exactMatch then concepts exactMatch else None) of
             Some (c0 # rest) \<Rightarrow>
               \<lparr>valid = True, originalName = drugName, correctedName = Some (concept_name c0),
                confidence = 1, rxcui = Some (concept_rxcui c0), wasCorrected = False,
                suggestions = None\<rparr>
           | _ \<Rightarrow>
               (case approximateTerm_json svc dn of
                  Inl err \<Rightarrow> invalid_result drugName None
                | Inr candidates \<Rightarrow>
                    (case (case candidates of
                             None \<Rightarrow> None
                           | Some cs \<Rightarrow> scan_candidates dn cs \<infinity> None) of
                       Some bestMatch \<Rightarrow>
                         \<lparr>valid = True, originalName = drugName,
                          correctedName = Some (bm_name bestMatch),
                          confidence = bm_confidence bestMatch,
                          rxcui = bm_rxcui bestMatch, wasCorrected = True,
                          suggestions = None\<rparr>
                     | None \<Rightarrow>
                         invalid_result drugName
                           (Some (case candidates of
                                    None \<Rightarrow> []
                                  | Some cs \<Rightarrow> suggestions_of cs)))))"


subsection \<open>Notions used to state the validator's policy\<close>

text \<open>
  A candidate is acceptable for a name when the loop does not skip it and its similarity
  is above the threshold; \<open>cand_distance\<close> and \<open>match_of\<close> are the distance the
  loop compares and the record it keeps for such a candidate.
\<close>

definition acceptable :: "string \<Rightarrow> candidate \<Rightarrow> bool" where
  "acceptable drugName c =
     (case candidateName c of None \<Rightarrow> False | Some n \<Rightarrow> similarity drugName n > 0.6)"

definition cand_distance :: "string \<Rightarrow> candidate \<Rightarrow> nat" where
  "cand_distance drugName c = distance drugName (the (candidateName c))"

definition match_of :: "string \<Rightarrow> candidate \<Rightarrow> best_match" where
  "match_of drugName c =
     \<lparr>bm_name = the (candidateName c), bm_rxcui = candidateRxcui c,
      bm_confidence = similarity drugName (the (candidateName c))\<rparr>"


text \<open>The condition under which the validator goes on to the approximate search.\<close>

definition no_exact_hit :: "services \<Rightarrow> string \<Rightarrow> bool" where
  "no_exact_hit svc dn =
     (\<not> found (lookupDrug svc dn) \<or> concepts (lookupDrug svc dn) = None
      \<or> concepts (lookupDrug svc dn) = Some [])"

text \<open>
  A terminology service with no exact match for any name, whose approximate search
  answers every term with the given hits; the interaction endpoints time out.
\<close>

definition example_services :: "candidate list \<Rightarrow> services" where
  "example_services cs =
     \<lparr>drugs_json = (\<lambda>n. Inr None),
      approximateTerm_json = (\<lambda>n. Inr (Some cs)),
      rxcui_json = (\<lambda>n. Inl (Error ''timeout of 10000ms exceeded'')),
      interaction_json = (\<lambda>n. Inl (Error ''timeout of 10000ms exceeded'')),
      interaction_list_json = (\<lambda>n. Inl (Error ''timeout of 10000ms exceeded''))\<rparr>"

text \<open>A terminology service whose exact lookup resolves every name to one concept.\<close>

definition resolving_services :: services where
  "resolving_services =
     \<lparr>drugs_json = (\<lambda>n. Inr (Some [Some [\<lparr>concept_rxcui = ''1'', concept_name = n\<rparr>]])),
      approximateTerm_json = (\<lambda>n. Inr None),
      rxcui_json = (\<lambda>n. Inl (Error ''timeout of 10000ms exceeded'')),
      interaction_json = (\<lambda>n. Inl (Error ''timeout of 10000ms exceeded'')),
      interaction_list_json = (\<lambda>n. Inl (Error ''timeout of 10000ms exceeded''))\<rparr>"

section \<open>Interaction findings and the safety flag (services/drugService.js)\<close>

text \<open>
  An interaction finding as \<open>checkInteractions\<close> builds it. The \<open>severity\<close> field is
  only present on findings of the single-drug interaction endpoint.
\<close>

record finding =
  tier :: nat
  drug :: string
  description :: string
  severity :: "string option"
  recommendation :: string

datatype flag = RED | YELLOW | GREEN

record safety_verdict =
  flag :: flag
  reasoning :: string

text \<open>
  \<open>determineSafetyFlag(interactions)\<close>. The source's first test
  \<open>!interactions || interactions.length === 0\<close> also covers \<open>null\<close> and
  \<open>undefined\<close>, which are not values of the list type.
\<close>

definition determineSafetyFlag :: "finding list \<Rightarrow> safety_verdict" where
  "determineSafetyFlag interactions =
     (if interactions = [] then
        \<lparr>flag = GREEN,
         reasoning = ''No drug interactions detected. Safe to proceed with prescribed dosage.''\<rparr>
      else
        let hasCritical = list_ex (\<lambda>i. tier i = 1) interactions;
            hasModerate = list_ex (\<lambda>i. tier i = 2) interactions
        in if hasCritical then
             \<lparr>flag = RED,
              reasoning = ''Critical drug interaction detected. Immediate physician consultation required before starting this medication.''\<rparr>
           else if hasModerate then
             \<lparr>flag = YELLOW,
              reasoning = ''Moderate interactions found. Monitor closely and follow up with your doctor within 7 days.''\<rparr>
           else
             \<lparr>flag = GREEN,
              reasoning = ''Only minor dietary interactions found. Safe to proceed with normal precautions.''\<rparr>)"

text \<open>The order in which the flags escalate: GREEN below YELLOW below RED.\<close>

fun flag_rank :: "flag \<Rightarrow> nat" where
  "flag_rank GREEN = 0"
| "flag_rank YELLOW = 1"
| "flag_rank RED = 2"


section \<open>Property lookup on object literals\<close>

text \<open>
  The static tables of the program are object literals, read with \<open>table[key]\<close> where
  the key is computed from a drug name. Such a read finds the table's own properties
  and, failing that, the properties every object inherits from \<open>Object.prototype\<close>,
  whose values are functions (or, for \<open>__proto__\<close>, the prototype object): truthy
  values that are neither arrays nor records of the table. \<open>Object.entries\<close>, in
  contrast, lists the own properties only, in the order of the literal.
\<close>

datatype 'a property = Own 'a | Inherited | Absent

definition Object_prototype :: "string list" where
  "Object_prototype =
     [''constructor'', ''__proto__'', ''hasOwnProperty'', ''isPrototypeOf'',
      ''propertyIsEnumerable'', ''toLocaleString'', ''toString'', ''valueOf'',
      ''__defineGetter__'', ''__defineSetter__'', ''__lookupGetter__'',
      ''__lookupSetter__'']"

definition get_property :: "(string \<times> 'a) list \<Rightarrow> string \<Rightarrow> 'a property" where
  "get_property table key =
     (case map_of table key of
        Some v \<Rightarrow> Own v
      | None \<Rightarrow> if key \<in> set Object_prototype then Inherited else Absent)"

section \<open>Interaction checks (services/drugService.js)\<close>

definition dietaryMap :: "(string \<times> finding list) list" where
  "dietaryMap =
     [(''amlodipine'',
        [\<lparr>tier = 3, drug = ''Grapefruit'',
          description = ''Grapefruit may increase blood levels of amlodipine, increasing the risk of side effects.'',
          severity = None,
          recommendation = ''Avoid grapefruit juice while on this medication.''\<rparr>]),
      (''atorvastatin'',
        [\<lparr>tier = 3, drug = ''Grapefruit'',
          description = ''Grapefruit can increase statin levels in the blood.'',
          severity = None,
          recommendation = ''Limit grapefruit consumption to small amounts.''\<rparr>]),
      (''warfarin'',
        [\<lparr>tier = 2, drug = ''Vitamin K foods'',
          description = ''Foods high in Vitamin K (spinach, kale) can reduce warfarin effectiveness.'',
          severity = None,
          recommendation = ''Keep vitamin K intake consistent day to day.''\<rparr>]),
      (''metformin'',
        [\<lparr>tier = 3, drug = ''Alcohol'',
          description = ''Alcohol increases the risk of lactic acidosis with metformin.'',
          severity = None,
          recommendation = ''Limit alcohol consumption.''\<rparr>]),
      (''lisinopril'',
        [\<lparr>tier = 3, drug = ''Potassium-rich foods'',
          description = ''Lisinopril can increase potassium. Avoid excess bananas, oranges, salt substitutes.'',
          severity = None,
          recommendation = ''Do not take potassium supplements without doctor advice.''\<rparr>]),
      (''ciprofloxacin'',
        [\<lparr>tier = 3, drug = ''Dairy products'',
          description = ''Calcium in dairy can reduce ciprofloxacin absorption.'',
          severity = None,
          recommendation = ''Take 2 hours before or 6 hours after dairy products.''\<rparr>])]"

text \<open>
  \<open>getDietaryInteractions(drugName)\<close> returns \<open>dietaryMap[key] || []\<close>: the table's
  array, the empty array for an absent key, or the inherited value, which is truthy and
  so is returned as it is.
\<close>

datatype dietary_result = Findings "finding list" | Inherited_value

definition getDietaryInteractions :: "string \<Rightarrow> dietary_result" where
  "getDietaryInteractions drugName =
     (let key = toLowerCase drugName
      in case get_property dietaryMap key of
           Own fs \<Rightarrow> Findings fs
         | Absent \<Rightarrow> Findings []
         | Inherited \<Rightarrow> Inherited_value)"

text \<open>
  \<open>interactions.push(...x)\<close> needs \<open>x\<close> to be iterable; a function or a plain
  object is not, and the spread throws a TypeError.
\<close>

definition spread :: "dietary_result \<Rightarrow> js_error + finding list" where
  "spread x =
     (case x of
        Findings fs \<Rightarrow> Inr fs
      | Inherited_value \<Rightarrow>
          Inl (TypeError ''Spread syntax requires ...iterable[Symbol.iterator] to be a function''))"

definition knownInteractions :: "(string \<times> string list) list" where
  "knownInteractions =
     [(''warfarin'', [''aspirin'', ''ibuprofen'', ''naproxen'']),
      (''metformin'', [''alcohol'', ''contrast dye'']),
      (''lisinopril'', [''potassium supplements'', ''spironolactone'']),
      (''sertraline'', [''tramadol'', ''sumatriptan'', ''maoi''])]"

definition fallback_finding :: "string \<Rightarrow> string \<Rightarrow> finding" where
  "fallback_finding drugName med =
     \<lparr>tier = 1, drug = med,
      description = ''Known interaction between '' @ drugName @ '' and '' @ med
                    @ ''. This combination may be dangerous.'',
      severity = None,
      recommendation = ''Contact your physician immediately before taking both medications.''\<rparr>"

text \<open>
  \<open>getFallbackInteractions(drugName, currentMeds)\<close>. When \<open>knownInteractions[key]\<close>
  is an inherited value the loop over the current medications calls its \<open>includes\<close>,
  which does not exist, at the first medication.
\<close>

definition getFallbackInteractions :: "string \<Rightarrow> string list \<Rightarrow> js_error + finding list" where
  "getFallbackInteractions drugName currentMeds =
     (let key = toLowerCase drugName
      in case (case get_property knownInteractions key of
                 Own partners \<Rightarrow>
                   Inr (map (fallback_finding drugName)
                          (filter (\<lambda>med. toLowerCase med \<in> set partners) currentMeds))
               | Inherited \<Rightarrow>
                   if currentMeds = [] then Inr []
                   else Inl (TypeError ''knownInteractions[key].includes is not a function'')
               | Absent \<Rightarrow> Inr []) of
           Inl err \<Rightarrow> Inl err
         | Inr interactions \<Rightarrow>
             (case spread (getDietaryInteractions drugName) of
                Inl err \<Rightarrow> Inl err
              | Inr dietary \<Rightarrow> Inr (interactions @ dietary)))"

definition getRecommendation :: "nat \<Rightarrow> string" where
  "getRecommendation t =
     (if t = 1 then
        ''STOP '' @ [CHR 0xE2, CHR 0x80, CHR 0x94]
        @ '' Contact your physician immediately before taking this medication.''
      else if t = 2 then
        ''Schedule a follow-up with your doctor within 7 days. Monitor for side effects.''
      else ''Be aware of this interaction. Adjust diet as recommended.'')"

text \<open>\<open>getRxCUI(drugName)\<close>: the first identifier, \<open>null\<close> on any failure.\<close>

definition getRxCUI :: "services \<Rightarrow> string \<Rightarrow> string option" where
  "getRxCUI svc drugName =
     (case rxcui_json svc drugName of
        Inl err \<Rightarrow> None
      | Inr None \<Rightarrow> None
      | Inr (Some []) \<Rightarrow> None
      | Inr (Some (i # ids)) \<Rightarrow> Some i)"

text \<open>
  \<open>pair.interactionConcept?.map(c => c.minConceptItem?.name).join(' + ')\<close>: a missing
  name joins as the empty string; the result is absent when there is no concept list.
\<close>

definition interacting_of :: "interaction_pair \<Rightarrow> string option" where
  "interacting_of pair =
     map_option (\<lambda>cs. join '' + '' (map (\<lambda>n. case n of None \<Rightarrow> [] | Some s \<Rightarrow> s) cs))
       (interactionConcept pair)"

definition pair_tier :: "interaction_pair \<Rightarrow> nat" where
  "pair_tier pair =
     (let severity = or_else (pair_severity pair) ''N/A''
      in if severity = ''high''
            \<or> (case pair_description pair of
                  None \<Rightarrow> False
                | Some d \<Rightarrow> js_includes (toLowerCase d) ''life-threatening'')
         then 1
         else if severity = ''moderate'' \<or> severity = ''medium'' then 2
         else 3)"

definition pair_finding :: "string \<Rightarrow> interaction_pair \<Rightarrow> finding" where
  "pair_finding drugName pair =
     \<lparr>tier = pair_tier pair,
      drug = or_else (interacting_of pair) drugName,
      description = or_else (pair_description pair) ''Interaction detected'',
      severity = Some (or_else (pair_severity pair) ''N/A''),
      recommendation = getRecommendation (pair_tier pair)\<rparr>"

definition list_pair_finding :: "interaction_pair \<Rightarrow> finding" where
  "list_pair_finding pair =
     \<lparr>tier = 2,
      drug = or_else (interacting_of pair) ''Unknown'',
      description = or_else (pair_description pair) ''Interaction with current medication'',
      severity = None,
      recommendation = ''Consult your physician about this combination.''\<rparr>"

text \<open>The three nested loops over groups, types (\<open>|| []\<close>) and pairs (\<open>|| []\<close>).\<close>

definition pairs_of :: "interaction_group list \<Rightarrow> interaction_pair list" where
  "pairs_of groups =
     concat (map (\<lambda>group.
       concat (map (\<lambda>type. case type of None \<Rightarrow> [] | Some pairs \<Rightarrow> pairs)
                 (case group of None \<Rightarrow> [] | Some types \<Rightarrow> types))) groups)"

text \<open>
  The body of the \<open>try\<close> block of \<open>checkInteractions\<close>; \<open>Inl\<close> is an exception raised
  inside it.
\<close>

definition checkInteractions_try ::
  "services \<Rightarrow> string \<Rightarrow> string list \<Rightarrow> js_error + finding list" where
  "checkInteractions_try svc drugName currentMeds =
     (case getRxCUI svc drugName of
        None \<Rightarrow> getFallbackInteractions drugName currentMeds
      | Some r \<Rightarrow>
          if r = [] then getFallbackInteractions drugName currentMeds
          else
            (case interaction_json svc r of
               Inl err \<Rightarrow> Inl err
             | Inr groups \<Rightarrow>
                 let single = (case groups of
                                 None \<Rightarrow> []
                               | Some gs \<Rightarrow> map (pair_finding drugName) (pairs_of gs));
                     allRxcuis = r # map the (filter truthy (map (getRxCUI svc) currentMeds))
                 in case (if currentMeds \<noteq> [] \<and> length allRxcuis > 1
                          then (case interaction_list_json svc (join ''+'' allRxcuis) of
                                  Inl err \<Rightarrow> Inl err
                                | Inr None \<Rightarrow> Inr []
                                | Inr (Some gs) \<Rightarrow> Inr (map list_pair_finding (pairs_of gs)))
                          else Inr []) of
                      Inl err \<Rightarrow> Inl err
                    | Inr multi \<Rightarrow>
                        (case spread (getDietaryInteractions drugName) of
                           Inl err \<Rightarrow> Inl err
                         | Inr dietary \<Rightarrow> Inr (single @ multi @ dietary))))"

text \<open>
  \<open>checkInteractions(drugName, currentMeds)\<close>: whatever is thrown inside the \<open>try\<close>
  block is caught, and the handler returns \<open>getFallbackInteractions(drugName, currentMeds)\<close>;
  an exception of that call is not caught by anything in this function.
\<close>

definition checkInteractions ::
  "services \<Rightarrow> string \<Rightarrow> string list \<Rightarrow> js_error + finding list" where
  "checkInteractions svc drugName currentMeds =
     (case checkInteractions_try svc drugName currentMeds of
        Inl err \<Rightarrow> getFallbackInteractions drugName currentMeds
      | Inr interactions \<Rightarrow> Inr interactions)"

section \<open>Enhanced safety checks (utils/safetyChecker.js)\<close>

text \<open>White space as \<open>trim()\<close> and the regular expression class \<open>\s\<close> see it.\<close>

definition is_space :: "char \<Rightarrow> bool" where
  "is_space c = (let n = (of_char c :: nat) in (9 \<le> n \<and> n \<le> 13) \<or> n = 32 \<or> n = 160)"

definition trim :: "string \<Rightarrow> string" where
  "trim s = rev (dropWhile is_space (rev (dropWhile is_space s)))"

record food_entry =
  fe_avoid :: "string list"
  fe_reason :: "string option"
  fe_timing :: "string option"
  fe_note :: "string option"

definition FOOD_INTERACTIONS :: "(string \<times> food_entry) list" where
  "FOOD_INTERACTIONS =
     [(''warfarin'',
        \<lparr>fe_avoid = [''vitamin K-rich foods (spinach, kale)'', ''alcohol'', ''cranberry juice''],
         fe_reason = Some ''Can interfere with blood thinning'', fe_timing = None, fe_note = None\<rparr>),
      (''lisinopril'',
        \<lparr>fe_avoid = [''potassium supplements'', ''bananas'', ''salt substitutes''],
         fe_reason = Some ''Can cause high potassium levels'', fe_timing = None, fe_note = None\<rparr>),
      (''amlodipine'',
        \<lparr>fe_avoid = [''grapefruit juice''],
         fe_reason = Some ''Increases drug levels and side effects'', fe_timing = None,
         fe_note = None\<rparr>),
      (''atorvastatin'',
        \<lparr>fe_avoid = [''grapefruit juice'', ''large amounts of alcohol''],
         fe_reason = Some ''Can increase side effects and liver damage'', fe_timing = None,
         fe_note = None\<rparr>),
      (''simvastatin'',
        \<lparr>fe_avoid = [''grapefruit juice''],
         fe_reason = Some ''Increases drug levels and muscle problems'', fe_timing = None,
         fe_note = None\<rparr>),
      (''ciprofloxacin'',
        \<lparr>fe_avoid = [''dairy products'', ''calcium supplements''],
         fe_reason = Some ''Reduces medication absorption'',
         fe_timing = Some ''Take 2 hours before or after dairy'', fe_note = None\<rparr>),
      (''azithromycin'',
        \<lparr>fe_avoid = [''aluminum/magnesium antacids''],
         fe_reason = Some ''Reduces absorption'', fe_timing = None, fe_note = None\<rparr>),
      (''metronidazole'',
        \<lparr>fe_avoid = [''alcohol''],
         fe_reason = Some ''Causes severe nausea and vomiting'', fe_timing = None,
         fe_note = None\<rparr>),
      (''metformin'',
        \<lparr>fe_avoid = [''excessive alcohol''],
         fe_reason = Some ''Increases risk of low blood sugar and lactic acidosis'',
         fe_timing = None, fe_note = None\<rparr>),
      (''ibuprofen'',
        \<lparr>fe_avoid = [''alcohol''],
         fe_reason = Some ''Increases stomach bleeding risk'', fe_timing = None,
         fe_note = None\<rparr>),
      (''aspirin'',
        \<lparr>fe_avoid = [''alcohol'', ''other NSAIDs''],
         fe_reason = Some ''Increases bleeding risk'', fe_timing = None, fe_note = None\<rparr>),
      (''omeprazole'',
        \<lparr>fe_avoid = [''none''], fe_reason = None, fe_timing = None,
         fe_note = Some ''Take before meals for best effect''\<rparr>),
      (''levothyroxine'',
        \<lparr>fe_avoid = [''coffee'', ''soy'', ''calcium'', ''iron''],
         fe_reason = Some ''Reduces absorption'',
         fe_timing = Some ''Take on empty stomach, 30 min before eating'', fe_note = None\<rparr>)]"

record food_report =
  hasFoodInteraction :: bool
  avoid :: "string list option"
  reason :: "string option"
  timing :: "string option"
  food_note :: "string option"

text \<open>\<open>{ hasFoodInteraction: true, ...entry }\<close>.\<close>

definition food_hit :: "food_entry \<Rightarrow> food_report" where
  "food_hit e =
     \<lparr>hasFoodInteraction = True, avoid = Some (fe_avoid e), reason = fe_reason e,
      timing = fe_timing e, food_note = fe_note e\<rparr>"

text \<open>
  \<open>checkFoodInteractions(drugName)\<close>. Spreading an inherited value into the object
  literal adds no property, so the report then has the flag only.
\<close>

definition checkFoodInteractions :: "string \<Rightarrow> food_report" where
  "checkFoodInteractions drugName =
     (let normalizedName = trim (toLowerCase drugName)
      in case get_property FOOD_INTERACTIONS normalizedName of
           Own e \<Rightarrow> food_hit e
         | Inherited \<Rightarrow>
             \<lparr>hasFoodInteraction = True, avoid = None, reason = None, timing = None,
              food_note = None\<rparr>
         | Absent \<Rightarrow>
             (case find (\<lambda>(key, e). js_includes normalizedName key) FOOD_INTERACTIONS of
                Some (key, e) \<Rightarrow> food_hit e
              | None \<Rightarrow>
                  \<lparr>hasFoodInteraction = False, avoid = None, reason = None, timing = None,
                   food_note = None\<rparr>))"

record age_entry =
  ae_warning :: string
  ae_alternatives :: "string option"
  ae_note :: "string option"

definition AGE_WARNINGS_elderly :: "(string \<times> age_entry) list" where
  "AGE_WARNINGS_elderly =
     [(''benzodiazepines'',
        \<lparr>ae_warning = ''Increased fall risk and confusion in elderly'',
         ae_alternatives = Some ''Discuss non-drug options with doctor'', ae_note = None\<rparr>),
      (''diphenhydramine'',
        \<lparr>ae_warning = ''Can cause confusion and dizziness in seniors'',
         ae_alternatives = Some ''Consider non-drowsy alternatives'', ae_note = None\<rparr>),
      (''aspirin'',
        \<lparr>ae_warning = ''Higher bleeding risk in elderly'', ae_alternatives = None,
         ae_note = Some ''Monitor for bruising or bleeding''\<rparr>),
      (''nsaids'',
        \<lparr>ae_warning = ''Increased stomach and kidney problems'', ae_alternatives = None,
         ae_note = Some ''Use lowest effective dose''\<rparr>),
      (''anticholinergics'',
        \<lparr>ae_warning = ''Can cause memory problems and confusion'', ae_alternatives = None,
         ae_note = Some ''Regular monitoring recommended''\<rparr>)]"

definition AGE_WARNINGS_pediatric :: "(string \<times> age_entry) list" where
  "AGE_WARNINGS_pediatric =
     [(''aspirin'',
        \<lparr>ae_warning = ''Risk of Reye syndrome in children'',
         ae_alternatives = Some ''Use acetaminophen or ibuprofen instead'', ae_note = None\<rparr>),
      (''tetracycline'',
        \<lparr>ae_warning = ''Can cause permanent tooth discoloration'', ae_alternatives = None,
         ae_note = Some ''Avoid in children under 8''\<rparr>),
      (''fluoroquinolones'',
        \<lparr>ae_warning = ''May affect bone and cartilage development'', ae_alternatives = None,
         ae_note = Some ''Use only when no alternatives''\<rparr>)]"

record age_warning =
  category :: string
  aw_severity :: string
  warning :: string
  alternatives :: "string option"
  aw_note :: "string option"

definition age_warning_of :: "string \<Rightarrow> string \<Rightarrow> age_entry \<Rightarrow> age_warning" where
  "age_warning_of cat sev e =
     \<lparr>category = cat, aw_severity = sev, warning = ae_warning e,
      alternatives = ae_alternatives e, aw_note = ae_note e\<rparr>"

text \<open>\<open>checkAgeWarnings(drugName, patientAge)\<close>, for a numeric age.\<close>

definition checkAgeWarnings :: "string \<Rightarrow> real \<Rightarrow> age_warning list" where
  "checkAgeWarnings drugName patientAge =
     (let normalizedName = trim (toLowerCase drugName)
      in (if patientAge \<ge> 65
          then map (\<lambda>(d, e). age_warning_of ''elderly'' ''moderate'' e)
                 (filter (\<lambda>(d, e). js_includes normalizedName d) AGE_WARNINGS_elderly)
          else [])
         @ (if patientAge < 18
            then map (\<lambda>(d, e). age_warning_of ''pediatric'' ''high'' e)
                   (filter (\<lambda>(d, e). js_includes normalizedName d) AGE_WARNINGS_pediatric)
            else []))"

record dosage_rule =
  minDose :: "nat option"
  maxDaily :: "nat option"
  rule_alert :: string
  rule_note :: string

definition DOSAGE_ALERTS :: "(string \<times> dosage_rule list) list" where
  "DOSAGE_ALERTS =
     [(''aspirin'',
        [\<lparr>minDose = Some 325, maxDaily = None,
          rule_alert = ''High dose aspirin increases bleeding risk'',
          rule_note = ''Monitor for bruising, black stools''\<rparr>]),
      (''acetaminophen'',
        [\<lparr>minDose = None, maxDaily = Some 4000,
          rule_alert = ''DO NOT exceed 4000mg per day'',
          rule_note = ''Can cause liver damage''\<rparr>]),
      (''ibuprofen'',
        [\<lparr>minDose = None, maxDaily = Some 2400,
          rule_alert = ''DO NOT exceed 2400mg per day'',
          rule_note = ''Higher doses increase stomach and heart risks''\<rparr>])]"

record dosage_alert =
  da_severity :: string
  alert :: string
  da_note :: string

text \<open>
  The match of \<open>/(\d+)\s*mg/i\<close>: the regular expression engine tries each start
  position from the left; at a position the digits are taken greedily, then the white
  space, then \<open>mg\<close> in either case (giving digits back cannot help, since the next
  character would be a digit). \<open>parseInt\<close> of the digits is their decimal value.
\<close>

definition is_digit :: "char \<Rightarrow> bool" where
  "is_digit c = (let n = (of_char c :: nat) in 48 \<le> n \<and> n \<le> 57)"

definition parseInt_digits :: "string \<Rightarrow> nat" where
  "parseInt_digits ds = foldl (\<lambda>acc c. 10 * acc + (of_char c - 48)) 0 ds"

definition match_mg_at :: "string \<Rightarrow> nat option" where
  "match_mg_at s =
     (let digits = takeWhile is_digit s;
          rest = dropWhile is_space (dropWhile is_digit s)
      in if digits \<noteq> [] \<and> toLowerCase (take 2 rest) = ''mg''
         then Some (parseInt_digits digits) else None)"

fun match_mg :: "string \<Rightarrow> nat option" where
  "match_mg [] = None"
| "match_mg (c # cs) =
     (case match_mg_at (c # cs) of Some d \<Rightarrow> Some d | None \<Rightarrow> match_mg cs)"

definition rule_alerts :: "nat \<Rightarrow> dosage_rule \<Rightarrow> dosage_alert list" where
  "rule_alerts dose rule =
     (case minDose rule of
        None \<Rightarrow> []
      | Some m \<Rightarrow>
          if m \<noteq> 0 \<and> dose \<ge> m
          then [\<lparr>da_severity = ''high'', alert = rule_alert rule, da_note = rule_note rule\<rparr>]
          else [])
     @ (case maxDaily rule of
          None \<Rightarrow> []
        | Some m \<Rightarrow>
            if m \<noteq> 0 \<and> dose > m
            then [\<lparr>da_severity = ''critical'', alert = rule_alert rule,
                   da_note = rule_note rule\<rparr>]
            else [])"

text \<open>
  \<open>checkDosageAlerts(drugName, dosageString)\<close>. An inherited value of
  \<open>DOSAGE_ALERTS[normalizedName]\<close> is truthy and has no \<open>forEach\<close>.
\<close>

definition checkDosageAlerts :: "string \<Rightarrow> string \<Rightarrow> js_error + dosage_alert list" where
  "checkDosageAlerts drugName dosageString =
     (let normalizedName = trim (toLowerCase drugName)
      in case match_mg dosageString of
           None \<Rightarrow> Inr []
         | Some dose \<Rightarrow>
             (case get_property DOSAGE_ALERTS normalizedName of
                Own rules \<Rightarrow> Inr (concat (map (rule_alerts dose) rules))
              | Inherited \<Rightarrow>
                  Inl (TypeError ''DOSAGE_ALERTS[normalizedName].forEach is not a function'')
              | Absent \<Rightarrow> Inr []))"

record safety_report =
  sr_drugName :: string
  foodInteractions :: food_report
  ageWarnings :: "age_warning list"
  dosageAlerts :: "dosage_alert list"
  overallSeverity :: string

text \<open>
  \<open>comprehensiveSafetyCheck(drugName, dosage, patientAge, currentMeds)\<close>. The age is an
  optional number and the dosage an optional string; \<open>0\<close> and the empty string are
  falsy. The list of current medications is not read.
\<close>

definition comprehensiveSafetyCheck ::
  "string \<Rightarrow> string option \<Rightarrow> real option \<Rightarrow> string list \<Rightarrow> js_error + safety_report" where
  "comprehensiveSafetyCheck drugName dosage patientAge currentMeds =
     (let food = checkFoodInteractions drugName;
          ages = (case patientAge of
                    None \<Rightarrow> []
                  | Some a \<Rightarrow> if a = 0 then [] else checkAgeWarnings drugName a)
      in case (if truthy dosage then checkDosageAlerts drugName (the dosage) else Inr []) of
           Inl err \<Rightarrow> Inl err
         | Inr alerts \<Rightarrow>
             let hasHighSeverity =
                   (list_ex (\<lambda>w. aw_severity w = ''high'') ages
                    \<or> list_ex (\<lambda>a. da_severity a = ''high'' \<or> da_severity a = ''critical'')
                         alerts)
             in Inr \<lparr>sr_drugName = drugName, foodInteractions = food, ageWarnings = ages,
                     dosageAlerts = alerts,
                     overallSeverity =
                       (if hasHighSeverity then ''high''
                        else if hasFoodInteraction food \<or> length ages > 0 then ''moderate''
                        else ''low'')\<rparr>)"

text \<open>\<open>getEnhancedSafetyInfo\<close> of the drug service passes its arguments on.\<close>

definition getEnhancedSafetyInfo ::
  "string \<Rightarrow> string option \<Rightarrow> real option \<Rightarrow> string list \<Rightarrow> js_error + safety_report" where
  "getEnhancedSafetyInfo drugName dosage patientAge currentMeds =
     comprehensiveSafetyCheck drugName dosage patientAge currentMeds"

section \<open>JavaScript numbers in the readability score (IEEE 754 binary64)\<close>

text \<open>
  The grade level of a text is computed in double precision: each constant of the
  source and each result of \<open>*\<close>, \<open>/\<close>, \<open>+\<close> and \<open>-\<close> is the real value rounded to
  the nearest number with a significand of 53 bits, a tie going to the even
  significand. A double is represented by the real number it denotes.
  \<open>exponent_of\<close> finds for a positive \<open>x\<close> the \<open>e\<close> with
  \<open>2 ^ e \<le> x < 2 ^ (e + 1)\<close>, by halving or doubling at most 1100 times; below
  \<open>2 ^ -1022\<close> the spacing of the doubles stays at \<open>2 ^ -1074\<close>. The operands of
  the score are the numbers of words, sentences and syllables of one text, so no
  result is infinite or not a number.
\<close>

fun exponent_of :: "nat \<Rightarrow> real \<Rightarrow> int" where
  "exponent_of 0 x = 0"
| "exponent_of (Suc fuel) x =
     (if 2 \<le> x then exponent_of fuel (x / 2) + 1
      else if x < 1 then exponent_of fuel (x * 2) - 1
      else 0)"

definition pow2 :: "int \<Rightarrow> real" where
  "pow2 e = (if 0 \<le> e then 2 ^ nat e else 1 / 2 ^ nat (- e))"

definition round_half_even :: "real \<Rightarrow> int" where
  "round_half_even y =
     (let f = \<lfloor>y\<rfloor>; d = y - real_of_int f
      in if d < 1 / 2 then f else if 1 / 2 < d then f + 1 else if even f then f else f + 1)"

definition to_double :: "real \<Rightarrow> real" where
  "to_double x =
     (if x = 0 then 0
      else let e = max (exponent_of 1100 \<bar>x\<bar>) (- 1022);
               quantum = pow2 (e - 52)
           in real_of_int (round_half_even (x / quantum)) * quantum)"

text \<open>The four operations on doubles: the exact result, rounded.\<close>

definition times_double :: "real \<Rightarrow> real \<Rightarrow> real" where
  "times_double x y = to_double (x * y)"

definition divide_double :: "real \<Rightarrow> real \<Rightarrow> real" where
  "divide_double x y = to_double (x / y)"

definition plus_double :: "real \<Rightarrow> real \<Rightarrow> real" where
  "plus_double x y = to_double (x + y)"

definition minus_double :: "real \<Rightarrow> real \<Rightarrow> real" where
  "minus_double x y = to_double (x - y)"

text \<open>
  \<open>x.toFixed(1)\<close> read back by \<open>parseFloat\<close>, for \<open>x \<ge> 0\<close>: the decimal with one
  digit after the point nearest to the exact value of the double, the larger one of two
  equally near, and then the double nearest to that decimal.
\<close>

definition toFixed1 :: "real \<Rightarrow> real" where
  "toFixed1 x = to_double (real_of_int \<lfloor>x * 10 + 1 / 2\<rfloor> / 10)"

section \<open>Readability (utils/readability.js)\<close>

text \<open>
  \<open>s.split(/[...]+/)\<close> for a character class: the pieces between the maximal runs of
  separator characters, with an empty piece before a leading run and after a trailing
  one. \<open>piece\<close> is the current piece, reversed; \<open>in_run\<close> says that the previous
  character was a separator.
\<close>

fun split_runs :: "(char \<Rightarrow> bool) \<Rightarrow> string \<Rightarrow> string \<Rightarrow> bool \<Rightarrow> string list" where
  "split_runs sep [] piece in_run = [rev piece]"
| "split_runs sep (c # cs) piece in_run =
     (if sep c then
        (if in_run then split_runs sep cs piece True
         else rev piece # split_runs sep cs [] True)
      else split_runs sep cs (c # piece) False)"

definition split_regex :: "(char \<Rightarrow> bool) \<Rightarrow> string \<Rightarrow> string list" where
  "split_regex sep s = split_runs sep s [] False"

text \<open>\<open>s.replace(/\s+/g, ' ')\<close>: every run of white space becomes one blank.\<close>

fun collapse_spaces :: "string \<Rightarrow> bool \<Rightarrow> string" where
  "collapse_spaces [] in_run = []"
| "collapse_spaces (c # cs) in_run =
     (if is_space c then
        (if in_run then collapse_spaces cs True else CHR '' '' # collapse_spaces cs True)
      else c # collapse_spaces cs False)"

text \<open>The number of matches of \<open>/[aeiouy]+/g\<close>: the maximal runs of vowels.\<close>

definition is_vowel :: "char \<Rightarrow> bool" where
  "is_vowel c = (c \<in> set ''aeiouy'')"

fun vowel_groups :: "string \<Rightarrow> bool \<Rightarrow> nat" where
  "vowel_groups [] in_run = 0"
| "vowel_groups (c # cs) in_run =
     (if is_vowel c then (if in_run then 0 else 1) + vowel_groups cs True
      else vowel_groups cs False)"

definition is_lower_letter :: "char \<Rightarrow> bool" where
  "is_lower_letter c = (let n = (of_char c :: nat) in 97 \<le> n \<and> n \<le> 122)"

definition countSyllables :: "string \<Rightarrow> nat" where
  "countSyllables w =
     (let word = filter is_lower_letter (toLowerCase w)
      in if length word \<le> 3 then 1
         else
           let groups = vowel_groups word False;
               count = (if groups = 0 then 1 else groups);
               count' = (if last word = CHR ''e'' then count - 1 else count)
           in max 1 count')"

definition is_terminator :: "char \<Rightarrow> bool" where
  "is_terminator c = (c \<in> set ''.!?'')"

text \<open>
  \<open>calculateFleschKincaid(text)\<close>; the counts fall back to 1 when they are 0
  (\<open>length || 1\<close>). The source computes
  \<open>0.39 * (wordCount / sentenceCount) + 11.8 * (syllableCount / wordCount) - 15.59\<close>
  in doubles, from the left: two quotients, two products, the sum, the difference.
\<close>

definition calculateFleschKincaid :: "string \<Rightarrow> real" where
  "calculateFleschKincaid text =
     (if text = [] \<or> length (trim text) = 0 then 0
      else
        let cleanText = collapse_spaces (trim text) False;
            sentences = filter (\<lambda>s. length (trim s) > 0) (split_regex is_terminator cleanText);
            sentenceCount = (if length sentences = 0 then 1 else length sentences);
            words = filter (\<lambda>w. length w > 0) (split_regex is_space cleanText);
            wordCount = (if length words = 0 then 1 else length words);
            syllableCount = foldl (\<lambda>n w. n + countSyllables w) 0 words;
            gradeLevel =
              minus_double
                (plus_double
                   (times_double (to_double 0.39)
                      (divide_double (real wordCount) (real sentenceCount)))
                   (times_double (to_double 11.8)
                      (divide_double (real syllableCount) (real wordCount))))
                (to_double 15.59)
        in max 0 gradeLevel)"

definition jargonWords :: "string list" where
  "jargonWords =
     [''contraindicated'', ''comorbidity'', ''efficacy'', ''pharmacological'',
      ''therapeutic'', ''administered'', ''cardiovascular'', ''hypertension'',
      ''hypotension'', ''metabolize'', ''bioavailability'', ''prophylactic'',
      ''systemic'', ''topical'', ''subcutaneous'', ''intravenous'', ''titration'',
      ''renal'', ''hepatic'', ''gastrointestinal'', ''prognosis'', ''diagnosis'',
      ''adverse'', ''reaction'', ''contraindication'', ''indication'',
      ''ventricular'', ''remodeling'', ''afterload'', ''preload'']"

definition detectMedicalJargon :: "string \<Rightarrow> string list" where
  "detectMedicalJargon text =
     (let lowerText = toLowerCase text
      in filter (\<lambda>word. js_includes lowerText word) jargonWords)"

text \<open>
  \<open>validatePlainLanguage(text)\<close>. The reported grade level is
  \<open>parseFloat(gradeLevel.toFixed(1))\<close>; the gate itself compares the unrounded
  double with 8. The \<open>suggestions\<close> of the source, two messages for a human reader,
  are not part of the record here: no code reads them.
\<close>

record readability =
  isPlain :: bool
  gradeLevel :: real
  jargon :: "string list"
  targetGrade :: nat

definition validatePlainLanguage :: "string \<Rightarrow> readability" where
  "validatePlainLanguage text =
     (let grade = calculateFleschKincaid text;
          found_jargon = detectMedicalJargon text
      in \<lparr>isPlain = (grade \<le> 8 \<and> length found_jargon = 0),
          gradeLevel = toFixed1 grade,
          jargon = found_jargon,
          targetGrade = 8\<rparr>)"

definition MEDICAL_TO_PLAIN :: "(string \<times> string) list" where
  "MEDICAL_TO_PLAIN =
     [(''contraindicated'', ''should not be used''),
      (''administered'', ''given''),
      (''cardiovascular'', ''heart and blood vessels''),
      (''hypertension'', ''high blood pressure''),
      (''hypotension'', ''low blood pressure''),
      (''gastrointestinal'', ''stomach and intestines''),
      (''adverse reaction'', ''bad side effect''),
      (''prophylactic'', ''preventive''),
      (''subcutaneous'', ''under the skin''),
      (''intravenous'', ''into a vein''),
      (''therapeutic'', ''treatment''),
      (''efficacy'', ''how well it works''),
      (''comorbidity'', ''other health condition'')]"

text \<open>
  \<open>s.replace(new RegExp(medical, 'gi'), plain)\<close> for a lower-case word \<open>medical\<close>
  without special characters: scanning from the left, every occurrence (in any case;
  \<open>startsWith_ci\<close> compares the lower-cased text with the word) that does not
  overlap the previous one is replaced. \<open>skip\<close> counts the characters of
  a matched occurrence still to be dropped.
\<close>

fun startsWith_ci :: "string \<Rightarrow> string \<Rightarrow> bool" where
  "startsWith_ci s [] = True"
| "startsWith_ci [] (p # ps) = False"
| "startsWith_ci (c # cs) (p # ps) =
     (if toLowerCase_char c = p then startsWith_ci cs ps else False)"

fun replace_all_ci :: "string \<Rightarrow> string \<Rightarrow> string \<Rightarrow> nat \<Rightarrow> string" where
  "replace_all_ci medical plain [] skip = []"
| "replace_all_ci medical plain (c # cs) skip =
     (if skip > 0 then replace_all_ci medical plain cs (skip - 1)
      else if startsWith_ci (c # cs) medical
      then plain @ replace_all_ci medical plain cs (length medical - 1)
      else c # replace_all_ci medical plain cs 0)"

definition simplifyText :: "string \<Rightarrow> string" where
  "simplifyText text =
     foldl (\<lambda>simplified (medical, plain). replace_all_ci medical plain simplified 0)
       text MEDICAL_TO_PLAIN"

section \<open>The nudge generator (services/nudgeService.js)\<close>

record extracted_data =
  drug_name :: "string option"
  dosage :: "string option"
  frequency :: "string option"
  dose_timing :: "string option"
  dosing_source :: "string option"
  duration :: "string option"
  route :: "string option"
  instructions :: "string option"
  name_confidence :: "real option"

record patient_context =
  patient_name :: "string option"
  age :: "real option"
  language :: "string option"
  lifestyle :: "string option"
  concerns :: "string option"

record nudge_card =
  headline :: string
  plain_instruction :: string
  the_why :: string
  habit_hook :: string
  warning_label :: string

text \<open>The object parsed from the answer of the language model; any field may be missing.\<close>

record json_card =
  json_headline :: "string option"
  json_plain_instruction :: "string option"
  json_the_why :: "string option"
  json_habit_hook :: "string option"
  json_warning_label :: "string option"

text \<open>
  What the generator finds outside the program: whether an API key is configured, and
  the language model, taken together with the parsing of its answer: for a prescription
  and a patient it yields the parsed object, or an exception (of the request or of
  \<open>JSON.parse\<close>).
\<close>

record nudge_env =
  api_key_configured :: bool
  completion :: "extracted_data \<Rightarrow> patient_context \<Rightarrow> js_error + json_card"

text \<open>The minimal card, returned without a key and when generation throws.\<close>

definition minimal_card :: "extracted_data \<Rightarrow> finding list \<Rightarrow> nudge_card" where
  "minimal_card extractedData interactions =
     \<lparr>headline = or_else (instructions extractedData) '''',
      plain_instruction = or_else (instructions extractedData) '''',
      the_why = '''', habit_hook = '''',
      warning_label =
        (if length interactions > 0 then ''May interact with other medications'' else '''')\<rparr>"

definition placeholderHeadline :: string where
  "placeholderHeadline = ''Simple instruction based on ACTUAL prescription''"

text \<open>The headline built from the verified fields when the model's headline is missing
  or echoes the placeholder.\<close>

definition template_headline :: "extracted_data \<Rightarrow> string" where
  "template_headline extractedData =
     (let parts =
            (if truthy (drug_name extractedData)
             then [''Taking '' @ the (drug_name extractedData)] else [])
            @ (if truthy (dosage extractedData) then [the (dosage extractedData)] else [])
            @ (if truthy (frequency extractedData)
               then [''as '' @ the (frequency extractedData)] else [])
      in if length parts > 0 then join '' '' parts
         else ''Follow this prescription as your doctor directed'')"

definition fullText_of :: "json_card \<Rightarrow> string" where
  "fullText_of json =
     join '' '' (map the (filter truthy
       [json_plain_instruction json, json_the_why json, json_habit_hook json,
        json_headline json]))"

definition default_warning :: "json_card \<Rightarrow> finding list \<Rightarrow> string" where
  "default_warning json interactions =
     or_else (json_warning_label json)
       (if length interactions > 0 then ''May interact with other medications'' else '''')"

text \<open>The card built in the branch \<open>!readability.isPlain\<close>, from the parsed fields.\<close>

definition simplified_card :: "json_card \<Rightarrow> finding list \<Rightarrow> nudge_card" where
  "simplified_card json interactions =
     \<lparr>headline = simplifyText (or_else (json_headline json) ''''),
      plain_instruction = simplifyText (or_else (json_plain_instruction json) ''''),
      the_why = simplifyText (or_else (json_the_why json) ''''),
      habit_hook = simplifyText (or_else (json_habit_hook json) ''''),
      warning_label = simplifyText (default_warning json interactions)\<rparr>"

text \<open>\<open>generateCard(extractedData, patientContext, interactions)\<close>.\<close>

definition generateCard ::
  "nudge_env \<Rightarrow> extracted_data \<Rightarrow> patient_context \<Rightarrow> finding list \<Rightarrow> js_error + nudge_card" where
  "generateCard env extractedData patientContext interactions =
     (if \<not> truthy (drug_name extractedData)
         \<or> drug_name extractedData = Some CLARIFICATION_NEEDED
      then Inl (Error ''Cannot generate nudge: Drug name not extracted from prescription'')
      else if \<not> api_key_configured env
      then Inr (minimal_card extractedData interactions)
      else
        (case completion env extractedData patientContext of
           Inl err \<Rightarrow> Inr (minimal_card extractedData interactions)
         | Inr json \<Rightarrow>
             let readability = validatePlainLanguage (fullText_of json);
                 finalCard =
                   \<lparr>headline = or_else (json_headline json) '''',
                    plain_instruction = or_else (json_plain_instruction json) '''',
                    the_why = or_else (json_the_why json) '''',
                    habit_hook = or_else (json_habit_hook json) '''',
                    warning_label = default_warning json interactions\<rparr>;
                 finalCard' =
                   (if headline finalCard = []
                       \<or> trim (headline finalCard) = placeholderHeadline
                    then finalCard\<lparr>headline := template_headline extractedData\<rparr>
                    else finalCard)
             in if \<not> isPlain readability
                then Inr (simplified_card json interactions)
                else Inr finalCard'))"

text \<open>The text of an emitted card that the readability gate reads.\<close>

definition card_text :: "nudge_card \<Rightarrow> string" where
  "card_text c =
     join '' '' (filter (\<lambda>s. s \<noteq> [])
       [plain_instruction c, the_why c, habit_hook c, headline c])"

section \<open>The extraction pipeline (server.js, POST /api/prescription/process)\<close>

definition message :: "js_error \<Rightarrow> string" where
  "message err = (case err of Error m \<Rightarrow> m | TypeError m \<Rightarrow> m)"

text \<open>A number in a template literal: its decimal digits.\<close>

fun decimal :: "nat \<Rightarrow> string" where
  "decimal n = (if 10 \<le> n then decimal (n div 10) else []) @ [char_of (n mod 10 + 48)]"

declare decimal.simps [simp del]

record failed_extraction =
  fx_reason :: string
  fx_originalName :: "string option"
  fx_suggestions :: "string list option"
  fx_message :: string
  fx_extractedData :: extracted_data

record processed_medication =
  extracted :: extracted_data
  patient_facing_card :: "nudge_card option"
  safety_flag :: flag
  safety_reasoning :: string
  interactions :: "finding list"
  enhanced_safety :: safety_report

text \<open>
  One round of the loop over the extracted medications ends in a \<open>push\<close> to
  \<open>failedExtractions\<close>, in a \<open>push\<close> to \<open>processedMedications\<close>, or in an exception
  that leaves the loop and the handler's \<open>try\<close> block.
\<close>

datatype outcome = Failed failed_extraction | Processed processed_medication

text \<open>The name a validated candidate goes on with (lines 316 to 330).\<close>

definition apply_validation :: "validation \<Rightarrow> extracted_data \<Rightarrow> extracted_data" where
  "apply_validation v extractedData =
     (if wasCorrected v then
        (if confidence v > 0.85
         then extractedData\<lparr>drug_name := originalName v\<rparr>
         else extractedData\<lparr>drug_name := correctedName v\<rparr>)
        \<lparr>name_confidence := Some (confidence v)\<rparr>
      else extractedData\<lparr>drug_name := originalName v, name_confidence := Some (confidence v)\<rparr>)"

definition process_candidate ::
  "services \<Rightarrow> string list \<Rightarrow> patient_context \<Rightarrow> extracted_data \<Rightarrow> js_error + outcome" where
  "process_candidate svc currentMeds patientContext extractedData =
     (if \<not> truthy (drug_name extractedData)
         \<or> drug_name extractedData = Some CLARIFICATION_NEEDED
      then Inr (Failed
             \<lparr>fx_reason = ''unclear_name'', fx_originalName = None, fx_suggestions = None,
              fx_message = ''Could not read medication name clearly'',
              fx_extractedData = extractedData\<rparr>)
      else
        let v = validateAndNormalizeDrugName svc (drug_name extractedData)
        in if \<not> valid v
           then Inr (Failed
                  \<lparr>fx_reason = ''invalid_drug'',
                   fx_originalName = drug_name extractedData,
                   fx_suggestions =
                     Some (case suggestions v of None \<Rightarrow> [] | Some sugg \<Rightarrow> sugg),
                   fx_message = [CHR 0x22] @ the (drug_name extractedData) @ [CHR 0x22]
                                @ '' is not a recognized medication'',
                   fx_extractedData = extractedData\<rparr>)
           else
             let extractedData' = apply_validation v extractedData
             in case checkInteractions svc (the (drug_name extractedData')) currentMeds of
                  Inl err \<Rightarrow> Inl err
                | Inr found_interactions \<Rightarrow>
                    let safetyFlag = determineSafetyFlag found_interactions
                    in case getEnhancedSafetyInfo (the (drug_name extractedData'))
                              (dosage extractedData') (age patientContext) currentMeds of
                         Inl err \<Rightarrow> Inl err
                       | Inr enhancedSafety \<Rightarrow>
                           Inr (Processed
                             \<lparr>extracted = extractedData', patient_facing_card = None,
                              safety_flag = flag safetyFlag,
                              safety_reasoning = reasoning safetyFlag,
                              interactions = found_interactions,
                              enhanced_safety = enhancedSafety\<rparr>))"

text \<open>
  The loop. It returns the outcomes in the order of the candidates; the two arrays of
  the source are the processed and the failed ones among them, in that order.
\<close>

fun process_medications ::
  "services \<Rightarrow> string list \<Rightarrow> patient_context \<Rightarrow> extracted_data list \<Rightarrow> js_error + outcome list" where
  "process_medications svc currentMeds patientContext [] = Inr []"
| "process_medications svc currentMeds patientContext (extractedData # rest) =
     (case process_candidate svc currentMeds patientContext extractedData of
        Inl err \<Rightarrow> Inl err
      | Inr out \<Rightarrow>
          (case process_medications svc currentMeds patientContext rest of
             Inl err \<Rightarrow> Inl err
           | Inr outs \<Rightarrow> Inr (out # outs)))"

fun processed_of :: "outcome list \<Rightarrow> processed_medication list" where
  "processed_of [] = []"
| "processed_of (Processed p # outs) = p # processed_of outs"
| "processed_of (Failed f # outs) = processed_of outs"

fun failed_of :: "outcome list \<Rightarrow> failed_extraction list" where
  "failed_of [] = []"
| "failed_of (Failed f # outs) = f # failed_of outs"
| "failed_of (Processed p # outs) = failed_of outs"

text \<open>The medication objects after the loop: a processed one carries its new name.\<close>

fun candidate_after :: "outcome \<Rightarrow> extracted_data" where
  "candidate_after (Processed p) = extracted p"
| "candidate_after (Failed f) = fx_extractedData f"

record final_result =
  medications :: "processed_medication list"
  total_medications :: nat
  failedExtractions :: "failed_extraction list option"
  warnings :: "string option"

record error_body =
  error_text :: string
  detail :: string
  error_failedExtractions :: "failed_extraction list option"
  error_suggestions :: "string option"
  stage :: "string option"

datatype response =
  Json200 final_result
| Json400 error_body
| Json500 error_body

record vision_result =
  vision_error :: "string option"
  vision_note :: "string option"
  vision_medications :: "extracted_data list option"

text \<open>
  The extraction backends. For the vision path the environment says whether an API key
  is configured and what the vision model answers for an image: an exception (of
  reading the file, of the request or of \<open>JSON.parse\<close>) or the \<open>medications\<close>
  property of the parsed answer, \<open>None\<close> when it is missing or not an array. An
  element of the array is a medication object, or \<open>null\<close> (\<open>None\<close>); an element
  of another kind has no \<open>drug_name\<close> and stands here as an object without one. The
  OCR engine is a function of the image; the text model, taken together with its
  pattern fallback, is a function of the OCR text.
\<close>

record extraction_env =
  vision_key_configured :: bool
  vision_completion :: "string \<Rightarrow> js_error + extracted_data option list option"
  extractText :: "string \<Rightarrow> js_error + string"
  extractDrugData :: "string \<Rightarrow> js_error + extracted_data"

section \<open>The vision service (services/llmService.js)\<close>

text \<open>
  The callback of \<open>json.medications.filter\<close> (lines 138 to 149): a medication without
  a name, or with the sentinel as its name, is left out; one that stays gets the default
  of every missing field. Reading \<open>med.drug_name\<close> of \<open>null\<close> throws.
\<close>

definition fill_defaults :: "extracted_data \<Rightarrow> extracted_data" where
  "fill_defaults med =
     med\<lparr>dosage := Some (or_else (dosage med) ''Not specified''),
         frequency := Some (or_else (frequency med) ''As directed''),
         duration := Some (or_else (duration med) ''Not specified''),
         route := Some (or_else (route med) ''Oral'')\<rparr>"

fun filter_medications :: "extracted_data option list \<Rightarrow> js_error + extracted_data list" where
  "filter_medications [] = Inr []"
| "filter_medications (None # rest) =
     Inl (TypeError (''Cannot read properties of null (reading '' @ [CHR 0x27]
            @ ''drug_name'' @ [CHR 0x27] @ '')''))"
| "filter_medications (Some med # rest) =
     (case filter_medications rest of
        Inl err \<Rightarrow> Inl err
      | Inr validMedications \<Rightarrow>
          if \<not> truthy (drug_name med) \<or> drug_name med = Some CLARIFICATION_NEEDED
          then Inr validMedications
          else Inr (fill_defaults med # validMedications))"

text \<open>
  \<open>extractFromImage(imagePath)\<close>: without a key it throws; every exception inside its
  \<open>try\<close> block is thrown on. An answer without a medications array, and an answer of
  which the filter leaves nothing, give a result with an \<open>error\<close> and a \<open>note\<close>.
\<close>

definition extractFromImage :: "extraction_env \<Rightarrow> string \<Rightarrow> js_error + vision_result" where
  "extractFromImage env imagePath =
     (if \<not> vision_key_configured env
      then Inl (Error ''OpenAI API key required for Vision API'')
      else
        case vision_completion env imagePath of
          Inl err \<Rightarrow> Inl err
        | Inr None \<Rightarrow>
            Inr \<lparr>vision_error = Some ''INVALID_RESPONSE'',
                 vision_note = Some ''Vision API response was not in expected format'',
                 vision_medications = Some []\<rparr>
        | Inr (Some json_medications) \<Rightarrow>
            (case filter_medications json_medications of
               Inl err \<Rightarrow> Inl err
             | Inr validMedications \<Rightarrow>
                 if length validMedications = 0
                 then Inr \<lparr>vision_error = Some ''NO_MEDICATIONS_FOUND'',
                           vision_note =
                             Some ''Could not extract any clear medication names from prescription'',
                           vision_medications = Some []\<rparr>
                 else Inr \<lparr>vision_error = None, vision_note = None,
                           vision_medications = Some validMedications\<rparr>))"

section \<open>The request handler (server.js, POST /api/prescription/process, continued)\<close>

text \<open>What a run of the handler does outside itself, in order.\<close>

datatype event =
  Cache_get string
| Db_select string
| Vision_call
| Ocr_call
| Text_model_call
| Cache_set string
| Db_insert string

record cache_entry =
  cached_data :: final_result
  expiresAt :: nat

record scan_session =
  image_hash :: string
  raw_vision_json :: vision_result
  normalized_result :: final_result
  expires_at :: nat

text \<open>
  The state that outlives a request: the in-memory \<open>Map\<close> (an association list in
  insertion order), the rows of the \<open>scan_sessions\<close> table, and the trace of events.
  The table is taken as a store that keeps every inserted row. Times are milliseconds.
\<close>

record server_state =
  visionCache :: "(string \<times> cache_entry) list"
  scan_sessions :: "scan_session list"
  trace :: "event list"

definition CACHE_TTL :: nat where
  "CACHE_TTL = 30 * 60 * 1000"

definition cleanExpiredCache :: "nat \<Rightarrow> server_state \<Rightarrow> server_state" where
  "cleanExpiredCache now s =
     s\<lparr>visionCache := filter (\<lambda>(key, entry). \<not> expiresAt entry < now) (visionCache s)\<rparr>"

text \<open>
  The query \<open>.eq('image_hash', h).gt('expires_at', now).single()\<close>: the row when
  exactly one matches, no data otherwise.
\<close>

definition select_single :: "scan_session list \<Rightarrow> string \<Rightarrow> nat \<Rightarrow> scan_session option" where
  "select_single rows h now =
     (case filter (\<lambda>r. image_hash r = h \<and> expires_at r > now) rows of
        [r] \<Rightarrow> Some r
      | _ \<Rightarrow> None)"

text \<open>The readings of \<open>Date.now()\<close> during one request, in the order of the source.\<close>

record clock =
  t_lookup :: nat
  t_select :: nat
  t_fill :: nat
  t_store :: nat
  t_insert :: nat

text \<open>
  The request after \<open>multer\<close> and \<open>JSON.parse\<close>: the bytes of the uploaded image
  (absent when no file was sent), the parsed patient context and list of current
  medications, and whether \<open>forceRefresh\<close> was the string \<open>true\<close>. The environment
  of a request is the hash function, the extraction backends and the terminology and
  interaction services.
\<close>

record process_request =
  image_file :: "string option"
  patientContext :: patient_context
  currentMeds :: "string list"
  forceRefresh :: bool

record process_env =
  hashFile :: "string \<Rightarrow> string"
  backends :: extraction_env
  terminology :: services

text \<open>Step 4: the vision model, and the OCR pipeline when it throws.\<close>

definition run_extraction :: "extraction_env \<Rightarrow> string \<Rightarrow> (js_error + vision_result) \<times> event list" where
  "run_extraction env img =
     (case extractFromImage env img of
        Inr visionResult \<Rightarrow> (Inr visionResult, [Vision_call])
      | Inl visionErr \<Rightarrow>
          (case extractText env img of
             Inl err \<Rightarrow> (Inl err, [Vision_call, Ocr_call])
           | Inr ocrText \<Rightarrow>
               (case extractDrugData env ocrText of
                  Inl err \<Rightarrow> (Inl err, [Vision_call, Ocr_call, Text_model_call])
                | Inr singleDrug \<Rightarrow>
                    (Inr \<lparr>vision_error = None, vision_note = None,
                          vision_medications = Some [singleDrug]\<rparr>,
                     [Vision_call, Ocr_call, Text_model_call]))))"

definition server_error :: "js_error \<Rightarrow> response" where
  "server_error err =
     Json500 \<lparr>error_text = ''Processing failed'', detail = message err,
              error_failedExtractions = None, error_suggestions = None,
              stage = Some ''unknown''\<rparr>"

text \<open>
  The handler from step 4 on: extraction, the loop, and on success the write to both
  cache tiers.
\<close>

definition extract_and_process ::
  "process_env \<Rightarrow> process_request \<Rightarrow> clock \<Rightarrow> string \<Rightarrow> string \<Rightarrow> server_state
     \<Rightarrow> response \<times> server_state" where
  "extract_and_process env req clk img imageHash s =
     (case run_extraction (backends env) img of
        (Inl err, evs) \<Rightarrow> (server_error err, s\<lparr>trace := trace s @ evs\<rparr>)
      | (Inr visionResult, evs) \<Rightarrow>
          let s1 = s\<lparr>trace := trace s @ evs\<rparr>
          in if truthy (vision_error visionResult)
                \<or> vision_medications visionResult = None
                \<or> vision_medications visionResult = Some []
             then (Json400
                     \<lparr>error_text = ''Unable to read prescription'',
                      detail = or_else (vision_note visionResult)
                        ''The prescription image is not clear enough. Please take a clearer photo.'',
                      error_failedExtractions = None, error_suggestions = None,
                      stage = None\<rparr>, s1)
             else
               (case process_medications (terminology env) (currentMeds req)
                       (patientContext req) (the (vision_medications visionResult)) of
                  Inl err \<Rightarrow> (server_error err, s1)
                | Inr outs \<Rightarrow>
                    let processedMedications = processed_of outs;
                        failed = failed_of outs
                    in if length processedMedications = 0
                       then (Json400
                               \<lparr>error_text = ''Unable to extract medication information'',
                                detail = ''Could not read any medication names from the prescription.'',
                                error_failedExtractions =
                                  (if length failed > 0 then Some failed else None),
                                error_suggestions =
                                  (if length failed > 0
                                   then Some ''The prescription image may be unclear. Please try taking a clearer photo with good lighting.''
                                   else None),
                                stage = None\<rparr>, s1)
                       else
                         let finalResult =
                               \<lparr>medications = processedMedications,
                                total_medications = length processedMedications,
                                failedExtractions =
                                  (if length failed > 0 then Some failed else None),
                                warnings =
                                  (if length failed > 0
                                   then Some (decimal (length failed)
                                     @ '' medication(s) could not be processed. Please verify the extracted information.'')
                                   else None)\<rparr>
                         in (Json200 finalResult,
                             s1\<lparr>visionCache :=
                                  AList.update imageHash
                                    \<lparr>cached_data = finalResult,
                                     expiresAt = t_store clk + CACHE_TTL\<rparr> (visionCache s1),
                                scan_sessions :=
                                  scan_sessions s1
                                  @ [\<lparr>image_hash = imageHash,
                                      raw_vision_json =
                                        visionResult\<lparr>vision_medications :=
                                          Some (map candidate_after outs)\<rparr>,
                                      normalized_result = finalResult,
                                      expires_at = t_insert clk + CACHE_TTL\<rparr>],
                                trace := trace s1 @ [Cache_set imageHash, Db_insert imageHash]\<rparr>)))"

text \<open>
  The handler. Without \<open>forceRefresh\<close> it reads the in-memory tier, then the durable
  tier; with it, or on a miss of both, it goes on to the extraction.
\<close>

definition process_prescription ::
  "process_env \<Rightarrow> process_request \<Rightarrow> clock \<Rightarrow> server_state \<Rightarrow> response \<times> server_state" where
  "process_prescription env req clk s =
     (case image_file req of
        None \<Rightarrow>
          (Json400 \<lparr>error_text = ''No image file provided'', detail = '''',
                    error_failedExtractions = None, error_suggestions = None,
                    stage = None\<rparr>, s)
      | Some img \<Rightarrow>
          let imageHash = hashFile env img
          in if \<not> forceRefresh req then
               let s1 = s\<lparr>trace := trace s @ [Cache_get imageHash]\<rparr>
               in case (case map_of (visionCache s) imageHash of
                          None \<Rightarrow> None
                        | Some cachedResult \<Rightarrow>
                            if expiresAt cachedResult > t_lookup clk
                            then Some cachedResult else None) of
                    Some cachedResult \<Rightarrow> (Json200 (cached_data cachedResult), s1)
                  | None \<Rightarrow>
                      let s2 = s1\<lparr>trace := trace s1 @ [Db_select imageHash]\<rparr>
                      in (case select_single (scan_sessions s) imageHash (t_select clk) of
                            Some dbCache \<Rightarrow>
                              (Json200 (normalized_result dbCache),
                               s2\<lparr>visionCache :=
                                    AList.update imageHash
                                      \<lparr>cached_data = normalized_result dbCache,
                                       expiresAt = t_fill clk + CACHE_TTL\<rparr> (visionCache s2),
                                  trace := trace s2 @ [Cache_set imageHash]\<rparr>)
                          | None \<Rightarrow> extract_and_process env req clk img imageHash s2)
             else extract_and_process env req clk img imageHash s)"

subsection \<open>Notions used to state the pipeline's properties\<close>

text \<open>
  The first test of the loop, negated: the name is set and is not the sentinel. A
  candidate passes when, in addition, the validator accepts its name.
\<close>

definition name_usable :: "extracted_data \<Rightarrow> bool" where
  "name_usable c = (truthy (drug_name c) \<and> drug_name c \<noteq> Some CLARIFICATION_NEEDED)"

definition passes :: "services \<Rightarrow> extracted_data \<Rightarrow> bool" where
  "passes svc c = (name_usable c \<and> valid (validateAndNormalizeDrugName svc (drug_name c)))"

text \<open>
  The condition under which the handler answers from a cache tier (lines 208 to 237):
  no \<open>forceRefresh\<close>, and an unexpired entry in memory or a row in the table.
\<close>

definition cache_hit :: "process_env \<Rightarrow> process_request \<Rightarrow> clock \<Rightarrow> server_state \<Rightarrow> string \<Rightarrow> bool" where
  "cache_hit env req clk s img =
     (\<not> forceRefresh req
      \<and> ((case map_of (visionCache s) (hashFile env img) of
             None \<Rightarrow> False
           | Some cachedResult \<Rightarrow> expiresAt cachedResult > t_lookup clk)
          \<or> select_single (scan_sessions s) (hashFile env img) (t_select clk) \<noteq> None))"

text \<open>
  The states of a server: it starts with both tiers empty; it handles requests, each in
  its own environment and at its own times; the sweep of the expired entries runs in
  between; a restart empties the in-memory tier and keeps the table.
\<close>

definition empty_state :: server_state where
  "empty_state = \<lparr>visionCache = [], scan_sessions = [], trace = []\<rparr>"

inductive reachable :: "server_state \<Rightarrow> bool" where
  start: "reachable empty_state"
| request: "reachable s \<Longrightarrow> process_prescription env req clk s = (resp, s') \<Longrightarrow> reachable s'"
| sweep: "reachable s \<Longrightarrow> reachable (cleanExpiredCache now s)"
| restart: "reachable s \<Longrightarrow> reachable (s\<lparr>visionCache := []\<rparr>)"

text \<open>
  What holds of every result the handler stores: the list of medications is not empty,
  and each medication has a name and is a candidate that passed validation by the
  terminology service of its run, with the name the handler then gave it.
\<close>

definition validated_result :: "final_result \<Rightarrow> bool" where
  "validated_result r =
     (medications r \<noteq> []
      \<and> (\<forall>p \<in> set (medications r).
            truthy (drug_name (extracted p))
            \<and> (\<exists>svc c. passes svc c
                  \<and> extracted p
                      = apply_validation (validateAndNormalizeDrugName svc (drug_name c)) c)))"

definition stored_validated :: "server_state \<Rightarrow> bool" where
  "stored_validated s =
     ((\<forall>entry \<in> set (visionCache s). validated_result (cached_data (snd entry)))
      \<and> (\<forall>row \<in> set (scan_sessions s). validated_result (normalized_result row)))"

section \<open>The confirmation stage (server.js, POST /api/nudge/generate-batch)\<close>

text \<open>
  \<open>generateSafetyWarningText(safetyReport)\<close> of the drug service. A food report that
  has the flag but no \<open>avoid\<close> list makes \<open>fi.avoid.join\<close> throw; a missing reason is
  printed by the template literal as \<open>undefined\<close>. The pictographs are written as
  their UTF-8 bytes.
\<close>

definition food_lines :: "food_report \<Rightarrow> js_error + string list" where
  "food_lines fi =
     (if hasFoodInteraction fi then
        (case avoid fi of
           None \<Rightarrow> Inl (TypeError ''Cannot read properties of undefined (reading 'join')'')
         | Some av \<Rightarrow>
             Inr ([[CHR 0xE2, CHR 0x9A, CHR 0xA0, CHR 0xEF, CHR 0xB8, CHR 0x8F]
                   @ '' FOOD WARNING: Avoid '' @ join '', '' av @ ''. ''
                   @ (case reason fi of None \<Rightarrow> ''undefined'' | Some r \<Rightarrow> r) @ ''.'']
                  @ (if truthy (timing fi)
                     then [[CHR 0xE2, CHR 0x8F, CHR 0xB0] @ '' TIMING: '' @ the (timing fi)]
                     else [])))
      else Inr [])"

definition age_lines :: "age_warning \<Rightarrow> string list" where
  "age_lines w =
     [[CHR 0xF0, CHR 0x9F, CHR 0x91, CHR 0xB5] @ '' AGE WARNING: '' @ warning w]
     @ (if truthy (aw_note w) then [''   Note: '' @ the (aw_note w)] else [])
     @ (if truthy (alternatives w) then [''   '' @ the (alternatives w)] else [])"

definition dosage_lines :: "dosage_alert \<Rightarrow> string list" where
  "dosage_lines a =
     [[CHR 0xF0, CHR 0x9F, CHR 0x92, CHR 0x8A] @ '' DOSAGE ALERT: '' @ alert a]
     @ (if da_note a \<noteq> [] then [''   '' @ da_note a] else [])"

definition generateSafetyWarningText :: "safety_report \<Rightarrow> js_error + string" where
  "generateSafetyWarningText safetyReport =
     (case food_lines (foodInteractions safetyReport) of
        Inl err \<Rightarrow> Inl err
      | Inr food \<Rightarrow>
          Inr (join [CHR 0x0A]
                 (food @ concat (map age_lines (ageWarnings safetyReport))
                  @ concat (map dosage_lines (dosageAlerts safetyReport)))))"

record batch_medication =
  extracted_data :: "extracted_data option"
  skipValidation :: bool

text \<open>
  An element of the answer: the fields of the request's element (\<open>...med\<close>, whose
  \<open>extracted_data\<close> object the loop has updated in place) and the recomputed ones.
\<close>

record batch_result =
  result_extracted_data :: extracted_data
  result_skipValidation :: bool
  result_card :: nudge_card
  result_interactions :: "finding list"
  result_safety_flag :: flag
  result_safety_reasoning :: string
  result_enhanced_safety :: safety_report

datatype batch_response =
  Batch200 "batch_result list"
| Batch400 string
| Batch500 string

record batch_request =
  batch_medications :: "batch_medication list option"
  batch_patientContext :: "patient_context option"

record batch_env =
  batch_terminology :: services
  nudge :: nudge_env

text \<open>The name after the validation step of the batch loop, or nothing when the
  medication is skipped (\<open>continue\<close>).\<close>

definition batch_validate :: "services \<Rightarrow> bool \<Rightarrow> extracted_data \<Rightarrow> extracted_data option" where
  "batch_validate svc skip extractedData =
     (if \<not> skip then
        let v = validateAndNormalizeDrugName svc (drug_name extractedData)
        in if \<not> valid v then None
           else if wasCorrected v
           then Some (extractedData\<lparr>drug_name := correctedName v\<rparr>)
           else Some extractedData
      else Some extractedData)"

text \<open>
  The \<open>try\<close> block around the card: generation, then the safety warning text appended
  to the warning label; any exception gives the card of the \<open>catch\<close> handler.
\<close>

definition batch_card ::
  "nudge_env \<Rightarrow> extracted_data \<Rightarrow> patient_context \<Rightarrow> finding list \<Rightarrow> safety_report
     \<Rightarrow> nudge_card" where
  "batch_card env extractedData pc found_interactions enhancedSafety =
     (let fallback =
            \<lparr>headline = ''Take ''
                 @ (case drug_name extractedData of None \<Rightarrow> ''undefined'' | Some n \<Rightarrow> n)
                 @ '' as prescribed'',
             plain_instruction = '''', the_why = '''', habit_hook = '''',
             warning_label = ''''\<rparr>
      in case generateCard env extractedData pc found_interactions of
           Inl err \<Rightarrow> fallback
         | Inr nudgeCard \<Rightarrow>
             (case generateSafetyWarningText enhancedSafety of
                Inl err \<Rightarrow> fallback
              | Inr safetyWarningText \<Rightarrow>
                  if safetyWarningText \<noteq> []
                  then nudgeCard\<lparr>warning_label :=
                         join [CHR 0x0A, CHR 0x0A]
                           (filter (\<lambda>t. t \<noteq> [])
                              [warning_label nudgeCard, safetyWarningText])\<rparr>
                  else nudgeCard))"

text \<open>
  One round of the batch loop: \<open>Inr None\<close> is a medication left out, \<open>Inl\<close> an
  exception that ends the request. A medication without a name reaches
  \<open>checkInteractions\<close> only with \<open>skipValidation\<close>; the call then fails on
  \<open>drugName.toLowerCase()\<close> in the \<open>try\<close> block and again in the handler.
\<close>

definition batch_step ::
  "batch_env \<Rightarrow> patient_context option \<Rightarrow> string list \<Rightarrow> batch_medication
     \<Rightarrow> js_error + batch_result option" where
  "batch_step env pc allMedicationNames med =
     (case extracted_data med of
        None \<Rightarrow> Inl (TypeError ''Cannot read properties of undefined (reading 'drug_name')'')
      | Some extractedData \<Rightarrow>
          (case batch_validate (batch_terminology env) (skipValidation med) extractedData of
             None \<Rightarrow> Inr None
           | Some extractedData' \<Rightarrow>
               (case drug_name extractedData' of
                  None \<Rightarrow>
                    Inl (TypeError ''Cannot read properties of undefined (reading 'toLowerCase')'')
                | Some dn \<Rightarrow>
                    let others = filter (\<lambda>n. n \<noteq> dn) allMedicationNames
                    in case checkInteractions (batch_terminology env) dn others of
                         Inl err \<Rightarrow> Inl err
                       | Inr found_interactions \<Rightarrow>
                           let safetyFlag = determineSafetyFlag found_interactions
                           in case getEnhancedSafetyInfo dn (dosage extractedData')
                                     (case pc of None \<Rightarrow> None | Some c \<Rightarrow> age c) others of
                                Inl err \<Rightarrow> Inl err
                              | Inr enhancedSafety \<Rightarrow>
                                  Inr (Some
                                    \<lparr>result_extracted_data = extractedData',
                                     result_skipValidation = skipValidation med,
                                     result_card =
                                       batch_card (nudge env) extractedData'
                                         (case pc of
                                            None \<Rightarrow>
                                              \<lparr>patient_name = None, age = None, language = None,
                                               lifestyle = None, concerns = None\<rparr>
                                          | Some c \<Rightarrow> c)
                                         found_interactions enhancedSafety,
                                     result_interactions = found_interactions,
                                     result_safety_flag = flag safetyFlag,
                                     result_safety_reasoning = reasoning safetyFlag,
                                     result_enhanced_safety = enhancedSafety\<rparr>))))"

fun batch_loop ::
  "batch_env \<Rightarrow> patient_context option \<Rightarrow> string list \<Rightarrow> batch_medication list
     \<Rightarrow> js_error + batch_result list" where
  "batch_loop env pc allMedicationNames [] = Inr []"
| "batch_loop env pc allMedicationNames (med # meds) =
     (case batch_step env pc allMedicationNames med of
        Inl err \<Rightarrow> Inl err
      | Inr r \<Rightarrow>
          (case batch_loop env pc allMedicationNames meds of
             Inl err \<Rightarrow> Inl err
           | Inr rs \<Rightarrow> Inr ((case r of None \<Rightarrow> [] | Some x \<Rightarrow> [x]) @ rs)))"

text \<open>\<open>medications.map(m => m.extracted_data?.drug_name).filter(Boolean)\<close>.\<close>

definition allMedicationNames_of :: "batch_medication list \<Rightarrow> string list" where
  "allMedicationNames_of meds =
     map the (filter truthy
       (map (\<lambda>m. case extracted_data m of None \<Rightarrow> None | Some e \<Rightarrow> drug_name e) meds))"

definition generate_batch :: "batch_env \<Rightarrow> batch_request \<Rightarrow> batch_response" where
  "generate_batch env req =
     (case batch_medications req of
        None \<Rightarrow> Batch400 ''medications array is required''
      | Some meds \<Rightarrow>
          (case batch_loop env (batch_patientContext req) (allMedicationNames_of meds) meds of
             Inl err \<Rightarrow> Batch500 (message err)
           | Inr medicationsWithNudges \<Rightarrow> Batch200 medicationsWithNudges))"

section \<open>Example inputs\<close>

definition example_extracted :: "string \<Rightarrow> extracted_data" where
  "example_extracted n =
     \<lparr>drug_name = Some n, dosage = Some ''10mg'', frequency = Some ''once daily'',
      dose_timing = Some ''1-0-0'', dosing_source = Some ''prescription'', duration = None,
      route = Some ''Oral'', instructions = None, name_confidence = None\<rparr>"

definition no_context :: patient_context where
  "no_context =
     \<lparr>patient_name = None, age = None, language = None, lifestyle = None, concerns = None\<rparr>"

text \<open>A configured language model that answers every request with the given object.\<close>

definition example_nudge_env :: "json_card \<Rightarrow> nudge_env" where
  "example_nudge_env json = \<lparr>api_key_configured = True, completion = (\<lambda>e p. Inr json)\<rparr>"

definition renal_json :: json_card where
  "renal_json =
     \<lparr>json_headline = Some ''Take your pill'',
      json_plain_instruction = Some ''Take one pill each day.'',
      json_the_why = Some ''This protects renal function.'',
      json_habit_hook = None, json_warning_label = None\<rparr>"

definition hypertension_json :: json_card where
  "hypertension_json =
     \<lparr>json_headline = Some ''Take your pill'',
      json_plain_instruction = Some ''Take one pill each day.'',
      json_the_why = Some ''It treats hypertension.'',
      json_habit_hook = None, json_warning_label = None\<rparr>"

text \<open>
  A card without jargon and without a headline, of 30 words in 10 sentences with 57
  syllables: the exact value of the grade formula is 8, the value computed in doubles is
  8.000000000000004.
\<close>

definition borderline_json :: json_card where
  "borderline_json =
     \<lparr>json_headline = None,
      json_plain_instruction =
        Some ''Swallow every tablet. Water helps swallowing. Repeat each morning. Daily tablet helps.'',
      json_the_why =
        Some ''Tablets lower pressure. Pressure injures vessels. Treatment protects vessels.'',
      json_habit_hook =
        Some ''Morning coffee reminds. Keep tablets nearby. Never skip tablets.'',
      json_warning_label = None\<rparr>"

text \<open>
  A pipeline environment: the vision model reads three medication lines, the second of
  them illegible; the terminology service knows no exact match and answers every
  approximate search with Lisinopril. The hash function of the example is the identity.
\<close>

definition example_process_env :: process_env where
  "example_process_env =
     \<lparr>hashFile = (\<lambda>img. img),
      backends =
        \<lparr>vision_key_configured = True,
         vision_completion =
           (\<lambda>img. Inr (Some [Some (example_extracted ''Listnopril''),
                              Some (example_extracted ''CLARIFICATION_NEEDED''),
                              Some (example_extracted ''Xyzbcdefg'')])),
         extractText = (\<lambda>img. Inl (Error ''OCR failed'')),
         extractDrugData = (\<lambda>t. Inl (Error ''no text model''))\<rparr>,
      terminology = example_services [CandidateObject (Some ''Lisinopril'') (Some ''29046'')]\<rparr>"

text \<open>
  The same with a vision model that reads the given lines and an approximate search that
  answers with the given hits.
\<close>

definition vision_env :: "extracted_data option list \<Rightarrow> candidate list \<Rightarrow> process_env" where
  "vision_env json_medications hits =
     \<lparr>hashFile = (\<lambda>img. img),
      backends =
        \<lparr>vision_key_configured = True,
         vision_completion = (\<lambda>img. Inr (Some json_medications)),
         extractText = (\<lambda>img. Inl (Error ''OCR failed'')),
         extractDrugData = (\<lambda>t. Inl (Error ''no text model''))\<rparr>,
      terminology = example_services hits\<rparr>"

definition example_request :: process_request where
  "example_request =
     \<lparr>image_file = Some ''image-bytes'', patientContext = no_context, currentMeds = [],
      forceRefresh = False\<rparr>"

definition example_clock :: clock where
  "example_clock =
     \<lparr>t_lookup = 1000, t_select = 1001, t_fill = 1002, t_store = 1500, t_insert = 1501\<rparr>"


text \<open>A state whose in-memory tier holds an unexpired entry for the example image.\<close>

definition stale_entry :: cache_entry where
  "stale_entry =
     \<lparr>cached_data =
        \<lparr>medications = [], total_medications = 0, failedExtractions = None,
         warnings = None\<rparr>,
      expiresAt = 1000000\<rparr>"

definition stale_state :: server_state where
  "stale_state =
     \<lparr>visionCache = [(''image-bytes'', stale_entry)], scan_sessions = [], trace = []\<rparr>"

text \<open>A generator without a configured backend.\<close>

definition offline_nudge_env :: nudge_env where
  "offline_nudge_env =
     \<lparr>api_key_configured = False,
      completion = (\<lambda>e p. Inl (Error ''no backend''))\<rparr>"

definition example_batch_env :: batch_env where
  "example_batch_env =
     \<lparr>batch_terminology =
        example_services [CandidateObject (Some ''Lisinopril'') (Some ''29046'')],
      nudge = offline_nudge_env\<rparr>"

definition example_batch :: "batch_medication list" where
  "example_batch =
     [\<lparr>extracted_data = Some (example_extracted ''Listnopril''), skipValidation = False\<rparr>,
      \<lparr>extracted_data = Some (example_extracted ''Xyzbcdefg''), skipValidation = False\<rparr>]"
section \<open>Properties of the safety flag\<close>

lemma flag_RED_iff:
  "flag (determineSafetyFlag fs) = RED \<longleftrightarrow> (\<exists>f \<in> set fs. tier f = 1)"
  by (auto simp: determineSafetyFlag_def Let_def list_ex_iff)

lemma flag_YELLOW_iff:
  "flag (determineSafetyFlag fs) = YELLOW \<longleftrightarrow>
     \<not> (\<exists>f \<in> set fs. tier f = 1) \<and> (\<exists>f \<in> set fs. tier f = 2)"
  by (auto simp: determineSafetyFlag_def Let_def list_ex_iff)

lemma flag_GREEN_iff:
  "flag (determineSafetyFlag fs) = GREEN \<longleftrightarrow>
     \<not> (\<exists>f \<in> set fs. tier f = 1) \<and> \<not> (\<exists>f \<in> set fs. tier f = 2)"
  by (auto simp: determineSafetyFlag_def Let_def list_ex_iff)

lemma flag_rank_le_RED: "flag_rank x \<le> flag_rank RED"
  by (cases x) simp_all

text \<open>
  Claim C1. For every list of findings, \<open>determineSafetyFlag\<close> returns RED exactly when
  some finding has tier 1, YELLOW exactly when none has tier 1 and some has tier 2, and
  GREEN in every other case (the empty list and lists of tier-3 findings among them).
  Adding a tier-1 finding anywhere in a list of findings never lowers the flag.
\<close>

theorem determineSafetyFlag_priority:
  "(flag (determineSafetyFlag fs) = RED \<longleftrightarrow> (\<exists>f \<in> set fs. tier f = 1))
   \<and> (flag (determineSafetyFlag fs) = YELLOW \<longleftrightarrow>
        \<not> (\<exists>f \<in> set fs. tier f = 1) \<and> (\<exists>f \<in> set fs. tier f = 2))
   \<and> (flag (determineSafetyFlag fs) = GREEN \<longleftrightarrow>
        \<not> (\<exists>f \<in> set fs. tier f = 1) \<and> \<not> (\<exists>f \<in> set fs. tier f = 2))
   \<and> flag (determineSafetyFlag []) = GREEN
   \<and> (tier t = 1 \<longrightarrow>
        flag (determineSafetyFlag (fs @ t # gs)) = RED
        \<and> flag_rank (flag (determineSafetyFlag (fs @ gs)))
            \<le> flag_rank (flag (determineSafetyFlag (fs @ t # gs))))"
proof -
  have "flag (determineSafetyFlag []) = GREEN"
    by (simp add: flag_GREEN_iff)
  moreover have "flag (determineSafetyFlag (fs @ t # gs)) = RED" if "tier t = 1"
    using that by (simp add: flag_RED_iff)
  ultimately show ?thesis
    using flag_RED_iff [of fs] flag_YELLOW_iff [of fs] flag_GREEN_iff [of fs]
      flag_rank_le_RED [of "flag (determineSafetyFlag (fs @ gs))"]
    by simp
qed

theorem determineSafetyFlag_priority_witness:
  "flag (determineSafetyFlag
      [\<lparr>tier = 3, drug = ''Grapefruit'', description = ''d'', severity = None,
        recommendation = ''r''\<rparr>]) = GREEN
   \<and> flag (determineSafetyFlag
      ([\<lparr>tier = 3, drug = ''Grapefruit'', description = ''d'', severity = None,
         recommendation = ''r''\<rparr>]
       @ \<lparr>tier = 1, drug = ''aspirin'', description = ''d'', severity = None,
          recommendation = ''r''\<rparr> # [])) = RED"
  using determineSafetyFlag_priority
    [of "[\<lparr>tier = 3, drug = ''Grapefruit'', description = ''d'', severity = None,
           recommendation = ''r''\<rparr>]"
        "\<lparr>tier = 1, drug = ''aspirin'', description = ''d'', severity = None,
          recommendation = ''r''\<rparr>" "[]"]
  by simp

section \<open>Properties of the drug name validator\<close>

lemma scan_step:
  "scan_candidates dn (c # cs) score bm =
     (if acceptable dn c \<and> enat (cand_distance dn c) < score
      then scan_candidates dn cs (enat (cand_distance dn c)) (Some (match_of dn c))
      else scan_candidates dn cs score bm)"
  by (auto simp: acceptable_def cand_distance_def match_of_def split: option.splits)

lemma scan_candidates_general:
  "(if \<exists>c \<in> set cs. acceptable dn c \<and> enat (cand_distance dn c) < score
    then \<exists>c \<in> set cs. acceptable dn c \<and> enat (cand_distance dn c) < score
           \<and> scan_candidates dn cs score bm = Some (match_of dn c)
           \<and> (\<forall>c' \<in> set cs. acceptable dn c' \<longrightarrow> cand_distance dn c \<le> cand_distance dn c')
    else scan_candidates dn cs score bm = bm)"
proof (induction cs arbitrary: score bm)
  case Nil
  then show ?case by simp
next
  case (Cons c cs)
  show ?case
  proof (cases "acceptable dn c \<and> enat (cand_distance dn c) < score")
    case True
    then have step: "scan_candidates dn (c # cs) score bm =
        scan_candidates dn cs (enat (cand_distance dn c)) (Some (match_of dn c))"
      by (simp only: scan_step simp_thms if_True)
    have ex: "\<exists>x \<in> set (c # cs). acceptable dn x \<and> enat (cand_distance dn x) < score"
      using True by simp
    note IH = Cons.IH [of "enat (cand_distance dn c)" "Some (match_of dn c)"]
    have "\<exists>x \<in> set (c # cs). acceptable dn x \<and> enat (cand_distance dn x) < score
           \<and> scan_candidates dn (c # cs) score bm = Some (match_of dn x)
           \<and> (\<forall>c' \<in> set (c # cs). acceptable dn c' \<longrightarrow> cand_distance dn x \<le> cand_distance dn c')"
    proof (cases "\<exists>c' \<in> set cs. acceptable dn c' \<and> enat (cand_distance dn c') < enat (cand_distance dn c)")
      case better: True
      with IH obtain b where b: "b \<in> set cs" "acceptable dn b"
        "enat (cand_distance dn b) < enat (cand_distance dn c)"
        "scan_candidates dn cs (enat (cand_distance dn c)) (Some (match_of dn c)) = Some (match_of dn b)"
        "\<forall>c' \<in> set cs. acceptable dn c' \<longrightarrow> cand_distance dn b \<le> cand_distance dn c'"
        by (simp only: if_True) blast
      from True have "enat (cand_distance dn c) < score" by simp
      with b(3) have "enat (cand_distance dn b) < score"
        by (rule less_trans)
      moreover from b(3) have "cand_distance dn b \<le> cand_distance dn c" by simp
      ultimately have "acceptable dn b \<and> enat (cand_distance dn b) < score
           \<and> scan_candidates dn (c # cs) score bm = Some (match_of dn b)
           \<and> (\<forall>c' \<in> set (c # cs). acceptable dn c' \<longrightarrow> cand_distance dn b \<le> cand_distance dn c')"
        using b step by simp
      with b(1) show ?thesis by (intro bexI [of _ b]) simp_all
    next
      case nobetter: False
      with IH have r: "scan_candidates dn cs (enat (cand_distance dn c)) (Some (match_of dn c)) = Some (match_of dn c)"
        by (simp only: if_False)
      from nobetter have "\<forall>c' \<in> set cs. acceptable dn c' \<longrightarrow> cand_distance dn c \<le> cand_distance dn c'"
        by (simp add: not_less)
      with True r step have "acceptable dn c \<and> enat (cand_distance dn c) < score
           \<and> scan_candidates dn (c # cs) score bm = Some (match_of dn c)
           \<and> (\<forall>c' \<in> set (c # cs). acceptable dn c' \<longrightarrow> cand_distance dn c \<le> cand_distance dn c')"
        by simp
      then show ?thesis by (intro bexI [of _ c]) simp_all
    qed
    with ex show ?thesis by (simp only: if_True)
  next
    case False
    then have step: "scan_candidates dn (c # cs) score bm = scan_candidates dn cs score bm"
      by (simp only: scan_step if_False)
    note IH = Cons.IH [of score bm]
    show ?thesis
    proof (cases "\<exists>c' \<in> set cs. acceptable dn c' \<and> enat (cand_distance dn c') < score")
      case better: True
      then have ex: "\<exists>x \<in> set (c # cs). acceptable dn x \<and> enat (cand_distance dn x) < score"
        by auto
      from better IH obtain b where b: "b \<in> set cs" "acceptable dn b"
        "enat (cand_distance dn b) < score"
        "scan_candidates dn cs score bm = Some (match_of dn b)"
        "\<forall>c' \<in> set cs. acceptable dn c' \<longrightarrow> cand_distance dn b \<le> cand_distance dn c'"
        by (simp only: if_True) blast
      have "cand_distance dn b \<le> cand_distance dn c" if "acceptable dn c"
      proof -
        from that False have "score \<le> enat (cand_distance dn c)" by (simp add: not_less)
        with b(3) have "enat (cand_distance dn b) < enat (cand_distance dn c)"
          by (rule less_le_trans)
        then show ?thesis by simp
      qed
      with b step have "acceptable dn b \<and> enat (cand_distance dn b) < score
           \<and> scan_candidates dn (c # cs) score bm = Some (match_of dn b)
           \<and> (\<forall>c' \<in> set (c # cs). acceptable dn c' \<longrightarrow> cand_distance dn b \<le> cand_distance dn c')"
        by simp
      with b(1) have "\<exists>x \<in> set (c # cs). acceptable dn x \<and> enat (cand_distance dn x) < score
           \<and> scan_candidates dn (c # cs) score bm = Some (match_of dn x)
           \<and> (\<forall>c' \<in> set (c # cs). acceptable dn c' \<longrightarrow> cand_distance dn x \<le> cand_distance dn c')"
        by (intro bexI [of _ b]) simp_all
      with ex show ?thesis by (simp only: if_True)
    next
      case nobetter: False
      with False have nex: "\<not> (\<exists>x \<in> set (c # cs). acceptable dn x \<and> enat (cand_distance dn x) < score)"
        by auto
      from nobetter IH have "scan_candidates dn cs score bm = bm" by (simp only: if_False)
      with step nex show ?thesis by (simp only: if_False)
    qed
  qed
qed


lemma validate_exact:
  assumes "dn \<noteq> []" "dn \<noteq> CLARIFICATION_NEEDED"
    and "found (lookupDrug svc dn)" "concepts (lookupDrug svc dn) = Some (c0 # rest)"
  shows "validateAndNormalizeDrugName svc (Some dn) =
     \<lparr>valid = True, originalName = Some dn, correctedName = Some (concept_name c0),
      confidence = 1, rxcui = Some (concept_rxcui c0), wasCorrected = False,
      suggestions = None\<rparr>"
  using assms by (simp add: validateAndNormalizeDrugName_def truthy_def Let_def)

lemma validate_no_exact:
  assumes "dn \<noteq> []" "dn \<noteq> CLARIFICATION_NEEDED" and "no_exact_hit svc dn"
  shows "validateAndNormalizeDrugName svc (Some dn) =
     (case approximateTerm_json svc dn of
        Inl err \<Rightarrow> invalid_result (Some dn) None
      | Inr None \<Rightarrow> invalid_result (Some dn) (Some [])
      | Inr (Some cs) \<Rightarrow>
          (case scan_candidates dn cs \<infinity> None of
             Some bestMatch \<Rightarrow>
               \<lparr>valid = True, originalName = Some dn,
                correctedName = Some (bm_name bestMatch),
                confidence = bm_confidence bestMatch,
                rxcui = bm_rxcui bestMatch, wasCorrected = True,
                suggestions = None\<rparr>
           | None \<Rightarrow> invalid_result (Some dn) (Some (suggestions_of cs))))"
  using assms
  by (auto simp: validateAndNormalizeDrugName_def truthy_def Let_def no_exact_hit_def
           split: sum.splits option.splits list.splits)

lemma scan_candidates_initial:
  "(if \<exists>c \<in> set cs. acceptable dn c
    then \<exists>c \<in> set cs. acceptable dn c
           \<and> scan_candidates dn cs \<infinity> None = Some (match_of dn c)
           \<and> (\<forall>c' \<in> set cs. acceptable dn c' \<longrightarrow> cand_distance dn c \<le> cand_distance dn c')
    else scan_candidates dn cs \<infinity> None = None)"
  using scan_candidates_general [of cs dn \<infinity> None] by (simp cong: if_cong)

lemma length_suggestions_of: "length (suggestions_of cs) \<le> 3"
proof -
  have "length (suggestions_of cs) \<le> length (take 3 cs)"
    unfolding suggestions_of_def length_map
    by (rule order_trans [OF length_filter_le]) simp
  then show ?thesis by simp
qed

lemma acceptable_iff:
  "acceptable dn c \<longleftrightarrow>
     (\<exists>n. candidateName c = Some n \<and>
        1 - real (levenshteinDistance (toLowerCase dn) (toLowerCase n))
              / real (max (length dn) (length n)) > 0.6)"
  by (auto simp: acceptable_def similarity_def distance_def split: option.splits)

text \<open>
  Lower-casing reaches the capital letters of Latin-1 as well: the word \<open>CAFE\<close> with
  an acute accent on its last letter (U+00C9), and the same word in small letters
  (U+00E9), have similarity 1.
\<close>

lemma similarity_latin1:
  "similarity [CHR ''C'', CHR ''A'', CHR ''F'', CHR 0xC9]
              [CHR ''c'', CHR ''a'', CHR ''f'', CHR 0xE9] = 1"
  by code_simp

text \<open>
  Claim C3, as amended. For a name that is unset, empty or the sentinel the result is
  invalid, with confidence 0, not marked corrected and without suggestions, whatever
  the terminology service would answer. For every other name: on an exact lookup hit the
  result is valid with confidence 1 and is not marked corrected. With no exact hit, each
  approximate-search hit with a usable name is scored by
  \<open>1 - levenshteinDistance(lower(input), lower(candidate)) / max(len(input), len(candidate))\<close>,
  the distance being taken on the lower-cased strings; a hit is acceptable only when that
  score is strictly above 0.6, and a lowest-distance acceptable hit is returned, marked
  corrected, with its score as confidence. When no hit is acceptable the result is invalid
  and carries as suggestions the names among the first three hits (at most three); when
  the search answers nothing the list of suggestions is empty, and when the search fails
  the result is invalid with no suggestion.
\<close>

theorem validate_policy:
  "(\<not> truthy n \<or> n = Some CLARIFICATION_NEEDED \<longrightarrow>
      \<not> valid (validateAndNormalizeDrugName svc n)
      \<and> confidence (validateAndNormalizeDrugName svc n) = 0
      \<and> \<not> wasCorrected (validateAndNormalizeDrugName svc n)
      \<and> suggestions (validateAndNormalizeDrugName svc n) = None)
   \<and> (dn \<noteq> [] \<and> dn \<noteq> CLARIFICATION_NEEDED \<longrightarrow>
       (found (lookupDrug svc dn) \<and> concepts (lookupDrug svc dn) = Some (c0 # rest) \<longrightarrow>
          valid (validateAndNormalizeDrugName svc (Some dn))
          \<and> confidence (validateAndNormalizeDrugName svc (Some dn)) = 1
          \<and> \<not> wasCorrected (validateAndNormalizeDrugName svc (Some dn)))
       \<and> (no_exact_hit svc dn \<and> approximateTerm_json svc dn = Inr (Some cs) \<longrightarrow>
            (if \<exists>c \<in> set cs. acceptable dn c
             then \<exists>c \<in> set cs. acceptable dn c
                    \<and> (\<forall>c' \<in> set cs. acceptable dn c' \<longrightarrow>
                          cand_distance dn c \<le> cand_distance dn c')
                    \<and> valid (validateAndNormalizeDrugName svc (Some dn))
                    \<and> wasCorrected (validateAndNormalizeDrugName svc (Some dn))
                    \<and> correctedName (validateAndNormalizeDrugName svc (Some dn))
                        = candidateName c
                    \<and> confidence (validateAndNormalizeDrugName svc (Some dn))
                        = 1 - real (levenshteinDistance (toLowerCase dn)
                                      (toLowerCase (the (candidateName c))))
                              / real (max (length dn) (length (the (candidateName c))))
             else \<not> valid (validateAndNormalizeDrugName svc (Some dn))
                  \<and> suggestions (validateAndNormalizeDrugName svc (Some dn))
                      = Some (suggestions_of cs)
                  \<and> length (suggestions_of cs) \<le> 3))
       \<and> (no_exact_hit svc dn \<and> approximateTerm_json svc dn = Inr None \<longrightarrow>
            \<not> valid (validateAndNormalizeDrugName svc (Some dn))
            \<and> suggestions (validateAndNormalizeDrugName svc (Some dn)) = Some [])
       \<and> (no_exact_hit svc dn \<and> approximateTerm_json svc dn = Inl err \<longrightarrow>
            \<not> valid (validateAndNormalizeDrugName svc (Some dn))
            \<and> suggestions (validateAndNormalizeDrugName svc (Some dn)) = None))
   \<and> (acceptable dn c \<longleftrightarrow>
        (\<exists>m. candidateName c = Some m \<and>
           1 - real (levenshteinDistance (toLowerCase dn) (toLowerCase m))
                 / real (max (length dn) (length m)) > 0.6))
   \<and> cand_distance dn c
        = levenshteinDistance (toLowerCase dn) (toLowerCase (the (candidateName c)))"
proof -
  have guard: "\<not> truthy n \<or> n = Some CLARIFICATION_NEEDED \<longrightarrow>
      \<not> valid (validateAndNormalizeDrugName svc n)
      \<and> confidence (validateAndNormalizeDrugName svc n) = 0
      \<and> \<not> wasCorrected (validateAndNormalizeDrugName svc n)
      \<and> suggestions (validateAndNormalizeDrugName svc n) = None"
    by (auto simp: validateAndNormalizeDrugName_def invalid_result_def)
  have usable:
    "(found (lookupDrug svc dn) \<and> concepts (lookupDrug svc dn) = Some (c0 # rest) \<longrightarrow>
          valid (validateAndNormalizeDrugName svc (Some dn))
          \<and> confidence (validateAndNormalizeDrugName svc (Some dn)) = 1
          \<and> \<not> wasCorrected (validateAndNormalizeDrugName svc (Some dn)))
       \<and> (no_exact_hit svc dn \<and> approximateTerm_json svc dn = Inr (Some cs) \<longrightarrow>
            (if \<exists>c \<in> set cs. acceptable dn c
             then \<exists>c \<in> set cs. acceptable dn c
                    \<and> (\<forall>c' \<in> set cs. acceptable dn c' \<longrightarrow>
                          cand_distance dn c \<le> cand_distance dn c')
                    \<and> valid (validateAndNormalizeDrugName svc (Some dn))
                    \<and> wasCorrected (validateAndNormalizeDrugName svc (Some dn))
                    \<and> correctedName (validateAndNormalizeDrugName svc (Some dn))
                        = candidateName c
                    \<and> confidence (validateAndNormalizeDrugName svc (Some dn))
                        = 1 - real (levenshteinDistance (toLowerCase dn)
                                      (toLowerCase (the (candidateName c))))
                              / real (max (length dn) (length (the (candidateName c))))
             else \<not> valid (validateAndNormalizeDrugName svc (Some dn))
                  \<and> suggestions (validateAndNormalizeDrugName svc (Some dn))
                      = Some (suggestions_of cs)
                  \<and> length (suggestions_of cs) \<le> 3))
       \<and> (no_exact_hit svc dn \<and> approximateTerm_json svc dn = Inr None \<longrightarrow>
            \<not> valid (validateAndNormalizeDrugName svc (Some dn))
            \<and> suggestions (validateAndNormalizeDrugName svc (Some dn)) = Some [])
       \<and> (no_exact_hit svc dn \<and> approximateTerm_json svc dn = Inl err \<longrightarrow>
            \<not> valid (validateAndNormalizeDrugName svc (Some dn))
            \<and> suggestions (validateAndNormalizeDrugName svc (Some dn)) = None)"
    if u: "dn \<noteq> []" "dn \<noteq> CLARIFICATION_NEEDED"
  proof (intro conjI impI)
    assume "found (lookupDrug svc dn) \<and> concepts (lookupDrug svc dn) = Some (c0 # rest)"
    then have r: "validateAndNormalizeDrugName svc (Some dn) =
       \<lparr>valid = True, originalName = Some dn, correctedName = Some (concept_name c0),
        confidence = 1, rxcui = Some (concept_rxcui c0), wasCorrected = False,
        suggestions = None\<rparr>"
      using u by (simp add: validate_exact)
    show "valid (validateAndNormalizeDrugName svc (Some dn))"
      and "confidence (validateAndNormalizeDrugName svc (Some dn)) = 1"
      and "\<not> wasCorrected (validateAndNormalizeDrugName svc (Some dn))"
      by (simp_all add: r)
  next
    assume a: "no_exact_hit svc dn \<and> approximateTerm_json svc dn = Inr (Some cs)"
    then have r: "validateAndNormalizeDrugName svc (Some dn) =
            (case scan_candidates dn cs \<infinity> None of
               Some bestMatch \<Rightarrow>
                 \<lparr>valid = True, originalName = Some dn,
                  correctedName = Some (bm_name bestMatch),
                  confidence = bm_confidence bestMatch,
                  rxcui = bm_rxcui bestMatch, wasCorrected = True,
                  suggestions = None\<rparr>
             | None \<Rightarrow> invalid_result (Some dn) (Some (suggestions_of cs)))"
      using u by (simp add: validate_no_exact)
    show "if \<exists>c \<in> set cs. acceptable dn c
             then \<exists>c \<in> set cs. acceptable dn c
                    \<and> (\<forall>c' \<in> set cs. acceptable dn c' \<longrightarrow>
                          cand_distance dn c \<le> cand_distance dn c')
                    \<and> valid (validateAndNormalizeDrugName svc (Some dn))
                    \<and> wasCorrected (validateAndNormalizeDrugName svc (Some dn))
                    \<and> correctedName (validateAndNormalizeDrugName svc (Some dn))
                        = candidateName c
                    \<and> confidence (validateAndNormalizeDrugName svc (Some dn))
                        = 1 - real (levenshteinDistance (toLowerCase dn)
                                      (toLowerCase (the (candidateName c))))
                              / real (max (length dn) (length (the (candidateName c))))
             else \<not> valid (validateAndNormalizeDrugName svc (Some dn))
                  \<and> suggestions (validateAndNormalizeDrugName svc (Some dn))
                      = Some (suggestions_of cs)
                  \<and> length (suggestions_of cs) \<le> 3"
    proof (cases "\<exists>c \<in> set cs. acceptable dn c")
      case True
      with scan_candidates_initial [of cs dn] obtain b where b: "b \<in> set cs" "acceptable dn b"
        "scan_candidates dn cs \<infinity> None = Some (match_of dn b)"
        "\<forall>c' \<in> set cs. acceptable dn c' \<longrightarrow> cand_distance dn b \<le> cand_distance dn c'"
        by (simp only: if_True) blast
      from b(2) obtain m where m: "candidateName b = Some m"
        by (auto simp: acceptable_def split: option.splits)
      have "acceptable dn b
                    \<and> (\<forall>c' \<in> set cs. acceptable dn c' \<longrightarrow>
                          cand_distance dn b \<le> cand_distance dn c')
                    \<and> valid (validateAndNormalizeDrugName svc (Some dn))
                    \<and> wasCorrected (validateAndNormalizeDrugName svc (Some dn))
                    \<and> correctedName (validateAndNormalizeDrugName svc (Some dn))
                        = candidateName b
                    \<and> confidence (validateAndNormalizeDrugName svc (Some dn))
                        = 1 - real (levenshteinDistance (toLowerCase dn)
                                      (toLowerCase (the (candidateName b))))
                              / real (max (length dn) (length (the (candidateName b))))"
        using b m by (simp add: r match_of_def similarity_def distance_def)
      with b(1) have "\<exists>c \<in> set cs. acceptable dn c
                    \<and> (\<forall>c' \<in> set cs. acceptable dn c' \<longrightarrow>
                          cand_distance dn c \<le> cand_distance dn c')
                    \<and> valid (validateAndNormalizeDrugName svc (Some dn))
                    \<and> wasCorrected (validateAndNormalizeDrugName svc (Some dn))
                    \<and> correctedName (validateAndNormalizeDrugName svc (Some dn))
                        = candidateName c
                    \<and> confidence (validateAndNormalizeDrugName svc (Some dn))
                        = 1 - real (levenshteinDistance (toLowerCase dn)
                                      (toLowerCase (the (candidateName c))))
                              / real (max (length dn) (length (the (candidateName c))))"
        by (rule_tac bexI [of _ b])
      with True show ?thesis by simp
    next
      case False
      with scan_candidates_initial [of cs dn] have "scan_candidates dn cs \<infinity> None = None"
        by (simp only: if_False)
      then have "\<not> valid (validateAndNormalizeDrugName svc (Some dn))
                  \<and> suggestions (validateAndNormalizeDrugName svc (Some dn))
                      = Some (suggestions_of cs)
                  \<and> length (suggestions_of cs) \<le> 3"
        by (simp add: r invalid_result_def length_suggestions_of)
      with False show ?thesis by simp
    qed
  next
    assume "no_exact_hit svc dn \<and> approximateTerm_json svc dn = Inr None"
    then have r: "validateAndNormalizeDrugName svc (Some dn) = invalid_result (Some dn) (Some [])"
      using u by (simp add: validate_no_exact)
    show "\<not> valid (validateAndNormalizeDrugName svc (Some dn))"
      and "suggestions (validateAndNormalizeDrugName svc (Some dn)) = Some []"
      by (simp_all add: r invalid_result_def)
  next
    assume "no_exact_hit svc dn \<and> approximateTerm_json svc dn = Inl err"
    then have r: "validateAndNormalizeDrugName svc (Some dn) = invalid_result (Some dn) None"
      using u by (simp add: validate_no_exact)
    show "\<not> valid (validateAndNormalizeDrugName svc (Some dn))"
      and "suggestions (validateAndNormalizeDrugName svc (Some dn)) = None"
      by (simp_all add: r invalid_result_def)
  qed
  have acc: "acceptable dn c \<longleftrightarrow>
        (\<exists>m. candidateName c = Some m \<and>
           1 - real (levenshteinDistance (toLowerCase dn) (toLowerCase m))
                 / real (max (length dn) (length m)) > 0.6)"
    by (rule acceptable_iff)
  have cd: "cand_distance dn c
        = levenshteinDistance (toLowerCase dn) (toLowerCase (the (candidateName c)))"
    by (simp add: cand_distance_def distance_def)
  show ?thesis
    apply (intro conjI)
       apply (rule guard)
      apply (intro impI, elim conjE, rule usable, assumption, assumption)
     apply (rule acc)
    apply (rule cd)
    done
qed

text \<open>
  The witness: the sentinel is refused unseen, \<open>Listnopril\<close> is corrected to the
  hit \<open>Lisinopril\<close> with confidence 0.9, and a name with an exact hit is valid with
  confidence 1.
\<close>

theorem validate_policy_witness:
  "\<not> valid (validateAndNormalizeDrugName
              (example_services [CandidateObject (Some ''Lisinopril'') (Some ''29046'')])
              (Some CLARIFICATION_NEEDED))
   \<and> suggestions (validateAndNormalizeDrugName
              (example_services [CandidateObject (Some ''Lisinopril'') (Some ''29046'')])
              (Some CLARIFICATION_NEEDED)) = None
   \<and> valid (validateAndNormalizeDrugName
            (example_services [CandidateObject (Some ''Lisinopril'') (Some ''29046'')])
            (Some ''Listnopril''))
   \<and> wasCorrected (validateAndNormalizeDrugName
            (example_services [CandidateObject (Some ''Lisinopril'') (Some ''29046'')])
            (Some ''Listnopril''))
   \<and> confidence (validateAndNormalizeDrugName
            (example_services [CandidateObject (Some ''Lisinopril'') (Some ''29046'')])
            (Some ''Listnopril'')) = 9 / 10
   \<and> valid (validateAndNormalizeDrugName resolving_services (Some ''Aspirin''))
   \<and> confidence (validateAndNormalizeDrugName resolving_services (Some ''Aspirin'')) = 1
   \<and> \<not> wasCorrected (validateAndNormalizeDrugName resolving_services (Some ''Aspirin''))"
proof -
  let ?c = "CandidateObject (Some ''Lisinopril'') (Some ''29046'')"
  let ?svc = "example_services [?c]"
  let ?R = "validateAndNormalizeDrugName ?svc (Some ''Listnopril'')"
  let ?S = "validateAndNormalizeDrugName ?svc (Some CLARIFICATION_NEEDED)"
  have h1: "''Listnopril'' \<noteq> []" by simp
  have h2: "''Listnopril'' \<noteq> CLARIFICATION_NEEDED" by (simp add: CLARIFICATION_NEEDED_def)
  have h3: "no_exact_hit ?svc ''Listnopril''"
    by (simp add: no_exact_hit_def lookupDrug_def example_services_def)
  have h4: "approximateTerm_json ?svc ''Listnopril'' = Inr (Some [?c])"
    by (simp add: example_services_def)
  have h5: "acceptable ''Listnopril'' ?c" by code_simp
  have d: "levenshteinDistance (toLowerCase ''Listnopril'') (toLowerCase ''Lisinopril'') = 1"
    by code_simp
  note pol = validate_policy [where n = "Some CLARIFICATION_NEEDED" and dn = "''Listnopril''"
      and svc = ?svc and cs = "[?c]" and c = ?c and ?c0.0 = undefined and rest = undefined
      and err = undefined]
  from pol [THEN conjunct1]
  have s: "\<not> valid ?S \<and> suggestions ?S = None"
    by simp
  note body = mp [OF pol [THEN conjunct2, THEN conjunct1] conjI [OF h1 h2]]
  from body have
    "no_exact_hit ?svc ''Listnopril'' \<and> approximateTerm_json ?svc ''Listnopril'' = Inr (Some [?c])
     \<longrightarrow> (if \<exists>c \<in> set [?c]. acceptable ''Listnopril'' c
          then \<exists>c \<in> set [?c]. acceptable ''Listnopril'' c
                  \<and> (\<forall>c' \<in> set [?c]. acceptable ''Listnopril'' c' \<longrightarrow>
                        cand_distance ''Listnopril'' c \<le> cand_distance ''Listnopril'' c')
                  \<and> valid ?R \<and> wasCorrected ?R \<and> correctedName ?R = candidateName c
                  \<and> confidence ?R
                      = 1 - real (levenshteinDistance (toLowerCase ''Listnopril'')
                                    (toLowerCase (the (candidateName c))))
                            / real (max (length ''Listnopril'') (length (the (candidateName c))))
          else \<not> valid ?R \<and> suggestions ?R = Some (suggestions_of [?c])
                \<and> length (suggestions_of [?c]) \<le> 3)"
    by (rule conjunct2 [THEN conjunct1])
  with h3 h4 h5 have
    "valid ?R \<and> wasCorrected ?R
     \<and> confidence ?R
          = 1 - real (levenshteinDistance (toLowerCase ''Listnopril'')
                        (toLowerCase (the (candidateName ?c))))
                / real (max (length ''Listnopril'') (length (the (candidateName ?c))))"
    by (simp add: truthy_def)
  then have approx: "valid ?R \<and> wasCorrected ?R \<and> confidence ?R = 9 / 10"
    by (simp add: truthy_def d)
  let ?E = "validateAndNormalizeDrugName resolving_services (Some ''Aspirin'')"
  have e1: "''Aspirin'' \<noteq> []" by simp
  have e2: "''Aspirin'' \<noteq> CLARIFICATION_NEEDED" by (simp add: CLARIFICATION_NEEDED_def)
  have e3: "found (lookupDrug resolving_services ''Aspirin'')
            \<and> concepts (lookupDrug resolving_services ''Aspirin'')
                = Some (\<lparr>concept_rxcui = ''1'', concept_name = ''Aspirin''\<rparr> # [])"
    by (simp add: lookupDrug_def resolving_services_def)
  note pol2 = validate_policy [where n = None and dn = "''Aspirin''"
      and svc = resolving_services and cs = "[]" and c = ?c
      and ?c0.0 = "\<lparr>concept_rxcui = ''1'', concept_name = ''Aspirin''\<rparr>" and rest = "[]"
      and err = undefined]
  note body2 = mp [OF pol2 [THEN conjunct2, THEN conjunct1] conjI [OF e1 e2]]
  from mp [OF body2 [THEN conjunct1] e3]
  have exact: "valid ?E \<and> confidence ?E = 1 \<and> \<not> wasCorrected ?E" .
  from s approx exact show ?thesis by simp
qed

text \<open>
  The claim as it is written scores a hit by the distance between the input and the
  hit themselves. The source lower-cases both first: for the input \<open>Listnopril\<close> and the
  hit \<open>lisinopril\<close> the validator reports confidence 0.9, where the formula of the claim
  gives 0.8. And the claim speaks of every input name: for the sentinel the validator
  answers invalid with confidence 0 even when the terminology service has an exact hit
  for it.
\<close>

theorem validate_case_counterexample:
  "wasCorrected (validateAndNormalizeDrugName
       (example_services [CandidateString ''lisinopril'']) (Some ''Listnopril''))
   \<and> confidence (validateAndNormalizeDrugName
       (example_services [CandidateString ''lisinopril'']) (Some ''Listnopril'')) = 9 / 10
   \<and> 1 - real (levenshteinDistance ''Listnopril'' ''lisinopril'')
          / real (max (length ''Listnopril'') (length ''lisinopril'')) = 8 / 10
   \<and> confidence (validateAndNormalizeDrugName
       (example_services [CandidateString ''lisinopril'']) (Some ''Listnopril''))
     \<noteq> 1 - real (levenshteinDistance ''Listnopril'' ''lisinopril'')
          / real (max (length ''Listnopril'') (length ''lisinopril''))
   \<and> found (lookupDrug resolving_services ''CLARIFICATION_NEEDED'')
   \<and> concepts (lookupDrug resolving_services ''CLARIFICATION_NEEDED'')
       = Some [\<lparr>concept_rxcui = ''1'', concept_name = ''CLARIFICATION_NEEDED''\<rparr>]
   \<and> \<not> valid (validateAndNormalizeDrugName resolving_services (Some ''CLARIFICATION_NEEDED''))
   \<and> confidence (validateAndNormalizeDrugName resolving_services
        (Some ''CLARIFICATION_NEEDED'')) = 0"
  by code_simp

section \<open>Properties of the interaction check\<close>

lemma get_property_ordinary:
  "key \<notin> set Object_prototype \<Longrightarrow>
     get_property table key = (case map_of table key of Some v \<Rightarrow> Own v | None \<Rightarrow> Absent)"
  by (simp add: get_property_def split: option.splits)

text \<open>
  Every failure inside the \<open>try\<close> block, and a missing identifier, lead to the static
  fallback table.
\<close>

lemma checkInteractions_degrades:
  "getRxCUI svc dn = None \<or> (\<exists>e. checkInteractions_try svc dn meds = Inl e)
   \<Longrightarrow> checkInteractions svc dn meds = getFallbackInteractions dn meds"
  by (auto simp: checkInteractions_def checkInteractions_try_def split: sum.splits)

text \<open>
  For a drug name whose lower-cased form is not a property of \<open>Object.prototype\<close> the
  fallback returns normally: a tier-1 finding for every current medication listed as a
  partner of the drug, followed by the drug's dietary interactions.
\<close>

lemma getFallbackInteractions_ordinary:
  assumes "toLowerCase dn \<notin> set Object_prototype"
  shows "getFallbackInteractions dn meds =
     Inr (map (fallback_finding dn)
            (filter (\<lambda>med. toLowerCase med \<in>
                 set (case map_of knownInteractions (toLowerCase dn) of
                        None \<Rightarrow> [] | Some ps \<Rightarrow> ps)) meds)
          @ (case map_of dietaryMap (toLowerCase dn) of None \<Rightarrow> [] | Some fs \<Rightarrow> fs))"
  using assms
  by (simp add: getFallbackInteractions_def getDietaryInteractions_def spread_def Let_def
      get_property_ordinary split: option.splits)

lemma getFallbackInteractions_warfarin_aspirin:
  "getFallbackInteractions ''Warfarin'' [''Aspirin'', ''Paracetamol''] =
     Inr [fallback_finding ''Warfarin'' ''Aspirin'',
          \<lparr>tier = 2, drug = ''Vitamin K foods'',
           description = ''Foods high in Vitamin K (spinach, kale) can reduce warfarin effectiveness.'',
           severity = None,
           recommendation = ''Keep vitamin K intake consistent day to day.''\<rparr>]"
  by code_simp

text \<open>So for these names the interaction check always returns a list of findings.\<close>

lemma checkInteractions_ordinary_total:
  assumes "toLowerCase dn \<notin> set Object_prototype"
  shows "\<exists>fs. checkInteractions svc dn meds = Inr fs"
  using getFallbackInteractions_ordinary [OF assms, of meds]
  by (cases "checkInteractions_try svc dn meds") (simp_all add: checkInteractions_def)

text \<open>
  For a name whose lower-cased form is a property of \<open>Object.prototype\<close> it never
  does: every path ends in the spread of the inherited value, or before that in the call
  of its missing \<open>includes\<close>.
\<close>

lemma getDietaryInteractions_inherited:
  assumes "toLowerCase dn \<in> set Object_prototype"
  shows "getDietaryInteractions dn = Inherited_value"
proof -
  from assms have "map_of dietaryMap (toLowerCase dn) = None"
    by (auto simp: dietaryMap_def Object_prototype_def)
  with assms show ?thesis
    by (simp add: getDietaryInteractions_def get_property_def)
qed

lemma getFallbackInteractions_inherited:
  assumes "toLowerCase dn \<in> set Object_prototype"
  shows "\<exists>e. getFallbackInteractions dn meds = Inl e"
  using getDietaryInteractions_inherited [OF assms]
  by (auto simp: getFallbackInteractions_def spread_def Let_def
      split: property.splits sum.splits)

lemma checkInteractions_inherited_throws:
  assumes "toLowerCase dn \<in> set Object_prototype"
  shows "\<exists>e. checkInteractions svc dn meds = Inl e"
proof -
  from getFallbackInteractions_inherited [OF assms] obtain e where
    e: "getFallbackInteractions dn meds = Inl e" by blast
  have "\<exists>e'. checkInteractions_try svc dn meds = Inl e'"
    using getDietaryInteractions_inherited [OF assms]
    by (auto simp: checkInteractions_try_def e spread_def Let_def
        split: option.splits sum.splits)
  then show ?thesis by (auto simp: checkInteractions_def e)
qed

lemma getDietaryInteractions_constructor:
  "getDietaryInteractions ''constructor'' = Inherited_value"
  by code_simp

lemma getFallbackInteractions_constructor:
  "getFallbackInteractions ''constructor'' [] =
     Inl (TypeError ''Spread syntax requires ...iterable[Symbol.iterator] to be a function'')"
  by code_simp

text \<open>
  Claim C8 says that \<open>checkInteractions\<close> returns the results of the static fallback
  table, and never throws, whenever the identifier lookup yields nothing or a service
  call fails. The code does so for ordinary drug names (the lemmas above), but not for
  the drug name \<open>constructor\<close>: \<open>dietaryMap[key]\<close> then reads the constructor every
  object inherits, \<open>getDietaryInteractions\<close> returns it, and spreading it into
  \<open>interactions.push\<close> throws a TypeError. This happens inside the \<open>try\<close> block and
  again inside the \<open>catch\<close> handler, so whatever the services answer, the call with
  no current medication ends in that TypeError.
\<close>

theorem checkInteractions_constructor_throws:
  "checkInteractions svc ''constructor'' [] =
     Inl (TypeError ''Spread syntax requires ...iterable[Symbol.iterator] to be a function'')"
proof -
  have "\<exists>e. checkInteractions_try svc ''constructor'' [] = Inl e"
    by (auto simp: checkInteractions_try_def getFallbackInteractions_constructor
        getDietaryInteractions_constructor spread_def Let_def
        split: option.splits sum.splits)
  then show ?thesis
    by (auto simp: checkInteractions_def getFallbackInteractions_constructor)
qed

theorem checkInteractions_constructor_throws_witness:
  "checkInteractions (example_services []) ''constructor'' [] =
     Inl (TypeError ''Spread syntax requires ...iterable[Symbol.iterator] to be a function'')"
  by (rule checkInteractions_constructor_throws)

section \<open>Properties of the enhanced safety check\<close>

lemma DOSAGE_ALERTS_diphenhydramine:
  "get_property DOSAGE_ALERTS (trim (toLowerCase ''diphenhydramine'')) = Absent"
  by code_simp

lemma checkDosageAlerts_diphenhydramine: "checkDosageAlerts ''diphenhydramine'' d = Inr []"
  by (simp add: checkDosageAlerts_def DOSAGE_ALERTS_diphenhydramine split: option.splits)

lemma checkFoodInteractions_diphenhydramine:
  "checkFoodInteractions ''diphenhydramine'' =
     \<lparr>hasFoodInteraction = False, avoid = None, reason = None, timing = None,
      food_note = None\<rparr>"
  by code_simp

lemma checkAgeWarnings_diphenhydramine:
  "checkAgeWarnings ''diphenhydramine'' 70 =
     [\<lparr>category = ''elderly'', aw_severity = ''moderate'',
       warning = ''Can cause confusion and dizziness in seniors'',
       alternatives = Some ''Consider non-drowsy alternatives'', aw_note = None\<rparr>]"
  by code_simp

lemma comprehensiveSafetyCheck_diphenhydramine:
  "comprehensiveSafetyCheck ''diphenhydramine'' dose (Some 70) meds =
     Inr \<lparr>sr_drugName = ''diphenhydramine'',
          foodInteractions =
            \<lparr>hasFoodInteraction = False, avoid = None, reason = None, timing = None,
             food_note = None\<rparr>,
          ageWarnings =
            [\<lparr>category = ''elderly'', aw_severity = ''moderate'',
              warning = ''Can cause confusion and dizziness in seniors'',
              alternatives = Some ''Consider non-drowsy alternatives'', aw_note = None\<rparr>],
          dosageAlerts = [], overallSeverity = ''moderate''\<rparr>"
  by (simp add: comprehensiveSafetyCheck_def checkDosageAlerts_diphenhydramine
      checkFoodInteractions_diphenhydramine checkAgeWarnings_diphenhydramine Let_def)

text \<open>
  Claim C9. For a patient of age 70 and the drug name \<open>diphenhydramine\<close>,
  \<open>checkAgeWarnings\<close> returns one warning, of category \<open>elderly\<close> and severity
  \<open>moderate\<close>; whatever the dosage string and the current medications,
  \<open>comprehensiveSafetyCheck\<close> reports \<open>overallSeverity\<close> \<open>moderate\<close>; and
  \<open>determineSafetyFlag\<close> on the empty list of findings is GREEN.
\<close>

theorem diphenhydramine_elderly_scenario:
  "map category (checkAgeWarnings ''diphenhydramine'' 70) = [''elderly'']
   \<and> map aw_severity (checkAgeWarnings ''diphenhydramine'' 70) = [''moderate'']
   \<and> (\<exists>r. comprehensiveSafetyCheck ''diphenhydramine'' dose (Some 70) meds = Inr r
          \<and> ageWarnings r = checkAgeWarnings ''diphenhydramine'' 70
          \<and> overallSeverity r = ''moderate'')
   \<and> flag (determineSafetyFlag []) = GREEN"
  by (simp add: comprehensiveSafetyCheck_diphenhydramine checkAgeWarnings_diphenhydramine
      determineSafetyFlag_def)

theorem diphenhydramine_elderly_scenario_witness:
  "map category (checkAgeWarnings ''diphenhydramine'' 70) = [''elderly'']
   \<and> map aw_severity (checkAgeWarnings ''diphenhydramine'' 70) = [''moderate'']
   \<and> (\<exists>r. comprehensiveSafetyCheck ''diphenhydramine'' (Some ''25mg'') (Some 70) [] = Inr r
          \<and> ageWarnings r = checkAgeWarnings ''diphenhydramine'' 70
          \<and> overallSeverity r = ''moderate'')
   \<and> flag (determineSafetyFlag []) = GREEN"
  by (rule diphenhydramine_elderly_scenario)

section \<open>Properties of the readability gate\<close>

lemma isPlain_iff:
  "isPlain (validatePlainLanguage t) \<longleftrightarrow>
     calculateFleschKincaid t \<le> 8 \<and> detectMedicalJargon t = []"
  by (simp add: validatePlainLanguage_def Let_def)

lemma generateCard_simplifies:
  assumes "truthy (drug_name ed)" and "drug_name ed \<noteq> Some CLARIFICATION_NEEDED"
    and "api_key_configured env" and "completion env ed pc = Inr json"
    and "\<not> isPlain (validatePlainLanguage (fullText_of json))"
  shows "generateCard env ed pc fs = Inr (simplified_card json fs)"
  using assms by (simp add: generateCard_def Let_def)

text \<open>The minimal card is what the generator returns without a backend or when
  generation throws.\<close>

lemma generateCard_minimal:
  assumes "truthy (drug_name ed)" and "drug_name ed \<noteq> Some CLARIFICATION_NEEDED"
    and "\<not> api_key_configured env \<or> (\<exists>err. completion env ed pc = Inl err)"
  shows "generateCard env ed pc fs = Inr (minimal_card ed fs)"
  using assms by (auto simp: generateCard_def)

lemma example_extracted_usable:
  "truthy (drug_name (example_extracted ''Lisinopril''))
   \<and> drug_name (example_extracted ''Lisinopril'') \<noteq> Some CLARIFICATION_NEEDED"
  by (simp add: example_extracted_def truthy_def CLARIFICATION_NEEDED_def)

lemma renal_jargon: "detectMedicalJargon (fullText_of renal_json) = [''renal'']"
  by code_simp

lemma renal_simplified:
  "simplified_card renal_json [] =
     \<lparr>headline = ''Take your pill'', plain_instruction = ''Take one pill each day.'',
      the_why = ''This protects renal function.'', habit_hook = '''',
      warning_label = ''''\<rparr>"
  by code_simp

lemma renal_card_jargon:
  "detectMedicalJargon (card_text
     \<lparr>headline = ''Take your pill'', plain_instruction = ''Take one pill each day.'',
      the_why = ''This protects renal function.'', habit_hook = '''',
      warning_label = ''''\<rparr>) = [''renal'']"
  by code_simp

lemma hypertension_jargon:
  "detectMedicalJargon (fullText_of hypertension_json) = [''hypertension'']"
  by code_simp

lemma hypertension_simplified:
  "simplified_card hypertension_json [] =
     \<lparr>headline = ''Take your pill'', plain_instruction = ''Take one pill each day.'',
      the_why = ''It treats high blood pressure.'', habit_hook = '''',
      warning_label = ''''\<rparr>"
  by code_simp

lemma borderline_grade:
  "calculateFleschKincaid (fullText_of borderline_json)
     = 2251799813685249 / 281474976710656"
  by code_simp

lemma borderline_jargon: "detectMedicalJargon (fullText_of borderline_json) = []"
  by code_simp

lemma borderline_simplified:
  "simplified_card borderline_json [] =
     \<lparr>headline = '''',
      plain_instruction =
        ''Swallow every tablet. Water helps swallowing. Repeat each morning. Daily tablet helps.'',
      the_why = ''Tablets lower pressure. Pressure injures vessels. Treatment protects vessels.'',
      habit_hook = ''Morning coffee reminds. Keep tablets nearby. Never skip tablets.'',
      warning_label = ''''\<rparr>"
  by code_simp

text \<open>
  For this text the validator reports the grade level 8.0 and still answers that the
  text is not plain: the gate reads the double before it is rounded.
\<close>

lemma borderline_reported:
  "gradeLevel (validatePlainLanguage (fullText_of borderline_json)) = 8
   \<and> \<not> isPlain (validatePlainLanguage (fullText_of borderline_json))"
proof -
  have "toFixed1 (2251799813685249 / 281474976710656) = 8" by code_simp
  then show ?thesis
    by (simp add: validatePlainLanguage_def Let_def borderline_grade)
qed

text \<open>
  Claim C4, as amended. For every generated card whose combined text has a computed
  grade level above 8 (the double that \<open>calculateFleschKincaid\<close> returns) or
  contains a word of the jargon table, the generator emits the card whose five fields
  are the generated fields passed once through \<open>simplifyText\<close> (the warning label
  after its default). No second readability check is made and the minimal fallback card
  is not used on this path.
\<close>

theorem generateCard_gate:
  assumes "truthy (drug_name ed)" and "drug_name ed \<noteq> Some CLARIFICATION_NEEDED"
    and "api_key_configured env" and "completion env ed pc = Inr json"
    and "calculateFleschKincaid (fullText_of json) > 8
         \<or> detectMedicalJargon (fullText_of json) \<noteq> []"
  shows "generateCard env ed pc fs = Inr (simplified_card json fs)"
proof -
  from assms(5) have "\<not> isPlain (validatePlainLanguage (fullText_of json))"
    by (auto simp: isPlain_iff)
  with assms(1-4) show ?thesis by (rule generateCard_simplifies)
qed

text \<open>
  The witness is the card at the edge of the gate: its grade level is 8 in exact
  arithmetic and just above 8 in the doubles of the source, so the generator takes the
  simplifying branch (which leaves the missing headline empty, where the other branch
  would build one from the prescription).
\<close>

theorem generateCard_gate_witness:
  "8 < calculateFleschKincaid (fullText_of borderline_json)
   \<and> detectMedicalJargon (fullText_of borderline_json) = []
   \<and> generateCard (example_nudge_env borderline_json) (example_extracted ''Lisinopril'')
         no_context [] =
       Inr \<lparr>headline = '''',
            plain_instruction =
              ''Swallow every tablet. Water helps swallowing. Repeat each morning. Daily tablet helps.'',
            the_why =
              ''Tablets lower pressure. Pressure injures vessels. Treatment protects vessels.'',
            habit_hook = ''Morning coffee reminds. Keep tablets nearby. Never skip tablets.'',
            warning_label = ''''\<rparr>"
proof -
  let ?env = "example_nudge_env borderline_json"
  let ?ed = "example_extracted ''Lisinopril''"
  have h1: "truthy (drug_name ?ed)" and h2: "drug_name ?ed \<noteq> Some CLARIFICATION_NEEDED"
    using example_extracted_usable by simp_all
  have h3: "api_key_configured ?env" by (simp add: example_nudge_env_def)
  have h4: "completion ?env ?ed no_context = Inr borderline_json"
    by (simp add: example_nudge_env_def)
  have g: "8 < calculateFleschKincaid (fullText_of borderline_json)"
    by (simp add: borderline_grade)
  then have h5: "calculateFleschKincaid (fullText_of borderline_json) > 8
         \<or> detectMedicalJargon (fullText_of borderline_json) \<noteq> []"
    by simp
  from generateCard_gate [OF h1 h2 h3 h4 h5, of "[]"] g show ?thesis
    by (simp add: borderline_simplified borderline_jargon)
qed

text \<open>A card that fails the gate on its jargon is simplified as well.\<close>

lemma generateCard_hypertension:
  "generateCard (example_nudge_env hypertension_json) (example_extracted ''Lisinopril'')
     no_context [] =
     Inr \<lparr>headline = ''Take your pill'', plain_instruction = ''Take one pill each day.'',
          the_why = ''It treats high blood pressure.'', habit_hook = '''',
          warning_label = ''''\<rparr>"
proof -
  let ?env = "example_nudge_env hypertension_json"
  let ?ed = "example_extracted ''Lisinopril''"
  have h1: "truthy (drug_name ?ed)" and h2: "drug_name ?ed \<noteq> Some CLARIFICATION_NEEDED"
    using example_extracted_usable by simp_all
  have h3: "api_key_configured ?env" by (simp add: example_nudge_env_def)
  have h4: "completion ?env ?ed no_context = Inr hypertension_json"
    by (simp add: example_nudge_env_def)
  have h5: "\<not> isPlain (validatePlainLanguage (fullText_of hypertension_json))"
    by (simp add: isPlain_iff hypertension_jargon)
  from generateCard_simplifies [OF h1 h2 h3 h4 h5, of "[]"] show ?thesis
    by (simp add: hypertension_simplified)
qed

text \<open>
  The claim as written promises that the emitted card passes the gate or is the minimal
  card. The word \<open>renal\<close> is in the jargon table but has no entry in the replacement
  table: a generated card that uses it is emitted unchanged, still with that word, and
  it is not the minimal card.
\<close>

theorem generateCard_gate_counterexample:
  "detectMedicalJargon (fullText_of renal_json) \<noteq> []
   \<and> generateCard (example_nudge_env renal_json) (example_extracted ''Lisinopril'')
        no_context [] =
       Inr \<lparr>headline = ''Take your pill'', plain_instruction = ''Take one pill each day.'',
            the_why = ''This protects renal function.'', habit_hook = '''',
            warning_label = ''''\<rparr>
   \<and> detectMedicalJargon (card_text
         \<lparr>headline = ''Take your pill'', plain_instruction = ''Take one pill each day.'',
          the_why = ''This protects renal function.'', habit_hook = '''',
          warning_label = ''''\<rparr>) = [''renal'']
   \<and> \<not> isPlain (validatePlainLanguage (card_text
         \<lparr>headline = ''Take your pill'', plain_instruction = ''Take one pill each day.'',
          the_why = ''This protects renal function.'', habit_hook = '''',
          warning_label = ''''\<rparr>))
   \<and> \<lparr>headline = ''Take your pill'', plain_instruction = ''Take one pill each day.'',
       the_why = ''This protects renal function.'', habit_hook = '''',
       warning_label = ''''\<rparr>
      \<noteq> minimal_card (example_extracted ''Lisinopril'') []"
proof -
  let ?env = "example_nudge_env renal_json"
  let ?ed = "example_extracted ''Lisinopril''"
  have h1: "truthy (drug_name ?ed)" and h2: "drug_name ?ed \<noteq> Some CLARIFICATION_NEEDED"
    using example_extracted_usable by simp_all
  have h3: "api_key_configured ?env" by (simp add: example_nudge_env_def)
  have h4: "completion ?env ?ed no_context = Inr renal_json"
    by (simp add: example_nudge_env_def)
  have h5: "\<not> isPlain (validatePlainLanguage (fullText_of renal_json))"
    by (simp add: isPlain_iff renal_jargon)
  have g: "generateCard ?env ?ed no_context [] = Inr (simplified_card renal_json [])"
    using h1 h2 h3 h4 h5 by (rule generateCard_simplifies)
  have m: "minimal_card ?ed [] =
      \<lparr>headline = '''', plain_instruction = '''', the_why = '''', habit_hook = '''',
       warning_label = ''''\<rparr>"
    by (simp add: minimal_card_def example_extracted_def or_else_def)
  show ?thesis
    by (simp add: g renal_simplified renal_jargon renal_card_jargon isPlain_iff m)
qed

section \<open>Properties of the extraction pipeline\<close>

lemma process_candidate_unusable:
  "\<not> name_usable c \<Longrightarrow>
     process_candidate svc meds pc c =
       Inr (Failed \<lparr>fx_reason = ''unclear_name'', fx_originalName = None,
                    fx_suggestions = None,
                    fx_message = ''Could not read medication name clearly'',
                    fx_extractedData = c\<rparr>)"
  by (auto simp: process_candidate_def name_usable_def)

lemma process_candidate_invalid:
  "name_usable c \<Longrightarrow> \<not> valid (validateAndNormalizeDrugName svc (drug_name c)) \<Longrightarrow>
     process_candidate svc meds pc c =
       Inr (Failed \<lparr>fx_reason = ''invalid_drug'', fx_originalName = drug_name c,
                    fx_suggestions =
                      Some (case suggestions (validateAndNormalizeDrugName svc (drug_name c)) of
                              None \<Rightarrow> [] | Some sugg \<Rightarrow> sugg),
                    fx_message = [CHR 0x22] @ the (drug_name c) @ [CHR 0x22]
                                 @ '' is not a recognized medication'',
                    fx_extractedData = c\<rparr>)"
  by (auto simp: process_candidate_def name_usable_def Let_def)

lemma process_candidate_Processed:
  assumes "process_candidate svc meds pc c = Inr (Processed p)"
  shows "passes svc c
         \<and> extracted p = apply_validation (validateAndNormalizeDrugName svc (drug_name c)) c"
  using assms
  by (auto simp: process_candidate_def passes_def name_usable_def Let_def
      split: if_splits sum.splits)

lemma process_candidate_Failed:
  assumes "process_candidate svc meds pc c = Inr (Failed f)"
  shows "\<not> passes svc c \<and> fx_extractedData f = c"
  using assms
  by (auto simp: process_candidate_def passes_def name_usable_def Let_def
      split: if_splits sum.splits)

lemma process_medications_all2:
  "process_medications svc meds pc cands = Inr outs \<Longrightarrow>
     list_all2 (\<lambda>c out. process_candidate svc meds pc c = Inr out) cands outs"
  by (induction cands arbitrary: outs) (auto split: sum.splits)

lemma processed_of_set: "p \<in> set (processed_of outs) \<longleftrightarrow> Processed p \<in> set outs"
  by (induction outs rule: processed_of.induct) auto

lemma failed_of_set: "f \<in> set (failed_of outs) \<longleftrightarrow> Failed f \<in> set outs"
  by (induction outs rule: failed_of.induct) auto

lemma length_outcomes:
  "length (processed_of outs) + length (failed_of outs) = length outs"
  by (induction outs rule: processed_of.induct) auto

lemma process_candidate_not_passes:
  assumes "\<not> passes svc c"
  shows "\<exists>f. process_candidate svc meds pc c = Inr (Failed f) \<and> fx_extractedData f = c
           \<and> (if name_usable c
                then fx_reason f = ''invalid_drug'' \<and> fx_originalName f = drug_name c
                     \<and> fx_suggestions f =
                         Some (case suggestions (validateAndNormalizeDrugName svc (drug_name c)) of
                                 None \<Rightarrow> [] | Some sugg \<Rightarrow> sugg)
                else fx_reason f = ''unclear_name'' \<and> fx_suggestions f = None)"
proof (cases "name_usable c")
  case True
  with assms have "\<not> valid (validateAndNormalizeDrugName svc (drug_name c))"
    by (simp add: passes_def)
  with True show ?thesis by (simp add: process_candidate_invalid)
next
  case False
  then show ?thesis by (simp add: process_candidate_unusable)
qed

lemma no_pass_no_throw:
  "\<forall>c \<in> set cands. \<not> passes svc c \<Longrightarrow>
     \<exists>outs. process_medications svc meds pc cands = Inr outs
            \<and> processed_of outs = [] \<and> map fx_extractedData (failed_of outs) = cands"
proof (induction cands)
  case Nil
  then show ?case by simp
next
  case (Cons c cands)
  then obtain outs where outs: "process_medications svc meds pc cands = Inr outs"
    "processed_of outs = []" "map fx_extractedData (failed_of outs) = cands"
    by auto
  from Cons.prems have "\<not> passes svc c" by simp
  then obtain f where f: "process_candidate svc meds pc c = Inr (Failed f)" "fx_extractedData f = c"
    using process_candidate_not_passes [of svc c meds pc] by blast
  with outs show ?case by simp
qed


lemma candidateName_nonempty: "candidateName b = Some m \<Longrightarrow> m \<noteq> []"
  by (cases b) (auto simp: truthy_def split: if_splits option.splits)

lemma originalName_validate: "originalName (validateAndNormalizeDrugName svc n) = n"
  by (auto simp: validateAndNormalizeDrugName_def invalid_result_def Let_def
      split: option.splits list.splits sum.splits)

lemma validate_corrected_source:
  assumes "wasCorrected (validateAndNormalizeDrugName svc n)"
  shows "\<exists>dn cs b. n = Some dn \<and> dn \<noteq> [] \<and> dn \<noteq> CLARIFICATION_NEEDED
           \<and> approximateTerm_json svc dn = Inr (Some cs) \<and> b \<in> set cs \<and> acceptable dn b
           \<and> validateAndNormalizeDrugName svc n =
               \<lparr>valid = True, originalName = n, correctedName = candidateName b,
                confidence = similarity dn (the (candidateName b)),
                rxcui = candidateRxcui b, wasCorrected = True, suggestions = None\<rparr>"
proof -
  from assms obtain dn where dn: "n = Some dn" "dn \<noteq> []" "dn \<noteq> CLARIFICATION_NEEDED"
    by (cases n) (auto simp: validateAndNormalizeDrugName_def invalid_result_def truthy_def
        split: if_splits)
  from assms dn obtain cs bm where cs: "approximateTerm_json svc dn = Inr (Some cs)"
    "scan_candidates dn cs \<infinity> None = Some bm"
    "validateAndNormalizeDrugName svc n =
       \<lparr>valid = True, originalName = n, correctedName = Some (bm_name bm),
        confidence = bm_confidence bm, rxcui = bm_rxcui bm, wasCorrected = True,
        suggestions = None\<rparr>"
    by (auto simp: validateAndNormalizeDrugName_def invalid_result_def truthy_def Let_def
        split: if_splits option.splits list.splits sum.splits)
  from cs(2) scan_candidates_initial [of cs dn]
  obtain b where b: "b \<in> set cs" "acceptable dn b" "bm = match_of dn b"
    by (auto split: if_splits)
  from b(2) obtain m where m: "candidateName b = Some m"
    by (auto simp: acceptable_def split: option.splits)
  from dn cs b m show ?thesis
    by (auto simp: match_of_def intro!: exI [of _ cs] bexI [of _ b])
qed

lemma wasCorrected_passes:
  assumes "wasCorrected (validateAndNormalizeDrugName svc (drug_name c))"
  shows "passes svc c \<and> confidence (validateAndNormalizeDrugName svc (drug_name c)) > 0.6"
proof -
  from validate_corrected_source [OF assms] obtain dn cs b where
    *: "drug_name c = Some dn" "dn \<noteq> []" "dn \<noteq> CLARIFICATION_NEEDED" "acceptable dn b"
    "validateAndNormalizeDrugName svc (drug_name c) =
               \<lparr>valid = True, originalName = drug_name c, correctedName = candidateName b,
                confidence = similarity dn (the (candidateName b)),
                rxcui = candidateRxcui b, wasCorrected = True, suggestions = None\<rparr>"
    by blast
  from *(4) have "similarity dn (the (candidateName b)) > 0.6"
    by (auto simp: acceptable_def split: option.splits)
  with * show ?thesis
    by (simp add: passes_def name_usable_def truthy_def)
qed

lemma apply_validation_name:
  assumes "passes svc c"
  shows "truthy (drug_name (apply_validation (validateAndNormalizeDrugName svc (drug_name c)) c))"
proof (cases "wasCorrected (validateAndNormalizeDrugName svc (drug_name c))
              \<and> \<not> confidence (validateAndNormalizeDrugName svc (drug_name c)) > 0.85")
  case True
  from validate_corrected_source [of svc "drug_name c"] True obtain dn cs b where
    *: "acceptable dn b"
    "correctedName (validateAndNormalizeDrugName svc (drug_name c)) = candidateName b"
    by auto
  from *(1) obtain m where m: "candidateName b = Some m"
    by (auto simp: acceptable_def split: option.splits)
  then have "m \<noteq> []" by (rule candidateName_nonempty)
  then show ?thesis
    using True * m by (simp add: apply_validation_def truthy_def)
next
  case False
  then have "drug_name (apply_validation (validateAndNormalizeDrugName svc (drug_name c)) c)
             = drug_name c"
    by (auto simp: apply_validation_def originalName_validate)
  with assms show ?thesis by (simp add: passes_def name_usable_def)
qed

text \<open>
  Claim C2. In the loop of the extraction pipeline, for every candidate whose name
  validation returns a correction: the candidate is processed (its confidence is above
  0.6); if the confidence is strictly greater than 0.85 the \<open>drug_name\<close> of the
  processed medication is the extracted name, and if it is in (0.6, 0.85] it is the
  corrected name.
\<close>

theorem correction_policy:
  assumes "process_medications svc meds pc cands = Inr outs"
    and "i < length cands"
    and "wasCorrected (validateAndNormalizeDrugName svc (drug_name (cands ! i)))"
  shows "\<exists>p. outs ! i = Processed p \<and> p \<in> set (processed_of outs)
           \<and> confidence (validateAndNormalizeDrugName svc (drug_name (cands ! i))) > 0.6
           \<and> (confidence (validateAndNormalizeDrugName svc (drug_name (cands ! i))) > 0.85
                \<longrightarrow> drug_name (extracted p) = drug_name (cands ! i))
           \<and> (0.6 < confidence (validateAndNormalizeDrugName svc (drug_name (cands ! i)))
                \<and> confidence (validateAndNormalizeDrugName svc (drug_name (cands ! i))) \<le> 0.85
                \<longrightarrow> drug_name (extracted p)
                      = correctedName (validateAndNormalizeDrugName svc (drug_name (cands ! i))))"
proof -
  let ?c = "cands ! i"
  let ?v = "validateAndNormalizeDrugName svc (drug_name ?c)"
  from assms(1) have all2: "list_all2 (\<lambda>c out. process_candidate svc meds pc c = Inr out) cands outs"
    by (rule process_medications_all2)
  with assms(2) have step: "process_candidate svc meds pc ?c = Inr (outs ! i)"
    and len: "i < length outs"
    by (auto simp: list_all2_conv_all_nth)
  from assms(3) have pass: "passes svc ?c" and conf: "confidence ?v > 0.6"
    using wasCorrected_passes by blast+
  obtain p where p: "outs ! i = Processed p"
  proof (cases "outs ! i")
    case (Failed f)
    with step process_candidate_Failed [of svc meds pc ?c f] pass show ?thesis by simp
  next
    case (Processed p)
    then show ?thesis by (rule that)
  qed
  with step have ex: "extracted p = apply_validation ?v ?c"
    using process_candidate_Processed [of svc meds pc ?c p] by simp
  from len have "outs ! i \<in> set outs" by (rule nth_mem)
  with p have mem: "p \<in> set (processed_of outs)"
    by (simp add: processed_of_set)
  from assms(3) ex have "confidence ?v > 0.85 \<longrightarrow> drug_name (extracted p) = drug_name ?c"
    and "confidence ?v \<le> 0.85 \<longrightarrow> drug_name (extracted p) = correctedName ?v"
    by (auto simp: apply_validation_def originalName_validate)
  with p mem conf show ?thesis by simp
qed


theorem correction_policy_witness:
  "\<exists>p. process_medications
         (example_services [CandidateObject (Some ''Lisinopril'') (Some ''29046'')])
         [] no_context [example_extracted ''Listnopril''] = Inr [Processed p]
       \<and> drug_name (extracted p) = Some ''Listnopril''"
proof -
  let ?svc = "example_services [CandidateObject (Some ''Lisinopril'') (Some ''29046'')]"
  let ?cands = "[example_extracted ''Listnopril'']"
  have "case process_medications ?svc [] no_context ?cands of
          Inr [Processed p] \<Rightarrow> True | _ \<Rightarrow> False"
    by code_simp
  then obtain p where run: "process_medications ?svc [] no_context ?cands = Inr [Processed p]"
    by (auto split: sum.splits list.splits outcome.splits)
  have i: "0 < length ?cands" by simp
  have n: "drug_name (?cands ! 0) = Some ''Listnopril''"
    by (simp add: example_extracted_def)
  have wc: "wasCorrected (validateAndNormalizeDrugName ?svc (drug_name (?cands ! 0)))"
    unfolding n by code_simp
  have conf: "confidence (validateAndNormalizeDrugName ?svc (drug_name (?cands ! 0))) = 9 / 10"
    unfolding n by code_simp
  from correction_policy [OF run i wc] conf n
  have "drug_name (extracted p) = Some ''Listnopril''"
    by simp
  with run show ?thesis by blast
qed

lemma extract_and_process_Json200:
  assumes "extract_and_process env req clk img h s = (Json200 r, s')"
  shows "\<exists>vr evs cands outs.
           run_extraction (backends env) img = (Inr vr, evs)
           \<and> vision_medications vr = Some cands \<and> cands \<noteq> []
           \<and> process_medications (terminology env) (currentMeds req) (patientContext req) cands
               = Inr outs
           \<and> processed_of outs \<noteq> []
           \<and> medications r = processed_of outs
           \<and> failedExtractions r = (if failed_of outs = [] then None else Some (failed_of outs))
           \<and> s' = s\<lparr>visionCache :=
                      AList.update h \<lparr>cached_data = r, expiresAt = t_store clk + CACHE_TTL\<rparr>
                        (visionCache s),
                    scan_sessions :=
                      scan_sessions s
                      @ [\<lparr>image_hash = h,
                          raw_vision_json =
                            vr\<lparr>vision_medications := Some (map candidate_after outs)\<rparr>,
                          normalized_result = r,
                          expires_at = t_insert clk + CACHE_TTL\<rparr>],
                    trace := trace s @ evs @ [Cache_set h, Db_insert h]\<rparr>"
proof (cases "run_extraction (backends env) img")
  case (Pair res evs)
  show ?thesis
  proof (cases res)
    case (Inl err)
    with Pair assms show ?thesis
      by (simp add: extract_and_process_def server_error_def)
  next
    case (Inr vr)
    note vr = this
    show ?thesis
    proof (cases "truthy (vision_error vr) \<or> vision_medications vr = None
                  \<or> vision_medications vr = Some []")
      case True
      with Pair vr assms show ?thesis
        by (simp add: extract_and_process_def Let_def)
    next
      case False
      then obtain cands where cands: "vision_medications vr = Some cands" "cands \<noteq> []"
        by auto
      show ?thesis
      proof (cases "process_medications (terminology env) (currentMeds req)
                      (patientContext req) cands")
        case (Inl err)
        with Pair vr False cands assms show ?thesis
          by (simp add: extract_and_process_def Let_def server_error_def)
      next
        case (Inr outs)
        with Pair vr False cands assms show ?thesis
          by (auto simp: extract_and_process_def Let_def split: if_splits)
      qed
    qed
  qed
qed

subsection \<open>Events of a run and reads of the in-memory tier\<close>

lemma run_extraction_events:
  "run_extraction b img = (res, evs) \<Longrightarrow>
     evs \<in> {[Vision_call], [Vision_call, Ocr_call], [Vision_call, Ocr_call, Text_model_call]}"
  by (auto simp: run_extraction_def split: sum.splits)

lemma extract_and_process_trace:
  assumes "extract_and_process env req clk img h s = (resp, s')"
  shows "\<exists>evs ws. trace s' = trace s @ evs @ ws
           \<and> evs \<in> {[Vision_call], [Vision_call, Ocr_call],
                     [Vision_call, Ocr_call, Text_model_call]}
           \<and> ws \<in> {[], [Cache_set h, Db_insert h]}
           \<and> ((\<exists>r. resp = Json200 r) \<longleftrightarrow> ws \<noteq> [])"
proof (cases "run_extraction (backends env) img")
  case (Pair res evs)
  from run_extraction_events [OF Pair] have evs:
    "evs \<in> {[Vision_call], [Vision_call, Ocr_call], [Vision_call, Ocr_call, Text_model_call]}" .
  from assms Pair have
    "(trace s' = trace s @ evs @ [] \<and> \<not> (\<exists>r. resp = Json200 r))
     \<or> (trace s' = trace s @ evs @ [Cache_set h, Db_insert h] \<and> (\<exists>r. resp = Json200 r))"
    by (auto simp: extract_and_process_def Let_def server_error_def
        split: sum.splits if_splits)
  with evs show ?thesis by blast
qed

lemma local_hit:
  assumes "image_file req = Some img" and "\<not> forceRefresh req"
    and "map_of (visionCache s) (hashFile env img) = Some e"
    and "t_lookup clk < expiresAt e"
  shows "process_prescription env req clk s =
           (Json200 (cached_data e), s\<lparr>trace := trace s @ [Cache_get (hashFile env img)]\<rparr>)"
  using assms by (simp add: process_prescription_def Let_def)


subsection \<open>The vision service's filter\<close>

lemma name_usable_fill_defaults: "name_usable (fill_defaults med) = name_usable med"
  by (simp add: name_usable_def fill_defaults_def)

lemma filter_medications_objects:
  "None \<notin> set json_medications \<Longrightarrow>
     filter_medications json_medications =
       Inr (map fill_defaults (filter name_usable (map the json_medications)))"
proof (induction json_medications)
  case Nil
  then show ?case by simp
next
  case (Cons m ms)
  then obtain med where "m = Some med" by (cases m) auto
  with Cons show ?case by (simp add: name_usable_def)
qed

lemma filter_medications_usable:
  "filter_medications json_medications = Inr cands \<Longrightarrow> \<forall>c \<in> set cands. name_usable c"
proof (induction json_medications arbitrary: cands)
  case Nil
  then show ?case by simp
next
  case (Cons m ms)
  show ?case
  proof (cases m)
    case None
    with Cons.prems show ?thesis by simp
  next
    case (Some med)
    with Cons.prems obtain rest where rest: "filter_medications ms = Inr rest"
      by (cases "filter_medications ms") auto
    from Cons.IH [OF rest] have "\<forall>c \<in> set rest. name_usable c" .
    with Cons.prems Some rest show ?thesis
      by (auto simp: name_usable_fill_defaults split: if_splits)
        (auto simp: name_usable_def)
  qed
qed

text \<open>
  A result of the extraction step that holds candidates carries no error, so the
  handler goes on to the loop with them.
\<close>

lemma run_extraction_candidates:
  assumes "run_extraction b img = (Inr vr, evs)"
    and "vision_medications vr = Some cands" and "cands \<noteq> []"
  shows "\<not> truthy (vision_error vr)"
  using assms
  by (auto simp: run_extraction_def extractFromImage_def truthy_def
      split: sum.splits option.splits if_splits)

text \<open>
  When the vision model answers with medication objects, the extraction step is the
  filter: the candidates are the lines with a usable name, in order, with the defaults
  filled in; with no such line the result is the error \<open>NO_MEDICATIONS_FOUND\<close>.
\<close>

lemma run_extraction_vision:
  assumes "vision_key_configured b" and "vision_completion b img = Inr (Some json_medications)"
    and "None \<notin> set json_medications"
  shows "run_extraction b img =
     (Inr (if filter name_usable (map the json_medications) = []
           then \<lparr>vision_error = Some ''NO_MEDICATIONS_FOUND'',
                 vision_note =
                   Some ''Could not extract any clear medication names from prescription'',
                 vision_medications = Some []\<rparr>
           else \<lparr>vision_error = None, vision_note = None,
                 vision_medications =
                   Some (map fill_defaults (filter name_usable (map the json_medications)))\<rparr>),
      [Vision_call])"
  using assms
  by (auto simp: run_extraction_def extractFromImage_def filter_medications_objects
      filter_empty_conv)

subsection \<open>Responses of a run that extracts\<close>

lemma extract_and_process_none_pass:
  assumes "run_extraction (backends env) img = (Inr vr, evs)"
    and "vision_medications vr = Some cands" and "cands \<noteq> []"
    and "\<forall>c \<in> set cands. \<not> passes (terminology env) c"
  shows "\<exists>b fs. fst (extract_and_process env req clk img h s) = Json400 b
           \<and> error_failedExtractions b = Some fs \<and> map fx_extractedData fs = cands"
proof -
  from no_pass_no_throw [OF assms(4)] obtain outs where
    outs: "process_medications (terminology env) (currentMeds req) (patientContext req) cands
             = Inr outs"
    "processed_of outs = []" "map fx_extractedData (failed_of outs) = cands"
    by blast
  from outs(3) assms(3) have "failed_of outs \<noteq> []" by auto
  moreover from run_extraction_candidates [OF assms(1-3)] have "\<not> truthy (vision_error vr)" .
  ultimately show ?thesis
    using assms(1-3) outs by (auto simp: extract_and_process_def Let_def)
qed

lemma extract_and_process_unreadable:
  assumes "vision_key_configured (backends env)"
    and "vision_completion (backends env) img = Inr (Some json_medications)"
    and "None \<notin> set json_medications"
    and "\<not> (\<exists>m \<in> set json_medications. name_usable (the m))"
  shows "\<exists>b. fst (extract_and_process env req clk img h s) = Json400 b
           \<and> error_text b = ''Unable to read prescription''
           \<and> error_failedExtractions b = None"
proof -
  from assms(4) have "filter name_usable (map the json_medications) = []"
    by (auto simp: filter_empty_conv)
  with run_extraction_vision [OF assms(1-3)] show ?thesis
    by (simp add: extract_and_process_def Let_def truthy_def)
qed

lemma extract_and_process_no_array:
  assumes "vision_key_configured (backends env)"
    and "vision_completion (backends env) img = Inr None"
  shows "\<exists>b. fst (extract_and_process env req clk img h s) = Json400 b
           \<and> error_text b = ''Unable to read prescription''
           \<and> error_failedExtractions b = None"
  using assms
  by (simp add: extract_and_process_def run_extraction_def extractFromImage_def Let_def
      truthy_def)

lemma list_all2_set2: "list_all2 P xs ys \<Longrightarrow> y \<in> set ys \<Longrightarrow> \<exists>x \<in> set xs. P x y"
  by (induction xs ys rule: list_all2_induct) auto

lemma list_all2_set1: "list_all2 P xs ys \<Longrightarrow> x \<in> set xs \<Longrightarrow> \<exists>y \<in> set ys. P x y"
  by (induction xs ys rule: list_all2_induct) auto

lemma processed_medication_source:
  assumes "process_medications svc meds pc cands = Inr outs"
    and "p \<in> set (processed_of outs)"
  shows "truthy (drug_name (extracted p))
         \<and> (\<exists>c \<in> set cands. passes svc c
               \<and> extracted p
                   = apply_validation (validateAndNormalizeDrugName svc (drug_name c)) c)"
proof -
  from assms(2) have "Processed p \<in> set outs" by (simp add: processed_of_set)
  with process_medications_all2 [OF assms(1)]
  obtain c where c: "c \<in> set cands" "process_candidate svc meds pc c = Inr (Processed p)"
    by (blast dest: list_all2_set2)
  from process_candidate_Processed [OF c(2)] have pass: "passes svc c"
    and ex: "extracted p = apply_validation (validateAndNormalizeDrugName svc (drug_name c)) c"
    by simp_all
  from apply_validation_name [OF pass] ex c(1) pass show ?thesis by auto
qed

lemma failed_entry_source:
  assumes "process_medications svc meds pc cands = Inr outs"
    and "f \<in> set (failed_of outs)"
  shows "fx_extractedData f \<in> set cands \<and> \<not> passes svc (fx_extractedData f)"
proof -
  from assms(2) have "Failed f \<in> set outs" by (simp add: failed_of_set)
  with process_medications_all2 [OF assms(1)]
  obtain c where c: "c \<in> set cands" "process_candidate svc meds pc c = Inr (Failed f)"
    by (blast dest: list_all2_set2)
  from process_candidate_Failed [OF c(2)] c(1) show ?thesis by simp
qed

lemma failed_candidate_routed:
  assumes "process_medications svc meds pc cands = Inr outs"
    and "c \<in> set cands" and "\<not> passes svc c"
  shows "\<exists>f \<in> set (failed_of outs). fx_extractedData f = c
           \<and> (if name_usable c
                then fx_reason f = ''invalid_drug'' \<and> fx_originalName f = drug_name c
                     \<and> fx_suggestions f =
                         Some (case suggestions (validateAndNormalizeDrugName svc (drug_name c)) of
                                 None \<Rightarrow> [] | Some sugg \<Rightarrow> sugg)
                else fx_reason f = ''unclear_name'' \<and> fx_suggestions f = None)"
proof -
  from process_medications_all2 [OF assms(1)] assms(2)
  obtain out where out: "out \<in> set outs" "process_candidate svc meds pc c = Inr out"
    by (blast dest: list_all2_set1)
  from process_candidate_not_passes [OF assms(3), of meds pc] obtain f where
    f: "process_candidate svc meds pc c = Inr (Failed f)" "fx_extractedData f = c"
    "if name_usable c
                then fx_reason f = ''invalid_drug'' \<and> fx_originalName f = drug_name c
                     \<and> fx_suggestions f =
                         Some (case suggestions (validateAndNormalizeDrugName svc (drug_name c)) of
                                 None \<Rightarrow> [] | Some sugg \<Rightarrow> sugg)
                else fx_reason f = ''unclear_name'' \<and> fx_suggestions f = None"
    by blast
  from out f(1) have "f \<in> set (failed_of outs)" by (simp add: failed_of_set)
  with f(2,3) show ?thesis by blast
qed

text \<open>The routing of the candidates in a run that ends in a successful response.\<close>

lemma extract_and_process_routing:
  assumes "extract_and_process env req clk img h s = (Json200 r, s')"
  shows "\<exists>vr evs cands outs.
           run_extraction (backends env) img = (Inr vr, evs)
           \<and> vision_medications vr = Some cands
           \<and> process_medications (terminology env) (currentMeds req) (patientContext req) cands
               = Inr outs
           \<and> medications r = processed_of outs
           \<and> failedExtractions r = (if failed_of outs = [] then None else Some (failed_of outs))
           \<and> (\<forall>p \<in> set (medications r).
                 \<exists>c \<in> set cands. passes (terminology env) c
                       \<and> extracted p
                           = apply_validation
                               (validateAndNormalizeDrugName (terminology env) (drug_name c)) c)
           \<and> (\<forall>f \<in> set (failed_of outs).
                 fx_extractedData f \<in> set cands \<and> \<not> passes (terminology env) (fx_extractedData f))
           \<and> (\<forall>c \<in> set cands. \<not> passes (terminology env) c \<longrightarrow>
                 (\<exists>f \<in> set (failed_of outs). fx_extractedData f = c
                    \<and> (if name_usable c
                        then fx_reason f = ''invalid_drug'' \<and> fx_originalName f = drug_name c
                             \<and> fx_suggestions f =
                                 Some (case suggestions
                                         (validateAndNormalizeDrugName (terminology env)
                                            (drug_name c)) of
                                         None \<Rightarrow> [] | Some sugg \<Rightarrow> sugg)
                        else fx_reason f = ''unclear_name'' \<and> fx_suggestions f = None)))"
proof -
  from extract_and_process_Json200 [OF assms] obtain vr evs cands outs where
    *: "run_extraction (backends env) img = (Inr vr, evs)"
    "vision_medications vr = Some cands"
    "process_medications (terminology env) (currentMeds req) (patientContext req) cands
       = Inr outs"
    "medications r = processed_of outs"
    "failedExtractions r = (if failed_of outs = [] then None else Some (failed_of outs))"
    by blast
  have a: "\<forall>p \<in> set (medications r).
                 \<exists>c \<in> set cands. passes (terminology env) c
                       \<and> extracted p
                           = apply_validation
                               (validateAndNormalizeDrugName (terminology env) (drug_name c)) c"
    using processed_medication_source [OF *(3)] *(4) by simp
  have b: "\<forall>f \<in> set (failed_of outs).
                 fx_extractedData f \<in> set cands \<and> \<not> passes (terminology env) (fx_extractedData f)"
    using failed_entry_source [OF *(3)] by blast
  have c: "\<forall>c \<in> set cands. \<not> passes (terminology env) c \<longrightarrow>
                 (\<exists>f \<in> set (failed_of outs). fx_extractedData f = c
                    \<and> (if name_usable c
                        then fx_reason f = ''invalid_drug'' \<and> fx_originalName f = drug_name c
                             \<and> fx_suggestions f =
                                 Some (case suggestions
                                         (validateAndNormalizeDrugName (terminology env)
                                            (drug_name c)) of
                                         None \<Rightarrow> [] | Some sugg \<Rightarrow> sugg)
                        else fx_reason f = ''unclear_name'' \<and> fx_suggestions f = None))"
    using failed_candidate_routed [OF *(3)] by blast
  from * a b c show ?thesis
    by (intro exI [of _ vr] exI [of _ evs] exI [of _ cands] exI [of _ outs]) simp
qed

subsection \<open>What the two cache tiers hold\<close>

lemma extract_and_process_validated:
  assumes "extract_and_process env req clk img h s = (Json200 r, s')"
  shows "validated_result r"
proof -
  from extract_and_process_Json200 [OF assms] obtain cands outs where
    *: "process_medications (terminology env) (currentMeds req) (patientContext req) cands
       = Inr outs"
    "processed_of outs \<noteq> []" "medications r = processed_of outs"
    by blast
  from processed_medication_source [OF *(1)] *(2,3) show ?thesis
    unfolding validated_result_def by fastforce
qed

lemma set_update_subset: "set (AList.update k v al) \<subseteq> insert (k, v) (set al)"
  by (induction al) auto

lemma select_single_member: "select_single rows h now = Some row \<Longrightarrow> row \<in> set rows"
proof -
  assume a: "select_single rows h now = Some row"
  then have "filter (\<lambda>r. image_hash r = h \<and> expires_at r > now) rows = [row]"
    by (auto simp: select_single_def split: list.splits)
  then have "row \<in> set (filter (\<lambda>r. image_hash r = h \<and> expires_at r > now) rows)"
    by simp
  then show ?thesis by simp
qed

lemma stored_validated_trace:
  "stored_validated (s\<lparr>trace := t\<rparr>) = stored_validated s"
  by (simp add: stored_validated_def)

lemma stored_validated_update:
  assumes "stored_validated s" and "validated_result r"
  shows "stored_validated (s\<lparr>visionCache := AList.update h \<lparr>cached_data = r, expiresAt = t\<rparr>
                                (visionCache s)\<rparr>)"
  using assms set_update_subset [of h "\<lparr>cached_data = r, expiresAt = t\<rparr>" "visionCache s"]
  by (auto simp: stored_validated_def)

lemma extract_and_process_keeps:
  assumes "stored_validated s" and "extract_and_process env req clk img h s = (resp, s')"
  shows "stored_validated s' \<and> (\<forall>r. resp = Json200 r \<longrightarrow> validated_result r)"
proof (cases "\<exists>r. resp = Json200 r")
  case True
  then obtain r where r: "resp = Json200 r" by blast
  with assms(2) have run: "extract_and_process env req clk img h s = (Json200 r, s')" by simp
  from extract_and_process_validated [OF run] have v: "validated_result r" .
  from extract_and_process_Json200 [OF run] obtain raw evs where
    s': "s' = s\<lparr>visionCache :=
                      AList.update h \<lparr>cached_data = r, expiresAt = t_store clk + CACHE_TTL\<rparr>
                        (visionCache s),
                    scan_sessions :=
                      scan_sessions s
                      @ [\<lparr>image_hash = h, raw_vision_json = raw, normalized_result = r,
                          expires_at = t_insert clk + CACHE_TTL\<rparr>],
                    trace := trace s @ evs @ [Cache_set h, Db_insert h]\<rparr>"
    by blast
  from assms(1) v
    set_update_subset [of h "\<lparr>cached_data = r, expiresAt = t_store clk + CACHE_TTL\<rparr>"
      "visionCache s"]
  have "stored_validated s'"
    unfolding s' by (auto simp: stored_validated_def)
  with v r show ?thesis by simp
next
  case False
  with assms(2) have "visionCache s' = visionCache s \<and> scan_sessions s' = scan_sessions s"
    by (auto simp: extract_and_process_def Let_def server_error_def
        split: prod.splits sum.splits if_splits)
  with assms(1) have "stored_validated s'" by (simp add: stored_validated_def)
  with False show ?thesis by simp
qed

lemma process_prescription_keeps:
  assumes "stored_validated s" and "process_prescription env req clk s = (resp, s')"
  shows "stored_validated s' \<and> (\<forall>r. resp = Json200 r \<longrightarrow> validated_result r)"
proof (cases "image_file req")
  case None
  with assms show ?thesis by (auto simp: process_prescription_def)
next
  case (Some img)
  let ?h = "hashFile env img"
  show ?thesis
  proof (cases "forceRefresh req")
    case True
    with Some assms(2) have "extract_and_process env req clk img ?h s = (resp, s')"
      by (simp add: process_prescription_def Let_def)
    from extract_and_process_keeps [OF assms(1) this] show ?thesis .
  next
    case False
    note nf = this
    let ?hit = "case map_of (visionCache s) ?h of
                  None \<Rightarrow> None
                | Some cachedResult \<Rightarrow>
                    if expiresAt cachedResult > t_lookup clk then Some cachedResult else None"
    show ?thesis
    proof (cases ?hit)
      case (Some e)
      then have e: "map_of (visionCache s) ?h = Some e" "t_lookup clk < expiresAt e"
        by (auto split: option.splits if_splits)
      from local_hit [OF \<open>image_file req = Some img\<close> nf e] assms(2)
      have resp: "resp = Json200 (cached_data e)"
        and s': "s' = s\<lparr>trace := trace s @ [Cache_get ?h]\<rparr>"
        by simp_all
      from e(1) have "(?h, e) \<in> set (visionCache s)" by (rule map_of_SomeD)
      with assms(1) have "validated_result (cached_data e)"
        by (auto simp: stored_validated_def)
      with resp s' assms(1) show ?thesis by (simp add: stored_validated_trace)
    next
      case None
      note miss = this
      let ?s2 = "s\<lparr>trace := trace s @ [Cache_get ?h, Db_select ?h]\<rparr>"
      have s2: "stored_validated ?s2" using assms(1) by (simp add: stored_validated_trace)
      show ?thesis
      proof (cases "select_single (scan_sessions s) ?h (t_select clk)")
        case (Some row)
        from select_single_member [OF Some] assms(1)
        have v: "validated_result (normalized_result row)"
          by (auto simp: stored_validated_def)
        from Some miss nf \<open>image_file req = Some img\<close> assms(2)
        have resp: "resp = Json200 (normalized_result row)"
          and s': "s' = ?s2\<lparr>visionCache :=
                                AList.update ?h
                                  \<lparr>cached_data = normalized_result row,
                                   expiresAt = t_fill clk + CACHE_TTL\<rparr> (visionCache ?s2),
                              trace := trace ?s2 @ [Cache_set ?h]\<rparr>"
          by (simp_all add: process_prescription_def Let_def)
        from stored_validated_update [OF s2 v, of ?h "t_fill clk + CACHE_TTL"]
        have "stored_validated s'"
          unfolding s' by (simp add: stored_validated_def)
        with resp v show ?thesis by simp
      next
        case None
        with miss nf \<open>image_file req = Some img\<close> assms(2)
        have "extract_and_process env req clk img ?h ?s2 = (resp, s')"
          by (simp add: process_prescription_def Let_def)
        from extract_and_process_keeps [OF s2 this] show ?thesis .
      qed
    qed
  qed
qed

lemma reachable_stored_validated: "reachable s \<Longrightarrow> stored_validated s"
proof (induction rule: reachable.induct)
  case start
  show ?case by (simp add: stored_validated_def empty_state_def)
next
  case (request s env req clk resp s')
  from process_prescription_keeps [OF request.IH request.hyps(2)] show ?case by simp
next
  case (sweep s now)
  then show ?case by (auto simp: stored_validated_def cleanExpiredCache_def)
next
  case (restart s)
  then show ?case by (simp add: stored_validated_def)
qed

text \<open>Without a hit in either tier the response is that of an extraction.\<close>

lemma fresh_run:
  assumes "image_file req = Some img" and "\<not> cache_hit env req clk s img"
  shows "\<exists>t. process_prescription env req clk s
               = extract_and_process env req clk img (hashFile env img) t"
proof (cases "forceRefresh req")
  case True
  with assms(1) show ?thesis by (auto simp: process_prescription_def Let_def)
next
  case False
  with assms(2) have
    "(case map_of (visionCache s) (hashFile env img) of
        None \<Rightarrow> None
      | Some cachedResult \<Rightarrow>
          if expiresAt cachedResult > t_lookup clk then Some cachedResult else None) = None"
    and "select_single (scan_sessions s) (hashFile env img) (t_select clk) = None"
    by (auto simp: cache_hit_def split: option.splits)
  with False assms(1) show ?thesis by (auto simp: process_prescription_def Let_def)
qed

text \<open>
  Claim C5, as amended. Every successful response, computed or served from either
  cache tier of a running server, has a list of medications that is not empty, and each
  medication in it has a \<open>drug_name\<close> that is set and is a candidate whose extracted
  name was set, was not the sentinel and passed name validation, with the name the
  handler gave it (the extracted name, or the corrected name of the terminology
  service).

  When the handler extracts: a successful response holds the processed candidates and
  carries the failed list; each of its entries belongs to a candidate of the loop that
  did not pass, and every such candidate has an entry, with reason \<open>unclear_name\<close>
  and no suggestions for a missing or sentinel name, with reason \<open>invalid_drug\<close> and
  the validator's suggestions otherwise. When candidates reach the loop and none passes,
  the response is an error that carries one failure entry per candidate. When the vision
  model answers with medication objects, the candidates of the loop are only the lines
  with a usable name: the other lines are left out before the loop and get no entry, and
  when no line has a usable name, or the answer has no array of medications, the
  response is the error \<open>Unable to read prescription\<close> without a failed list.
\<close>

theorem validated_medications_only:
  assumes "reachable s" and "process_prescription env req clk s = (resp, s')"
  shows
    "(\<forall>r. resp = Json200 r \<longrightarrow>
        medications r \<noteq> []
        \<and> (\<forall>p \<in> set (medications r).
              truthy (drug_name (extracted p))
              \<and> (\<exists>svc c. passes svc c
                    \<and> extracted p
                        = apply_validation (validateAndNormalizeDrugName svc (drug_name c)) c)))
     \<and> (\<forall>img. image_file req = Some img \<and> \<not> cache_hit env req clk s img \<longrightarrow>
          (\<forall>r. resp = Json200 r \<longrightarrow>
             (\<exists>vr evs cands outs.
                run_extraction (backends env) img = (Inr vr, evs)
                \<and> vision_medications vr = Some cands
                \<and> process_medications (terminology env) (currentMeds req) (patientContext req)
                     cands = Inr outs
                \<and> medications r = processed_of outs
                \<and> failedExtractions r
                    = (if failed_of outs = [] then None else Some (failed_of outs))
                \<and> (\<forall>p \<in> set (medications r).
                      \<exists>c \<in> set cands. passes (terminology env) c
                         \<and> extracted p
                             = apply_validation
                                 (validateAndNormalizeDrugName (terminology env) (drug_name c)) c)
                \<and> (\<forall>f \<in> set (failed_of outs).
                      fx_extractedData f \<in> set cands
                      \<and> \<not> passes (terminology env) (fx_extractedData f))
                \<and> (\<forall>c \<in> set cands. \<not> passes (terminology env) c \<longrightarrow>
                      (\<exists>f \<in> set (failed_of outs). fx_extractedData f = c
                         \<and> (if name_usable c
                             then fx_reason f = ''invalid_drug''
                                  \<and> fx_originalName f = drug_name c
                                  \<and> fx_suggestions f =
                                      Some (case suggestions
                                              (validateAndNormalizeDrugName (terminology env)
                                                 (drug_name c)) of
                                              None \<Rightarrow> [] | Some sugg \<Rightarrow> sugg)
                             else fx_reason f = ''unclear_name''
                                  \<and> fx_suggestions f = None)))))
          \<and> (\<forall>vr evs cands.
                run_extraction (backends env) img = (Inr vr, evs)
                \<and> vision_medications vr = Some cands \<and> cands \<noteq> []
                \<and> (\<forall>c \<in> set cands. \<not> passes (terminology env) c)
                \<longrightarrow> (\<exists>b fs. resp = Json400 b \<and> error_failedExtractions b = Some fs
                        \<and> map fx_extractedData fs = cands))
          \<and> (\<forall>json_medications.
                vision_key_configured (backends env)
                \<and> vision_completion (backends env) img = Inr (Some json_medications)
                \<and> None \<notin> set json_medications
                \<longrightarrow> (if \<exists>m \<in> set json_medications. name_usable (the m)
                     then run_extraction (backends env) img =
                            (Inr \<lparr>vision_error = None, vision_note = None,
                                  vision_medications =
                                    Some (map fill_defaults
                                           (filter name_usable (map the json_medications)))\<rparr>,
                             [Vision_call])
                     else \<exists>b. resp = Json400 b
                            \<and> error_text b = ''Unable to read prescription''
                            \<and> error_failedExtractions b = None))
          \<and> (vision_key_configured (backends env)
              \<and> vision_completion (backends env) img = Inr None
              \<longrightarrow> (\<exists>b. resp = Json400 b
                      \<and> error_text b = ''Unable to read prescription''
                      \<and> error_failedExtractions b = None)))"
proof -
  from reachable_stored_validated [OF assms(1)] have inv: "stored_validated s" .
  from process_prescription_keeps [OF inv assms(2)]
  have "\<forall>r. resp = Json200 r \<longrightarrow> validated_result r" by simp
  then have cached: "\<forall>r. resp = Json200 r \<longrightarrow>
        medications r \<noteq> []
        \<and> (\<forall>p \<in> set (medications r).
              truthy (drug_name (extracted p))
              \<and> (\<exists>svc c. passes svc c
                    \<and> extracted p
                        = apply_validation (validateAndNormalizeDrugName svc (drug_name c)) c))"
    by (simp add: validated_result_def)
  have fresh:
    "(\<forall>r. resp = Json200 r \<longrightarrow>
             (\<exists>vr evs cands outs.
                run_extraction (backends env) img = (Inr vr, evs)
                \<and> vision_medications vr = Some cands
                \<and> process_medications (terminology env) (currentMeds req) (patientContext req)
                     cands = Inr outs
                \<and> medications r = processed_of outs
                \<and> failedExtractions r
                    = (if failed_of outs = [] then None else Some (failed_of outs))
                \<and> (\<forall>p \<in> set (medications r).
                      \<exists>c \<in> set cands. passes (terminology env) c
                         \<and> extracted p
                             = apply_validation
                                 (validateAndNormalizeDrugName (terminology env) (drug_name c)) c)
                \<and> (\<forall>f \<in> set (failed_of outs).
                      fx_extractedData f \<in> set cands
                      \<and> \<not> passes (terminology env) (fx_extractedData f))
                \<and> (\<forall>c \<in> set cands. \<not> passes (terminology env) c \<longrightarrow>
                      (\<exists>f \<in> set (failed_of outs). fx_extractedData f = c
                         \<and> (if name_usable c
                             then fx_reason f = ''invalid_drug''
                                  \<and> fx_originalName f = drug_name c
                                  \<and> fx_suggestions f =
                                      Some (case suggestions
                                              (validateAndNormalizeDrugName (terminology env)
                                                 (drug_name c)) of
                                              None \<Rightarrow> [] | Some sugg \<Rightarrow> sugg)
                             else fx_reason f = ''unclear_name''
                                  \<and> fx_suggestions f = None)))))
          \<and> (\<forall>vr evs cands.
                run_extraction (backends env) img = (Inr vr, evs)
                \<and> vision_medications vr = Some cands \<and> cands \<noteq> []
                \<and> (\<forall>c \<in> set cands. \<not> passes (terminology env) c)
                \<longrightarrow> (\<exists>b fs. resp = Json400 b \<and> error_failedExtractions b = Some fs
                        \<and> map fx_extractedData fs = cands))
          \<and> (\<forall>json_medications.
                vision_key_configured (backends env)
                \<and> vision_completion (backends env) img = Inr (Some json_medications)
                \<and> None \<notin> set json_medications
                \<longrightarrow> (if \<exists>m \<in> set json_medications. name_usable (the m)
                     then run_extraction (backends env) img =
                            (Inr \<lparr>vision_error = None, vision_note = None,
                                  vision_medications =
                                    Some (map fill_defaults
                                           (filter name_usable (map the json_medications)))\<rparr>,
                             [Vision_call])
                     else \<exists>b. resp = Json400 b
                            \<and> error_text b = ''Unable to read prescription''
                            \<and> error_failedExtractions b = None))
          \<and> (vision_key_configured (backends env)
              \<and> vision_completion (backends env) img = Inr None
              \<longrightarrow> (\<exists>b. resp = Json400 b
                      \<and> error_text b = ''Unable to read prescription''
                      \<and> error_failedExtractions b = None))"
    if miss: "image_file req = Some img \<and> \<not> cache_hit env req clk s img" for img
  proof -
    from miss fresh_run [of req img env clk s] assms(2) obtain t where
      run: "extract_and_process env req clk img (hashFile env img) t = (resp, s')"
      by auto
    then have resp: "fst (extract_and_process env req clk img (hashFile env img) t) = resp"
      by simp
    have b: "\<exists>vr evs cands outs.
                run_extraction (backends env) img = (Inr vr, evs)
                \<and> vision_medications vr = Some cands
                \<and> process_medications (terminology env) (currentMeds req) (patientContext req)
                     cands = Inr outs
                \<and> medications r = processed_of outs
                \<and> failedExtractions r
                    = (if failed_of outs = [] then None else Some (failed_of outs))
                \<and> (\<forall>p \<in> set (medications r).
                      \<exists>c \<in> set cands. passes (terminology env) c
                         \<and> extracted p
                             = apply_validation
                                 (validateAndNormalizeDrugName (terminology env) (drug_name c)) c)
                \<and> (\<forall>f \<in> set (failed_of outs).
                      fx_extractedData f \<in> set cands
                      \<and> \<not> passes (terminology env) (fx_extractedData f))
                \<and> (\<forall>c \<in> set cands. \<not> passes (terminology env) c \<longrightarrow>
                      (\<exists>f \<in> set (failed_of outs). fx_extractedData f = c
                         \<and> (if name_usable c
                             then fx_reason f = ''invalid_drug''
                                  \<and> fx_originalName f = drug_name c
                                  \<and> fx_suggestions f =
                                      Some (case suggestions
                                              (validateAndNormalizeDrugName (terminology env)
                                                 (drug_name c)) of
                                              None \<Rightarrow> [] | Some sugg \<Rightarrow> sugg)
                             else fx_reason f = ''unclear_name''
                                  \<and> fx_suggestions f = None)))"
      if "resp = Json200 r" for r
      using extract_and_process_routing [of env req clk img "hashFile env img" t r s'] run that
      by simp
    have c: "\<exists>b fs. resp = Json400 b \<and> error_failedExtractions b = Some fs
                        \<and> map fx_extractedData fs = cands"
      if "run_extraction (backends env) img = (Inr vr, evs)
                \<and> vision_medications vr = Some cands \<and> cands \<noteq> []
                \<and> (\<forall>c \<in> set cands. \<not> passes (terminology env) c)" for vr evs cands
      using extract_and_process_none_pass [of env img vr evs cands req clk "hashFile env img" t]
        that resp
      by simp
    have d: "if \<exists>m \<in> set json_medications. name_usable (the m)
                     then run_extraction (backends env) img =
                            (Inr \<lparr>vision_error = None, vision_note = None,
                                  vision_medications =
                                    Some (map fill_defaults
                                           (filter name_usable (map the json_medications)))\<rparr>,
                             [Vision_call])
                     else \<exists>b. resp = Json400 b
                            \<and> error_text b = ''Unable to read prescription''
                            \<and> error_failedExtractions b = None"
      if h: "vision_key_configured (backends env)
                \<and> vision_completion (backends env) img = Inr (Some json_medications)
                \<and> None \<notin> set json_medications" for json_medications
    proof (cases "\<exists>m \<in> set json_medications. name_usable (the m)")
      case True
      then have "filter name_usable (map the json_medications) \<noteq> []"
        by (auto simp: filter_empty_conv)
      with run_extraction_vision [of "backends env" img json_medications] h True
      show ?thesis by simp
    next
      case False
      with extract_and_process_unreadable [of env img json_medications req clk
          "hashFile env img" t] h resp
      show ?thesis by simp
    qed
    have e: "\<exists>b. resp = Json400 b
                      \<and> error_text b = ''Unable to read prescription''
                      \<and> error_failedExtractions b = None"
      if "vision_key_configured (backends env)
              \<and> vision_completion (backends env) img = Inr None"
      using extract_and_process_no_array [of env img req clk "hashFile env img" t] that resp
      by simp
    from b c d e show ?thesis by blast
  qed
  from cached fresh show ?thesis by blast
qed

subsection \<open>Example runs\<close>

lemma cold_request:
  "process_prescription env example_request clk empty_state =
     extract_and_process env example_request clk ''image-bytes'' (hashFile env ''image-bytes'')
       (empty_state\<lparr>trace := trace empty_state
          @ [Cache_get (hashFile env ''image-bytes''), Db_select (hashFile env ''image-bytes'')]\<rparr>)"
  by (simp add: process_prescription_def example_request_def empty_state_def
      select_single_def Let_def)

lemma example_cold: "\<not> cache_hit env example_request clk empty_state img"
  by (simp add: cache_hit_def empty_state_def select_single_def)

lemma example_filled:
  "fill_defaults (example_extracted n) = (example_extracted n)\<lparr>duration := Some ''Not specified''\<rparr>"
  by (simp add: fill_defaults_def example_extracted_def or_else_def)

lemma example_usable:
  "name_usable (example_extracted n) \<longleftrightarrow> n \<noteq> [] \<and> n \<noteq> CLARIFICATION_NEEDED"
  by (simp add: name_usable_def example_extracted_def truthy_def)

lemma example_run_extraction:
  "run_extraction (backends example_process_env) img =
     (Inr \<lparr>vision_error = None, vision_note = None,
           vision_medications =
             Some [fill_defaults (example_extracted ''Listnopril''),
                   fill_defaults (example_extracted ''Xyzbcdefg'')]\<rparr>, [Vision_call])"
proof -
  have "run_extraction (backends example_process_env) img =
     (Inr (if filter name_usable (map the
                [Some (example_extracted ''Listnopril''),
                 Some (example_extracted ''CLARIFICATION_NEEDED''),
                 Some (example_extracted ''Xyzbcdefg'')]) = []
           then \<lparr>vision_error = Some ''NO_MEDICATIONS_FOUND'',
                 vision_note =
                   Some ''Could not extract any clear medication names from prescription'',
                 vision_medications = Some []\<rparr>
           else \<lparr>vision_error = None, vision_note = None,
                 vision_medications =
                   Some (map fill_defaults (filter name_usable (map the
                     [Some (example_extracted ''Listnopril''),
                      Some (example_extracted ''CLARIFICATION_NEEDED''),
                      Some (example_extracted ''Xyzbcdefg'')])))\<rparr>),
      [Vision_call])"
    by (rule run_extraction_vision) (simp_all add: example_process_env_def)
  then show ?thesis
    by (simp add: example_usable CLARIFICATION_NEEDED_def)
qed

lemma example_candidate:
  "case process_candidate (terminology example_process_env) [] no_context
          (fill_defaults (example_extracted ''Listnopril'')) of
     Inr (Processed p) \<Rightarrow> drug_name (extracted p) = Some ''Listnopril''
   | _ \<Rightarrow> False"
  by code_simp

lemma example_candidate_invalid:
  "case process_candidate (terminology example_process_env) [] no_context
          (fill_defaults (example_extracted ''Xyzbcdefg'')) of
     Inr (Failed f) \<Rightarrow> fx_reason f = ''invalid_drug'' \<and> fx_originalName f = Some ''Xyzbcdefg''
       \<and> fx_suggestions f = Some [''Lisinopril'']
   | _ \<Rightarrow> False"
  by code_simp

lemma example_loop:
  "\<exists>p f. process_medications (terminology example_process_env) [] no_context
          [fill_defaults (example_extracted ''Listnopril''),
           fill_defaults (example_extracted ''Xyzbcdefg'')]
          = Inr [Processed p, Failed f]
     \<and> drug_name (extracted p) = Some ''Listnopril'' \<and> fx_reason f = ''invalid_drug''
     \<and> fx_originalName f = Some ''Xyzbcdefg''"
proof -
  from example_candidate obtain p where
    p: "process_candidate (terminology example_process_env) [] no_context
          (fill_defaults (example_extracted ''Listnopril'')) = Inr (Processed p)"
       "drug_name (extracted p) = Some ''Listnopril''"
    by (cases "process_candidate (terminology example_process_env) [] no_context
          (fill_defaults (example_extracted ''Listnopril''))") (auto split: outcome.splits)
  from example_candidate_invalid obtain f where
    f: "process_candidate (terminology example_process_env) [] no_context
          (fill_defaults (example_extracted ''Xyzbcdefg'')) = Inr (Failed f)"
       "fx_reason f = ''invalid_drug''" "fx_originalName f = Some ''Xyzbcdefg''"
    by (cases "process_candidate (terminology example_process_env) [] no_context
          (fill_defaults (example_extracted ''Xyzbcdefg''))") (auto split: outcome.splits)
  from p f show ?thesis by simp
qed

lemma example_extract_and_process:
  assumes "currentMeds rq = []" and "patientContext rq = no_context"
  shows "\<exists>p f r s'. extract_and_process example_process_env rq clk img h s = (Json200 r, s')
           \<and> medications r = [p] \<and> failedExtractions r = Some [f]
           \<and> drug_name (extracted p) = Some ''Listnopril'' \<and> fx_reason f = ''invalid_drug''
           \<and> fx_originalName f = Some ''Xyzbcdefg''
           \<and> trace s' = trace s @ [Vision_call, Cache_set h, Db_insert h]"
proof -
  from example_loop obtain p f where
    loop: "process_medications (terminology example_process_env) [] no_context
          [fill_defaults (example_extracted ''Listnopril''),
           fill_defaults (example_extracted ''Xyzbcdefg'')]
          = Inr [Processed p, Failed f]"
    and p: "drug_name (extracted p) = Some ''Listnopril''"
    and f: "fx_reason f = ''invalid_drug''" "fx_originalName f = Some ''Xyzbcdefg''"
    by blast
  have "\<exists>r s'. extract_and_process example_process_env rq clk img h s = (Json200 r, s')
           \<and> medications r = [p] \<and> failedExtractions r = Some [f]
           \<and> trace s' = trace s @ [Vision_call, Cache_set h, Db_insert h]"
    by (simp add: extract_and_process_def example_run_extraction assms loop
        truthy_def Let_def del: process_medications.simps)
  with p f show ?thesis by blast
qed

lemma example_response:
  "\<exists>p f r s'. process_prescription example_process_env example_request example_clock
                empty_state = (Json200 r, s')
     \<and> medications r = [p] \<and> failedExtractions r = Some [f]
     \<and> drug_name (extracted p) = Some ''Listnopril''
     \<and> fx_originalName f = Some ''Xyzbcdefg''"
proof -
  have "currentMeds example_request = []" and "patientContext example_request = no_context"
    by (simp_all add: example_request_def)
  from example_extract_and_process [OF this, of example_clock "''image-bytes''"
      "hashFile example_process_env ''image-bytes''"
      "empty_state\<lparr>trace := trace empty_state
          @ [Cache_get (hashFile example_process_env ''image-bytes''),
             Db_select (hashFile example_process_env ''image-bytes'')]\<rparr>"]
  show ?thesis unfolding cold_request by blast
qed

lemma example_not_passes:
  "\<not> passes (example_services [CandidateObject (Some ''Lisinopril'') (Some ''29046'')])
       (fill_defaults (example_extracted ''Xyzbcdefg''))"
  by code_simp

text \<open>
  The witness: three first requests of a server. In the example environment the vision
  model reads three lines: the first is processed, the illegible second is left out by
  the vision service, and the third is refused by the validator and reported. When the
  only line is illegible, the response is the error without a failed list. When the only
  line is refused by the validator, the response is the error with the failed list.
\<close>

theorem validated_medications_only_witness:
  "reachable empty_state
   \<and> \<not> cache_hit example_process_env example_request example_clock empty_state ''image-bytes''
   \<and> (\<exists>r. fst (process_prescription example_process_env example_request example_clock
                  empty_state) = Json200 r
          \<and> map (\<lambda>p. drug_name (extracted p)) (medications r) = [Some ''Listnopril'']
          \<and> list_all (\<lambda>p. truthy (drug_name (extracted p))) (medications r)
          \<and> map_option (map fx_originalName) (failedExtractions r)
              = Some [Some ''Xyzbcdefg''])
   \<and> run_extraction (backends example_process_env) ''image-bytes'' =
        (Inr \<lparr>vision_error = None, vision_note = None,
              vision_medications =
                Some [fill_defaults (example_extracted ''Listnopril''),
                      fill_defaults (example_extracted ''Xyzbcdefg'')]\<rparr>, [Vision_call])
   \<and> (\<exists>b. fst (process_prescription
                 (vision_env [Some (example_extracted ''CLARIFICATION_NEEDED'')]
                    [CandidateObject (Some ''Lisinopril'') (Some ''29046'')])
                 example_request example_clock empty_state) = Json400 b
          \<and> error_text b = ''Unable to read prescription''
          \<and> error_failedExtractions b = None)
   \<and> (\<exists>b fs. fst (process_prescription
                    (vision_env [Some (example_extracted ''Xyzbcdefg'')]
                       [CandidateObject (Some ''Lisinopril'') (Some ''29046'')])
                    example_request example_clock empty_state) = Json400 b
          \<and> error_failedExtractions b = Some fs
          \<and> map fx_extractedData fs = [fill_defaults (example_extracted ''Xyzbcdefg'')])"
proof -
  let ?img = "''image-bytes''"
  let ?hits = "[CandidateObject (Some ''Lisinopril'') (Some ''29046'')]"
  let ?run = "process_prescription example_process_env example_request example_clock empty_state"
  have img: "image_file example_request = Some ?img" by (simp add: example_request_def)
  have miss: "\<not> cache_hit env example_request example_clock empty_state ?img" for env
    by (rule example_cold)

  \<comment> \<open>the example environment\<close>
  let ?lines = "[Some (example_extracted ''Listnopril''),
                 Some (example_extracted ''CLARIFICATION_NEEDED''),
                 Some (example_extracted ''Xyzbcdefg'')]"
  from example_response obtain p f r s' where
    run: "?run = (Json200 r, s')" and r: "medications r = [p]" "failedExtractions r = Some [f]"
    and p: "drug_name (extracted p) = Some ''Listnopril''"
    and f: "fx_originalName f = Some ''Xyzbcdefg''"
    by blast
  note t1 = validated_medications_only [OF reachable.start run]
  from t1 [THEN conjunct1]
  have "\<forall>q \<in> set (medications r). truthy (drug_name (extracted q))"
    by simp
  then have "list_all (\<lambda>q. truthy (drug_name (extracted q))) (medications r)"
    by (simp add: list_all_iff)
  with run r p f have w2: "\<exists>r. fst ?run = Json200 r
          \<and> map (\<lambda>p. drug_name (extracted p)) (medications r) = [Some ''Listnopril'']
          \<and> list_all (\<lambda>p. truthy (drug_name (extracted p))) (medications r)
          \<and> map_option (map fx_originalName) (failedExtractions r)
              = Some [Some ''Xyzbcdefg'']"
    by simp
  note fresh1 = t1 [THEN conjunct2, rule_format, OF conjI [OF img miss]]
  note d1 = fresh1 [THEN conjunct2, THEN conjunct2, THEN conjunct1, rule_format]
  have hd1: "vision_key_configured (backends example_process_env)
             \<and> vision_completion (backends example_process_env) ?img = Inr (Some ?lines)
             \<and> None \<notin> set ?lines"
    by (simp add: example_process_env_def)
  have ex1: "\<exists>m \<in> set ?lines. name_usable (the m)"
    by (simp add: example_usable CLARIFICATION_NEEDED_def)
  from d1 [OF hd1] ex1
  have "run_extraction (backends example_process_env) ?img =
          (Inr \<lparr>vision_error = None, vision_note = None,
                vision_medications =
                  Some (map fill_defaults (filter name_usable (map the ?lines)))\<rparr>,
           [Vision_call])"
    by (simp only: if_True)
  then have w3: "run_extraction (backends example_process_env) ?img =
        (Inr \<lparr>vision_error = None, vision_note = None,
              vision_medications =
                Some [fill_defaults (example_extracted ''Listnopril''),
                      fill_defaults (example_extracted ''Xyzbcdefg'')]\<rparr>, [Vision_call])"
    by (simp add: example_usable CLARIFICATION_NEEDED_def)

  \<comment> \<open>the only line is illegible\<close>
  let ?env2 = "vision_env [Some (example_extracted ''CLARIFICATION_NEEDED'')] ?hits"
  let ?run2 = "process_prescription ?env2 example_request example_clock empty_state"
  have run2: "?run2 = (fst ?run2, snd ?run2)" by simp
  note t2 = validated_medications_only [OF reachable.start run2]
  note fresh2 = t2 [THEN conjunct2, rule_format, OF conjI [OF img miss]]
  note d2 = fresh2 [THEN conjunct2, THEN conjunct2, THEN conjunct1, rule_format]
  have hd2: "vision_key_configured (backends ?env2)
             \<and> vision_completion (backends ?env2) ?img
                 = Inr (Some [Some (example_extracted ''CLARIFICATION_NEEDED'')])
             \<and> None \<notin> set [Some (example_extracted ''CLARIFICATION_NEEDED'')]"
    by (simp add: vision_env_def)
  have nex2: "\<not> (\<exists>m \<in> set [Some (example_extracted ''CLARIFICATION_NEEDED'')].
                    name_usable (the m))"
    by (simp add: example_usable CLARIFICATION_NEEDED_def)
  from d2 [OF hd2] nex2
  have w4: "\<exists>b. fst ?run2 = Json400 b
          \<and> error_text b = ''Unable to read prescription''
          \<and> error_failedExtractions b = None"
    by (simp only: if_False)

  \<comment> \<open>the only line is refused by the validator\<close>
  let ?env3 = "vision_env [Some (example_extracted ''Xyzbcdefg'')] ?hits"
  let ?run3 = "process_prescription ?env3 example_request example_clock empty_state"
  let ?vr3 = "\<lparr>vision_error = None, vision_note = None,
               vision_medications = Some [fill_defaults (example_extracted ''Xyzbcdefg'')]\<rparr>"
  have run3: "?run3 = (fst ?run3, snd ?run3)" by simp
  note t3 = validated_medications_only [OF reachable.start run3]
  note fresh3 = t3 [THEN conjunct2, rule_format, OF conjI [OF img miss]]
  note c3 = fresh3 [THEN conjunct2, THEN conjunct1, rule_format]
  have "run_extraction (backends ?env3) ?img =
     (Inr (if filter name_usable (map the [Some (example_extracted ''Xyzbcdefg'')]) = []
           then \<lparr>vision_error = Some ''NO_MEDICATIONS_FOUND'',
                 vision_note =
                   Some ''Could not extract any clear medication names from prescription'',
                 vision_medications = Some []\<rparr>
           else \<lparr>vision_error = None, vision_note = None,
                 vision_medications =
                   Some (map fill_defaults (filter name_usable (map the
                     [Some (example_extracted ''Xyzbcdefg'')])))\<rparr>),
      [Vision_call])"
    by (rule run_extraction_vision) (simp_all add: vision_env_def)
  then have rx3: "run_extraction (backends ?env3) ?img = (Inr ?vr3, [Vision_call])"
    by (simp add: example_usable CLARIFICATION_NEEDED_def)
  have np3: "\<forall>c \<in> set [fill_defaults (example_extracted ''Xyzbcdefg'')].
               \<not> passes (terminology ?env3) c"
    using example_not_passes by (simp add: vision_env_def)
  have h3: "run_extraction (backends ?env3) ?img = (Inr ?vr3, [Vision_call])
            \<and> vision_medications ?vr3 = Some [fill_defaults (example_extracted ''Xyzbcdefg'')]
            \<and> [fill_defaults (example_extracted ''Xyzbcdefg'')] \<noteq> []
            \<and> (\<forall>c \<in> set [fill_defaults (example_extracted ''Xyzbcdefg'')].
                  \<not> passes (terminology ?env3) c)"
    using rx3 np3 by simp
  from c3 [OF h3]
  have w5: "\<exists>b fs. fst ?run3 = Json400 b \<and> error_failedExtractions b = Some fs
          \<and> map fx_extractedData fs = [fill_defaults (example_extracted ''Xyzbcdefg'')]" .

  from reachable.start miss [of example_process_env] w2 w3 w4 w5 show ?thesis
    by (intro conjI)
qed

text \<open>
  The claim as it is written fails in three ways. The name of a returned medication can
  be the sentinel: the extracted name \<open>CLARIFICATION\<close> passes validation with the hit
  \<open>CLARIFICATION_NEEDED\<close> at similarity 0.65, and the handler takes the name of the
  hit without a test. A line the vision model could not read is not routed to the
  failed list: the vision service leaves it out, and the response of the example run
  lists one failure for three lines of which one was processed. And when the vision
  model reads no line at all, no candidate validates and the error response carries no
  failed list.
\<close>

lemma sentinel_candidate:
  "case process_candidate (example_services [CandidateString ''CLARIFICATION_NEEDED'']) []
          no_context (fill_defaults (example_extracted ''CLARIFICATION'')) of
     Inr (Processed p) \<Rightarrow> drug_name (extracted p) = Some ''CLARIFICATION_NEEDED''
   | _ \<Rightarrow> False"
  by code_simp

lemma sentinel_run:
  "\<exists>r. fst (process_prescription
              (vision_env [Some (example_extracted ''CLARIFICATION'')]
                 [CandidateString ''CLARIFICATION_NEEDED''])
              example_request example_clock empty_state) = Json200 r
       \<and> map (\<lambda>p. drug_name (extracted p)) (medications r) = [Some ''CLARIFICATION_NEEDED'']"
proof -
  let ?env = "vision_env [Some (example_extracted ''CLARIFICATION'')]
                 [CandidateString ''CLARIFICATION_NEEDED'']"
  have "run_extraction (backends ?env) ''image-bytes'' =
     (Inr (if filter name_usable (map the [Some (example_extracted ''CLARIFICATION'')]) = []
           then \<lparr>vision_error = Some ''NO_MEDICATIONS_FOUND'',
                 vision_note =
                   Some ''Could not extract any clear medication names from prescription'',
                 vision_medications = Some []\<rparr>
           else \<lparr>vision_error = None, vision_note = None,
                 vision_medications =
                   Some (map fill_defaults (filter name_usable (map the
                     [Some (example_extracted ''CLARIFICATION'')])))\<rparr>),
      [Vision_call])"
    by (rule run_extraction_vision) (simp_all add: vision_env_def)
  then have ex: "run_extraction (backends ?env) ''image-bytes'' =
     (Inr \<lparr>vision_error = None, vision_note = None,
           vision_medications = Some [fill_defaults (example_extracted ''CLARIFICATION'')]\<rparr>,
      [Vision_call])"
    by (simp add: example_usable CLARIFICATION_NEEDED_def)
  from sentinel_candidate obtain p where
    p: "process_candidate (example_services [CandidateString ''CLARIFICATION_NEEDED'']) []
          no_context (fill_defaults (example_extracted ''CLARIFICATION'')) = Inr (Processed p)"
       "drug_name (extracted p) = Some ''CLARIFICATION_NEEDED''"
    by (cases "process_candidate (example_services [CandidateString ''CLARIFICATION_NEEDED'']) []
          no_context (fill_defaults (example_extracted ''CLARIFICATION''))")
      (auto split: outcome.splits)
  have t: "terminology ?env = example_services [CandidateString ''CLARIFICATION_NEEDED'']"
    by (simp add: vision_env_def)
  have "\<exists>r. fst (process_prescription ?env example_request example_clock empty_state)
               = Json200 r \<and> medications r = [p]"
    unfolding cold_request
    by (simp add: extract_and_process_def ex t p(1) example_request_def truthy_def Let_def)
  with p(2) show ?thesis by auto
qed

lemma unreadable_run:
  "\<exists>b. fst (process_prescription
              (vision_env [Some (example_extracted ''CLARIFICATION_NEEDED'')]
                 [CandidateObject (Some ''Lisinopril'') (Some ''29046'')])
              example_request example_clock empty_state) = Json400 b
       \<and> error_text b = ''Unable to read prescription''
       \<and> error_failedExtractions b = None"
proof -
  let ?env = "vision_env [Some (example_extracted ''CLARIFICATION_NEEDED'')]
                 [CandidateObject (Some ''Lisinopril'') (Some ''29046'')]"
  have "\<exists>b. fst (extract_and_process ?env example_request example_clock ''image-bytes''
                    (hashFile ?env ''image-bytes'')
                    (empty_state\<lparr>trace := trace empty_state
                       @ [Cache_get (hashFile ?env ''image-bytes''),
                          Db_select (hashFile ?env ''image-bytes'')]\<rparr>)) = Json400 b
           \<and> error_text b = ''Unable to read prescription''
           \<and> error_failedExtractions b = None"
    by (rule extract_and_process_unreadable
          [where json_medications = "[Some (example_extracted ''CLARIFICATION_NEEDED'')]"])
      (simp_all add: vision_env_def example_usable CLARIFICATION_NEEDED_def)
  then show ?thesis by (simp add: cold_request)
qed

theorem validated_medications_only_counterexample:
  "(\<exists>r. fst (process_prescription
               (vision_env [Some (example_extracted ''CLARIFICATION'')]
                  [CandidateString ''CLARIFICATION_NEEDED''])
               example_request example_clock empty_state) = Json200 r
        \<and> map (\<lambda>p. drug_name (extracted p)) (medications r) = [Some ''CLARIFICATION_NEEDED''])
   \<and> (\<exists>r. fst (process_prescription example_process_env example_request example_clock
                  empty_state) = Json200 r
          \<and> vision_completion (backends example_process_env) ''image-bytes''
              = Inr (Some [Some (example_extracted ''Listnopril''),
                           Some (example_extracted ''CLARIFICATION_NEEDED''),
                           Some (example_extracted ''Xyzbcdefg'')])
          \<and> map (\<lambda>p. drug_name (extracted p)) (medications r) = [Some ''Listnopril'']
          \<and> map_option (map fx_originalName) (failedExtractions r)
              = Some [Some ''Xyzbcdefg''])
   \<and> (\<exists>b. fst (process_prescription
                 (vision_env [Some (example_extracted ''CLARIFICATION_NEEDED'')]
                    [CandidateObject (Some ''Lisinopril'') (Some ''29046'')])
                 example_request example_clock empty_state) = Json400 b
          \<and> error_text b = ''Unable to read prescription''
          \<and> error_failedExtractions b = None)"
proof -
  from example_response obtain p f r s' where
    run: "process_prescription example_process_env example_request example_clock empty_state
            = (Json200 r, s')"
    and r: "medications r = [p]" "failedExtractions r = Some [f]"
    and p: "drug_name (extracted p) = Some ''Listnopril''"
    and f: "fx_originalName f = Some ''Xyzbcdefg''"
    by blast
  have v: "vision_completion (backends example_process_env) ''image-bytes''
              = Inr (Some [Some (example_extracted ''Listnopril''),
                           Some (example_extracted ''CLARIFICATION_NEEDED''),
                           Some (example_extracted ''Xyzbcdefg'')])"
    by (simp add: example_process_env_def)
  from run r p f v have second:
    "\<exists>r. fst (process_prescription example_process_env example_request example_clock
                  empty_state) = Json200 r
          \<and> vision_completion (backends example_process_env) ''image-bytes''
              = Inr (Some [Some (example_extracted ''Listnopril''),
                           Some (example_extracted ''CLARIFICATION_NEEDED''),
                           Some (example_extracted ''Xyzbcdefg'')])
          \<and> map (\<lambda>p. drug_name (extracted p)) (medications r) = [Some ''Listnopril'']
          \<and> map_option (map fx_originalName) (failedExtractions r)
              = Some [Some ''Xyzbcdefg'']"
    by simp
  from sentinel_run second unreadable_run show ?thesis by (intro conjI)
qed


section \<open>Properties of the result cache\<close>

lemma extract_and_process_state_independent:
  "fst (extract_and_process env req clk img h s) = fst (extract_and_process env req clk img h t)"
  by (auto simp: extract_and_process_def Let_def split: prod.splits sum.splits)


lemma map_of_update_same: "map_of (AList.update k v al) k = Some v"
  by (simp add: update_conv')

text \<open>
  Claim C7. With \<open>forceRefresh\<close> the handler reads neither cache tier: the events of
  the request begin with the call of the vision model and contain no cache read or
  database query, and the response is the same from every state of the two tiers. A
  successful run writes a fresh entry to the in-memory tier (expiring one TTL after the
  write) and appends a row to the durable tier.
\<close>

theorem force_refresh_bypass:
  assumes "forceRefresh req" and "image_file req = Some img"
    and "process_prescription env req clk s = (resp, s')"
  shows "(\<exists>evs ws. trace s' = trace s @ evs @ ws
            \<and> evs \<in> {[Vision_call], [Vision_call, Ocr_call],
                      [Vision_call, Ocr_call, Text_model_call]}
            \<and> ws \<in> {[], [Cache_set (hashFile env img), Db_insert (hashFile env img)]})
         \<and> fst (process_prescription env req clk t) = resp
         \<and> (\<forall>r. resp = Json200 r \<longrightarrow>
               map_of (visionCache s') (hashFile env img)
                 = Some \<lparr>cached_data = r, expiresAt = t_store clk + CACHE_TTL\<rparr>
               \<and> (\<exists>raw. scan_sessions s' =
                     scan_sessions s
                     @ [\<lparr>image_hash = hashFile env img, raw_vision_json = raw,
                         normalized_result = r, expires_at = t_insert clk + CACHE_TTL\<rparr>]))"
proof -
  let ?h = "hashFile env img"
  from assms have run: "extract_and_process env req clk img ?h s = (resp, s')"
    by (simp add: process_prescription_def Let_def)
  from extract_and_process_trace [OF run]
  have a: "\<exists>evs ws. trace s' = trace s @ evs @ ws
            \<and> evs \<in> {[Vision_call], [Vision_call, Ocr_call],
                      [Vision_call, Ocr_call, Text_model_call]}
            \<and> ws \<in> {[], [Cache_set ?h, Db_insert ?h]}"
    by blast
  from assms(1,2) have "fst (process_prescription env req clk t)
      = fst (extract_and_process env req clk img ?h t)"
    by (simp add: process_prescription_def Let_def)
  also have "\<dots> = fst (extract_and_process env req clk img ?h s)"
    by (rule extract_and_process_state_independent)
  finally have b: "fst (process_prescription env req clk t) = resp"
    using run by simp
  have c: "map_of (visionCache s') ?h
                 = Some \<lparr>cached_data = r, expiresAt = t_store clk + CACHE_TTL\<rparr>
               \<and> (\<exists>raw. scan_sessions s' =
                     scan_sessions s
                     @ [\<lparr>image_hash = ?h, raw_vision_json = raw,
                         normalized_result = r, expires_at = t_insert clk + CACHE_TTL\<rparr>])"
    if "resp = Json200 r" for r
  proof -
    from run that have "extract_and_process env req clk img ?h s = (Json200 r, s')" by simp
    from extract_and_process_Json200 [OF this] show ?thesis
      by (auto simp: map_of_update_same)
  qed
  from a b c show ?thesis by blast
qed






theorem force_refresh_bypass_witness:
  "map_of (visionCache stale_state) ''image-bytes'' = Some stale_entry
   \<and> t_lookup example_clock < expiresAt stale_entry
   \<and> (\<exists>r s'. process_prescription example_process_env
                 (example_request\<lparr>forceRefresh := True\<rparr>) example_clock stale_state
               = (Json200 r, s')
          \<and> r \<noteq> cached_data stale_entry
          \<and> trace s' = [Vision_call, Cache_set ''image-bytes'', Db_insert ''image-bytes'']
          \<and> map_of (visionCache s') ''image-bytes''
              = Some \<lparr>cached_data = r, expiresAt = t_store example_clock + CACHE_TTL\<rparr>)"
proof -
  let ?req = "example_request\<lparr>forceRefresh := True\<rparr>"
  have fr: "forceRefresh ?req" by simp
  have img: "image_file ?req = Some ''image-bytes''" by (simp add: example_request_def)
  have h: "hashFile example_process_env ''image-bytes'' = ''image-bytes''"
    by (simp add: example_process_env_def)
  have "currentMeds ?req = []" and "patientContext ?req = no_context"
    by (simp_all add: example_request_def)
  from example_extract_and_process [OF this, of example_clock "''image-bytes''"
      "''image-bytes''" stale_state]
  obtain p r s' where
    run: "extract_and_process example_process_env ?req example_clock ''image-bytes''
            ''image-bytes'' stale_state = (Json200 r, s')"
    and r: "medications r = [p]"
    and tr: "trace s' = trace stale_state @ [Vision_call, Cache_set ''image-bytes'',
               Db_insert ''image-bytes'']"
    by blast
  from run fr img h have pp: "process_prescription example_process_env ?req example_clock
      stale_state = (Json200 r, s')"
    by (simp add: process_prescription_def Let_def)
  from force_refresh_bypass [OF fr img pp, of stale_state] h
  have c: "map_of (visionCache s') ''image-bytes''
              = Some \<lparr>cached_data = r, expiresAt = t_store example_clock + CACHE_TTL\<rparr>"
    by simp
  have st: "map_of (visionCache stale_state) ''image-bytes'' = Some stale_entry"
    "t_lookup example_clock < expiresAt stale_entry" "medications (cached_data stale_entry) = []"
    "trace stale_state = []"
    by (simp_all add: stale_state_def stale_entry_def example_clock_def)
  from r st(3) have "r \<noteq> cached_data stale_entry" by auto
  with pp c tr st show ?thesis by simp
qed



section \<open>Properties of the confirmation stage\<close>

lemma batch_validate_corrected:
  "wasCorrected (validateAndNormalizeDrugName svc (drug_name ed)) \<Longrightarrow>
     batch_validate svc False ed
       = Some (ed\<lparr>drug_name := correctedName (validateAndNormalizeDrugName svc (drug_name ed))\<rparr>)"
  using wasCorrected_passes [of svc ed]
  by (simp add: batch_validate_def passes_def Let_def)

lemma batch_validate_invalid:
  "\<not> valid (validateAndNormalizeDrugName svc (drug_name ed)) \<Longrightarrow>
     batch_validate svc False ed = None"
  by (simp add: batch_validate_def Let_def)

lemma batch_step_result:
  assumes "batch_step env pc names m = Inr r"
  shows "\<exists>ed. extracted_data m = Some ed
           \<and> (case batch_validate (batch_terminology env) (skipValidation m) ed of
                 None \<Rightarrow> r = None
               | Some ed' \<Rightarrow> \<exists>x. r = Some x \<and> result_extracted_data x = ed')"
  using assms
  by (auto simp: batch_step_def Let_def split: option.splits sum.splits)

lemma batch_loop_extracted:
  "batch_loop env pc names meds = Inr outs \<Longrightarrow>
     map result_extracted_data outs =
       concat (map (\<lambda>m. case batch_validate (batch_terminology env) (skipValidation m)
                               (the (extracted_data m)) of
                          None \<Rightarrow> [] | Some ed' \<Rightarrow> [ed']) meds)"
proof (induction meds arbitrary: outs)
  case Nil
  then show ?case by simp
next
  case (Cons m meds)
  from Cons.prems obtain r rs where
    r: "batch_step env pc names m = Inr r" and rs: "batch_loop env pc names meds = Inr rs"
    and outs: "outs = (case r of None \<Rightarrow> [] | Some x \<Rightarrow> [x]) @ rs"
    by (auto split: sum.splits)
  from batch_step_result [OF r] obtain ed where ed: "extracted_data m = Some ed"
    "case batch_validate (batch_terminology env) (skipValidation m) ed of
                 None \<Rightarrow> r = None
               | Some ed' \<Rightarrow> \<exists>x. r = Some x \<and> result_extracted_data x = ed'"
    by blast
  from Cons.IH [OF rs] ed outs show ?case
    by (auto split: option.splits)
qed


lemma concat_map_filter:
  "concat (map (\<lambda>m. if P m then [f m] else []) ms) = map f (filter P ms)"
  by (induction ms) simp_all

lemma batch_validate_name:
  "map drug_name
     (case batch_validate svc skip ed of None \<Rightarrow> [] | Some ed' \<Rightarrow> [ed'])
   = (if skip \<or> valid (validateAndNormalizeDrugName svc (drug_name ed))
      then [if \<not> skip \<and> wasCorrected (validateAndNormalizeDrugName svc (drug_name ed))
            then correctedName (validateAndNormalizeDrugName svc (drug_name ed))
            else drug_name ed]
      else [])"
  by (simp add: batch_validate_def Let_def)

text \<open>
  Claim C10. In a successful answer of the confirmation stage, the names of the returned
  medications are, in order, those of the medications of the request that are marked
  \<open>skipValidation\<close> or whose name passes validation; a medication whose name fails
  validation has no element in the answer, which consists of this list only. The name
  of a medication not marked \<open>skipValidation\<close> whose validation returns a correction
  is the corrected name, whatever the confidence; every other returned medication keeps
  its name. A correction always passes validation.
\<close>

theorem batch_correction_policy:
  assumes "batch_medications req = Some meds" and "generate_batch env req = Batch200 outs"
  shows "map (\<lambda>x. drug_name (result_extracted_data x)) outs =
           map (\<lambda>m. if \<not> skipValidation m
                          \<and> wasCorrected (validateAndNormalizeDrugName (batch_terminology env)
                                (drug_name (the (extracted_data m))))
                     then correctedName (validateAndNormalizeDrugName (batch_terminology env)
                                (drug_name (the (extracted_data m))))
                     else drug_name (the (extracted_data m)))
             (filter (\<lambda>m. skipValidation m
                          \<or> valid (validateAndNormalizeDrugName (batch_terminology env)
                                (drug_name (the (extracted_data m))))) meds)
         \<and> (\<forall>m \<in> set meds.
               wasCorrected (validateAndNormalizeDrugName (batch_terminology env)
                                (drug_name (the (extracted_data m))))
               \<longrightarrow> valid (validateAndNormalizeDrugName (batch_terminology env)
                                (drug_name (the (extracted_data m)))))"
proof -
  let ?svc = "batch_terminology env"
  from assms have loop: "batch_loop env (batch_patientContext req) (allMedicationNames_of meds)
      meds = Inr outs"
    by (auto simp: generate_batch_def split: sum.splits)
  have "map (\<lambda>x. drug_name (result_extracted_data x)) outs
        = map drug_name (map result_extracted_data outs)"
    by simp
  also have "\<dots> = map drug_name
       (concat (map (\<lambda>m. case batch_validate ?svc (skipValidation m)
                               (the (extracted_data m)) of
                          None \<Rightarrow> [] | Some ed' \<Rightarrow> [ed']) meds))"
    by (simp only: batch_loop_extracted [OF loop])
  also have "\<dots> = concat (map (\<lambda>m. map drug_name
       (case batch_validate ?svc (skipValidation m) (the (extracted_data m)) of
          None \<Rightarrow> [] | Some ed' \<Rightarrow> [ed'])) meds)"
    by (simp add: map_concat comp_def)
  also have "\<dots> = map (\<lambda>m. if \<not> skipValidation m
                          \<and> wasCorrected (validateAndNormalizeDrugName ?svc
                                (drug_name (the (extracted_data m))))
                     then correctedName (validateAndNormalizeDrugName ?svc
                                (drug_name (the (extracted_data m))))
                     else drug_name (the (extracted_data m)))
             (filter (\<lambda>m. skipValidation m
                          \<or> valid (validateAndNormalizeDrugName ?svc
                                (drug_name (the (extracted_data m))))) meds)"
    by (simp only: batch_validate_name concat_map_filter)
  finally have a: "map (\<lambda>x. drug_name (result_extracted_data x)) outs =
           map (\<lambda>m. if \<not> skipValidation m
                          \<and> wasCorrected (validateAndNormalizeDrugName ?svc
                                (drug_name (the (extracted_data m))))
                     then correctedName (validateAndNormalizeDrugName ?svc
                                (drug_name (the (extracted_data m))))
                     else drug_name (the (extracted_data m)))
             (filter (\<lambda>m. skipValidation m
                          \<or> valid (validateAndNormalizeDrugName ?svc
                                (drug_name (the (extracted_data m))))) meds)" .
  have b: "\<forall>m \<in> set meds.
               wasCorrected (validateAndNormalizeDrugName ?svc
                                (drug_name (the (extracted_data m))))
               \<longrightarrow> valid (validateAndNormalizeDrugName ?svc
                                (drug_name (the (extracted_data m))))"
    using wasCorrected_passes by (auto simp: passes_def)
  from a b show ?thesis by (rule conjI)
qed

lemma example_batch_runs:
  "case generate_batch example_batch_env
          \<lparr>batch_medications = Some example_batch, batch_patientContext = None\<rparr> of
     Batch200 outs \<Rightarrow> True | _ \<Rightarrow> False"
  by code_simp


lemma example_batch_validation1:
  "validateAndNormalizeDrugName (batch_terminology example_batch_env) (Some ''Listnopril'')
   = \<lparr>valid = True, originalName = Some ''Listnopril'', correctedName = Some ''Lisinopril'',
      confidence = 9 / 10, rxcui = Some ''29046'', wasCorrected = True, suggestions = None\<rparr>"
  by code_simp

lemma example_batch_validation2:
  "validateAndNormalizeDrugName (batch_terminology example_batch_env) (Some ''Xyzbcdefg'')
   = \<lparr>valid = False, originalName = Some ''Xyzbcdefg'', correctedName = None,
      confidence = 0, rxcui = None, wasCorrected = False,
      suggestions = Some [''Lisinopril'']\<rparr>"
  by code_simp

theorem batch_correction_policy_witness:
  "\<exists>outs. generate_batch example_batch_env
            \<lparr>batch_medications = Some example_batch, batch_patientContext = None\<rparr>
            = Batch200 outs
        \<and> map (\<lambda>x. drug_name (result_extracted_data x)) outs = [Some ''Lisinopril'']
        \<and> confidence (validateAndNormalizeDrugName (batch_terminology example_batch_env)
             (Some ''Listnopril'')) = 9 / 10"
proof -
  let ?req = "\<lparr>batch_medications = Some example_batch, batch_patientContext = None\<rparr>"
  from example_batch_runs obtain outs where
    run: "generate_batch example_batch_env ?req = Batch200 outs"
    by (cases "generate_batch example_batch_env ?req") simp_all
  have meds: "batch_medications ?req = Some example_batch" by simp
  have rhs: "map (\<lambda>m. if \<not> skipValidation m
                          \<and> wasCorrected (validateAndNormalizeDrugName
                                (batch_terminology example_batch_env)
                                (drug_name (the (extracted_data m))))
                     then correctedName (validateAndNormalizeDrugName
                                (batch_terminology example_batch_env)
                                (drug_name (the (extracted_data m))))
                     else drug_name (the (extracted_data m)))
             (filter (\<lambda>m. skipValidation m
                          \<or> valid (validateAndNormalizeDrugName
                                (batch_terminology example_batch_env)
                                (drug_name (the (extracted_data m))))) example_batch)
        = [Some ''Lisinopril'']"
    by (simp add: example_batch_def example_extracted_def example_batch_validation1
        example_batch_validation2)
  have conf: "confidence (validateAndNormalizeDrugName (batch_terminology example_batch_env)
             (Some ''Listnopril'')) = 9 / 10"
    by (simp add: example_batch_validation1)
  from batch_correction_policy [OF meds run] rhs
  have names: "map (\<lambda>x. drug_name (result_extracted_data x)) outs = [Some ''Lisinopril'']"
    by simp
  from run names conf show ?thesis
    by (intro exI [of _ outs] conjI)
qed


end
